theory Spec2Isabelle
  imports Complex_Main "HOL-Library.Word" "HOL-Library.AList"
begin

unbundle bit_operations_syntax

text \<open>Machine integers: record ids are \<open>uint64_t\<close>, S1AP ids and TEIDs \<open>uint32_t\<close>,
  bytes \<open>uint8_t\<close>.\<close>

type_synonym sub_id = "64 word"
type_synonym u32 = "32 word"
type_synonym u8 = "8 word"

section \<open>Library functions\<close>

text \<open>\<open>std::to_string\<close> of an unsigned number.\<close>

function to_string :: "nat \<Rightarrow> string" where
  "to_string n =
     (if n < 10 then [char_of (48 + n)]
      else to_string (n div 10) @ [char_of (48 + n mod 10)])"
  by pat_completeness auto
termination
  by (relation "measure id") auto

section \<open>Subscriber store (s1ap\_ue\_correlator.cpp)\<close>

text \<open>
  The store keeps \<open>SubscriberRecord\<close>s in \<open>subscriber_records_\<close>, keyed by a
  \<open>uint64_t\<close> id, and six identifier indexes that map an identifier value to a record
  id. The id 0 is the code's "not found" value. A \<open>SubscriberRecord*\<close> is modelled
  as the key of the record it points into (\<open>None\<close> is \<open>nullptr\<close>); records are
  never erased from the table, so such a key always denotes a live record.

  The table is an \<open>std::unordered_map\<close>; it is modelled as an association list in
  insertion order. The only places that iterate over it are the fallback scans of
  \<open>getOrCreateSubscriber\<close>, which are written out below as the loops they are.

  The drone and GPS fields of \<open>SubscriberRecord\<close> and the identifier-to-TEID side
  tables that \<open>processS1apFrame\<close> fills (\<open>imsi_to_teids_\<close>, \<open>teid_to_imsi_\<close>, ...)
  are never read by any function modelled here and are left out.
\<close>

record SubscriberRecord =
  imsi :: "string option"
  tmsi :: "string option"
  enb_ue_s1ap_id :: "u32 option"
  mme_ue_s1ap_id :: "u32 option"
  teids :: "u32 set"
  imeisv :: "string option"
  first_seen_timestamp :: "real option"
  last_seen_timestamp :: "real option"

definition new_SubscriberRecord :: SubscriberRecord where
  "new_SubscriberRecord =
     \<lparr>imsi = None, tmsi = None, enb_ue_s1ap_id = None, mme_ue_s1ap_id = None,
      teids = {}, imeisv = None, first_seen_timestamp = None, last_seen_timestamp = None\<rparr>"

record correlator =
  subscriber_records :: "(sub_id \<times> SubscriberRecord) list"
  next_subscriber_id :: sub_id
  imsi_to_subscriber_id :: "string \<rightharpoonup> sub_id"
  tmsi_to_subscriber_id :: "string \<rightharpoonup> sub_id"
  enb_ue_s1ap_id_to_subscriber_id :: "u32 \<rightharpoonup> sub_id"
  mme_ue_s1ap_id_to_subscriber_id :: "u32 \<rightharpoonup> sub_id"
  teid_to_subscriber_id :: "u32 \<rightharpoonup> sub_id"
  imeisv_to_subscriber_id :: "string \<rightharpoonup> sub_id"

text \<open>The constructor: no records, no index entries, \<open>next_subscriber_id_(1)\<close>.\<close>

definition new_correlator :: correlator where
  "new_correlator =
     \<lparr>subscriber_records = [], next_subscriber_id = 1,
      imsi_to_subscriber_id = Map.empty, tmsi_to_subscriber_id = Map.empty,
      enb_ue_s1ap_id_to_subscriber_id = Map.empty,
      mme_ue_s1ap_id_to_subscriber_id = Map.empty,
      teid_to_subscriber_id = Map.empty, imeisv_to_subscriber_id = Map.empty\<rparr>"

subsection \<open>The record table\<close>

text \<open>\<open>subscriber_records_.find(id)\<close>.\<close>

definition find_record :: "correlator \<Rightarrow> sub_id \<Rightarrow> SubscriberRecord option" where
  "find_record s k = map_of (subscriber_records s) k"

definition record_ids :: "correlator \<Rightarrow> sub_id set" where
  "record_ids s = fst ` set (subscriber_records s)"

text \<open>
  A write through a pointer or iterator into the table: the record under key \<open>k\<close> is
  replaced by \<open>f\<close> of it, in place. The callers check \<open>find(...) != end()\<close> first; a
  key that is not in the table leaves it as it is.
\<close>

fun modify_record ::
  "sub_id \<Rightarrow> (SubscriberRecord \<Rightarrow> SubscriberRecord) \<Rightarrow>
   (sub_id \<times> SubscriberRecord) list \<Rightarrow> (sub_id \<times> SubscriberRecord) list" where
  "modify_record k f [] = []"
| "modify_record k f ((k', r) # rest) =
     (if k' = k then (k', f r) # modify_record k f rest
      else (k', r) # modify_record k f rest)"

text \<open>\<open>&subscriber_records_[id]\<close>: \<open>operator[]\<close> inserts a default record when
  the key is new.\<close>

definition index_record ::
  "sub_id \<Rightarrow> (sub_id \<times> SubscriberRecord) list \<Rightarrow> (sub_id \<times> SubscriberRecord) list" where
  "index_record k recs =
     (case map_of recs k of
        None \<Rightarrow> recs @ [(k, new_SubscriberRecord)]
      | Some r \<Rightarrow> recs)"

text \<open>The field of the record a pointer points to (\<open>subscriber->imsi\<close>).\<close>

definition field_of :: "correlator \<Rightarrow> sub_id \<Rightarrow> (SubscriberRecord \<Rightarrow> 'a option) \<Rightarrow> 'a option" where
  "field_of s k f = (case find_record s k of None \<Rightarrow> None | Some r \<Rightarrow> f r)"

subsection \<open>Association operations\<close>

definition associateImsi :: "correlator \<Rightarrow> sub_id option \<Rightarrow> sub_id \<Rightarrow> string \<Rightarrow> correlator" where
  "associateImsi s subscriber subscriber_id new_imsi =
     (case subscriber of
        None \<Rightarrow> s
      | Some p \<Rightarrow>
          if subscriber_id = 0 then s
          else
            let idx1 = (case field_of s p imsi of
                          Some old_imsi \<Rightarrow> (imsi_to_subscriber_id s)(old_imsi := None)
                        | None \<Rightarrow> imsi_to_subscriber_id s)
            in s\<lparr>subscriber_records :=
                    modify_record p (\<lambda>r. r\<lparr>imsi := Some new_imsi\<rparr>) (subscriber_records s),
                  imsi_to_subscriber_id := idx1(new_imsi \<mapsto> subscriber_id)\<rparr>)"

definition associateTmsi :: "correlator \<Rightarrow> sub_id option \<Rightarrow> sub_id \<Rightarrow> string \<Rightarrow> correlator" where
  "associateTmsi s subscriber subscriber_id new_tmsi =
     (case subscriber of
        None \<Rightarrow> s
      | Some p \<Rightarrow>
          let idx1 = (case field_of s p tmsi of
                        Some old_tmsi \<Rightarrow> (tmsi_to_subscriber_id s)(old_tmsi := None)
                      | None \<Rightarrow> tmsi_to_subscriber_id s)
          in s\<lparr>subscriber_records :=
                  modify_record p (\<lambda>r. r\<lparr>tmsi := Some new_tmsi\<rparr>) (subscriber_records s),
                tmsi_to_subscriber_id := idx1(new_tmsi \<mapsto> subscriber_id)\<rparr>)"

definition associateImeisv :: "correlator \<Rightarrow> sub_id option \<Rightarrow> sub_id \<Rightarrow> string \<Rightarrow> correlator" where
  "associateImeisv s subscriber subscriber_id new_imeisv =
     (case subscriber of
        None \<Rightarrow> s
      | Some p \<Rightarrow>
          let idx1 = (case field_of s p imeisv of
                        Some old_imeisv \<Rightarrow> (imeisv_to_subscriber_id s)(old_imeisv := None)
                      | None \<Rightarrow> imeisv_to_subscriber_id s)
          in s\<lparr>subscriber_records :=
                  modify_record p (\<lambda>r. r\<lparr>imeisv := Some new_imeisv\<rparr>) (subscriber_records s),
                imeisv_to_subscriber_id := idx1(new_imeisv \<mapsto> subscriber_id)\<rparr>)"

text \<open>
  The two S1AP id associations first look the value up in the index. When it is indexed
  to another id, that record loses the field (the conflict branch); then the index entry
  of the value the subscriber held before is erased when it differs; then field and
  index are set. The writes go to the table by key, so a pointer and an id that denote
  the same record alias as they do in the source.
\<close>

definition associateEnbUeS1apId :: "correlator \<Rightarrow> sub_id option \<Rightarrow> sub_id \<Rightarrow> u32 \<Rightarrow> correlator" where
  "associateEnbUeS1apId s subscriber subscriber_id v =
     (case subscriber of
        None \<Rightarrow> s
      | Some p \<Rightarrow>
          let recs1 = (case enb_ue_s1ap_id_to_subscriber_id s v of
                         Some other_subscriber_id \<Rightarrow>
                           if other_subscriber_id = subscriber_id then subscriber_records s
                           else modify_record other_subscriber_id
                                  (\<lambda>r. r\<lparr>enb_ue_s1ap_id := None\<rparr>) (subscriber_records s)
                       | None \<Rightarrow> subscriber_records s);
              idx1 = (case (case map_of recs1 p of None \<Rightarrow> None | Some r \<Rightarrow> enb_ue_s1ap_id r) of
                        Some old \<Rightarrow>
                          if old = v then enb_ue_s1ap_id_to_subscriber_id s
                          else (enb_ue_s1ap_id_to_subscriber_id s)(old := None)
                      | None \<Rightarrow> enb_ue_s1ap_id_to_subscriber_id s)
          in s\<lparr>subscriber_records :=
                  modify_record p (\<lambda>r. r\<lparr>enb_ue_s1ap_id := Some v\<rparr>) recs1,
                enb_ue_s1ap_id_to_subscriber_id := idx1(v \<mapsto> subscriber_id)\<rparr>)"

definition associateMmeUeS1apId :: "correlator \<Rightarrow> sub_id option \<Rightarrow> sub_id \<Rightarrow> u32 \<Rightarrow> correlator" where
  "associateMmeUeS1apId s subscriber subscriber_id v =
     (case subscriber of
        None \<Rightarrow> s
      | Some p \<Rightarrow>
          let recs1 = (case mme_ue_s1ap_id_to_subscriber_id s v of
                         Some other_subscriber_id \<Rightarrow>
                           if other_subscriber_id = subscriber_id then subscriber_records s
                           else modify_record other_subscriber_id
                                  (\<lambda>r. r\<lparr>mme_ue_s1ap_id := None\<rparr>) (subscriber_records s)
                       | None \<Rightarrow> subscriber_records s);
              idx1 = (case (case map_of recs1 p of None \<Rightarrow> None | Some r \<Rightarrow> mme_ue_s1ap_id r) of
                        Some old \<Rightarrow>
                          if old = v then mme_ue_s1ap_id_to_subscriber_id s
                          else (mme_ue_s1ap_id_to_subscriber_id s)(old := None)
                      | None \<Rightarrow> mme_ue_s1ap_id_to_subscriber_id s)
          in s\<lparr>subscriber_records :=
                  modify_record p (\<lambda>r. r\<lparr>mme_ue_s1ap_id := Some v\<rparr>) recs1,
                mme_ue_s1ap_id_to_subscriber_id := idx1(v \<mapsto> subscriber_id)\<rparr>)"

definition associateTeid :: "correlator \<Rightarrow> sub_id option \<Rightarrow> sub_id \<Rightarrow> u32 \<Rightarrow> correlator" where
  "associateTeid s subscriber subscriber_id teid =
     (case subscriber of
        None \<Rightarrow> s
      | Some p \<Rightarrow>
          if subscriber_id = 0 then s
          else
            let recs1 = (case teid_to_subscriber_id s teid of
                           Some old_subscriber_id \<Rightarrow>
                             if old_subscriber_id = 0 then subscriber_records s
                             else if old_subscriber_id = subscriber_id then subscriber_records s
                             else modify_record old_subscriber_id
                                    (\<lambda>r. r\<lparr>teids := teids r - {teid}\<rparr>) (subscriber_records s)
                         | None \<Rightarrow> subscriber_records s)
            in s\<lparr>subscriber_records :=
                    modify_record p (\<lambda>r. r\<lparr>teids := insert teid (teids r)\<rparr>) recs1,
                  teid_to_subscriber_id := (teid_to_subscriber_id s)(teid \<mapsto> subscriber_id)\<rparr>)"

subsection \<open>Removal operations\<close>

definition removeImsiAssociation :: "correlator \<Rightarrow> string \<Rightarrow> correlator" where
  "removeImsiAssociation s v =
     (case imsi_to_subscriber_id s v of
        None \<Rightarrow> s
      | Some subscriber_id \<Rightarrow>
          if subscriber_id = 0 then s
          else s\<lparr>subscriber_records :=
                    modify_record subscriber_id (\<lambda>r. r\<lparr>imsi := None\<rparr>) (subscriber_records s),
                  imsi_to_subscriber_id := (imsi_to_subscriber_id s)(v := None)\<rparr>)"

definition removeTmsiAssociation :: "correlator \<Rightarrow> string \<Rightarrow> correlator" where
  "removeTmsiAssociation s v =
     (case tmsi_to_subscriber_id s v of
        None \<Rightarrow> s
      | Some subscriber_id \<Rightarrow>
          if subscriber_id = 0 then s
          else s\<lparr>subscriber_records :=
                    modify_record subscriber_id (\<lambda>r. r\<lparr>tmsi := None\<rparr>) (subscriber_records s),
                  tmsi_to_subscriber_id := (tmsi_to_subscriber_id s)(v := None)\<rparr>)"

definition removeEnbUeS1apIdAssociation :: "correlator \<Rightarrow> u32 \<Rightarrow> correlator" where
  "removeEnbUeS1apIdAssociation s v =
     (case enb_ue_s1ap_id_to_subscriber_id s v of
        None \<Rightarrow> s
      | Some subscriber_id \<Rightarrow>
          if subscriber_id = 0 then s
          else s\<lparr>subscriber_records :=
                    modify_record subscriber_id (\<lambda>r. r\<lparr>enb_ue_s1ap_id := None\<rparr>)
                      (subscriber_records s),
                  enb_ue_s1ap_id_to_subscriber_id :=
                    (enb_ue_s1ap_id_to_subscriber_id s)(v := None)\<rparr>)"

definition removeMmeUeS1apIdAssociation :: "correlator \<Rightarrow> u32 \<Rightarrow> correlator" where
  "removeMmeUeS1apIdAssociation s v =
     (case mme_ue_s1ap_id_to_subscriber_id s v of
        None \<Rightarrow> s
      | Some subscriber_id \<Rightarrow>
          if subscriber_id = 0 then s
          else s\<lparr>subscriber_records :=
                    modify_record subscriber_id (\<lambda>r. r\<lparr>mme_ue_s1ap_id := None\<rparr>)
                      (subscriber_records s),
                  mme_ue_s1ap_id_to_subscriber_id :=
                    (mme_ue_s1ap_id_to_subscriber_id s)(v := None)\<rparr>)"

definition removeTeidAssociation :: "correlator \<Rightarrow> u32 \<Rightarrow> correlator" where
  "removeTeidAssociation s v =
     (case teid_to_subscriber_id s v of
        None \<Rightarrow> s
      | Some subscriber_id \<Rightarrow>
          if subscriber_id = 0 then s
          else s\<lparr>subscriber_records :=
                    modify_record subscriber_id (\<lambda>r. r\<lparr>teids := teids r - {v}\<rparr>)
                      (subscriber_records s),
                  teid_to_subscriber_id := (teid_to_subscriber_id s)(v := None)\<rparr>)"

definition removeImeisvAssociation :: "correlator \<Rightarrow> string \<Rightarrow> correlator" where
  "removeImeisvAssociation s v =
     (case imeisv_to_subscriber_id s v of
        None \<Rightarrow> s
      | Some subscriber_id \<Rightarrow>
          if subscriber_id = 0 then s
          else s\<lparr>subscriber_records :=
                    modify_record subscriber_id (\<lambda>r. r\<lparr>imeisv := None\<rparr>) (subscriber_records s),
                  imeisv_to_subscriber_id := (imeisv_to_subscriber_id s)(v := None)\<rparr>)"

subsection \<open>getOrCreateSubscriber\<close>

text \<open>
  One step of the lookup chain: \<open>if (subscriber_id == 0 && key.has_value())\<close>, look
  the key up in the index and take the id found. (The first step, for the IMSI, has no
  test on \<open>subscriber_id\<close>, which is 0 there.)
\<close>

definition lookup_step :: "sub_id \<Rightarrow> 'k option \<Rightarrow> ('k \<rightharpoonup> sub_id) \<Rightarrow> sub_id" where
  "lookup_step subscriber_id key idx =
     (if subscriber_id = 0 then
        (case key of
           None \<Rightarrow> subscriber_id
         | Some k \<Rightarrow> (case idx k of None \<Rightarrow> subscriber_id | Some found \<Rightarrow> found))
      else subscriber_id)"

text \<open>The step that wants both S1AP ids indexed to the same record.\<close>

definition lookup_both ::
  "sub_id \<Rightarrow> u32 option \<Rightarrow> u32 option \<Rightarrow> (u32 \<rightharpoonup> sub_id) \<Rightarrow> (u32 \<rightharpoonup> sub_id) \<Rightarrow> sub_id" where
  "lookup_both subscriber_id mme enb mme_idx enb_idx =
     (if subscriber_id = 0 then
        (case (mme, enb) of
           (Some m, Some e) \<Rightarrow>
             (case (mme_idx m, enb_idx e) of
                (Some a, Some b) \<Rightarrow> if a = b then a else subscriber_id
              | _ \<Rightarrow> subscriber_id)
         | _ \<Rightarrow> subscriber_id)
      else subscriber_id)"

text \<open>
  First fallback loop: the record whose stored S1AP ids equal the requested ones;
  a second match resets the candidate to 0 and leaves the loop.
\<close>

fun scan_by_s1ap_id ::
  "u32 option \<Rightarrow> u32 option \<Rightarrow> (sub_id \<times> SubscriberRecord) list \<Rightarrow> sub_id \<Rightarrow> sub_id" where
  "scan_by_s1ap_id mme enb [] candidate = candidate"
| "scan_by_s1ap_id mme enb ((k, r) # rest) candidate =
     (let mme_matches = (mme = None \<or> (mme_ue_s1ap_id r \<noteq> None \<and> mme_ue_s1ap_id r = mme));
          enb_matches = (enb = None \<or> (enb_ue_s1ap_id r \<noteq> None \<and> enb_ue_s1ap_id r = enb))
      in if mme_matches \<and> enb_matches \<and>
            (mme_ue_s1ap_id r \<noteq> None \<or> enb_ue_s1ap_id r \<noteq> None)
         then (if candidate = 0 then scan_by_s1ap_id mme enb rest k else 0)
         else scan_by_s1ap_id mme enb rest candidate)"

text \<open>Second fallback loop: count the records that hold an IMSI or a TMSI and keep
  the first of them as the candidate.\<close>

fun scan_stable ::
  "(sub_id \<times> SubscriberRecord) list \<Rightarrow> nat \<Rightarrow> sub_id \<Rightarrow> nat \<times> sub_id" where
  "scan_stable [] candidate_count candidate_id = (candidate_count, candidate_id)"
| "scan_stable ((k, r) # rest) candidate_count candidate_id =
     (if imsi r \<noteq> None \<or> tmsi r \<noteq> None
      then scan_stable rest (candidate_count + 1) (if candidate_id = 0 then k else candidate_id)
      else scan_stable rest candidate_count candidate_id)"

text \<open>Third fallback loop: the highest id among the records with an IMSI or a TMSI.\<close>

fun scan_most_recent :: "(sub_id \<times> SubscriberRecord) list \<Rightarrow> sub_id \<Rightarrow> sub_id" where
  "scan_most_recent [] most_recent_id = most_recent_id"
| "scan_most_recent ((k, r) # rest) most_recent_id =
     (if (imsi r \<noteq> None \<or> tmsi r \<noteq> None) \<and> most_recent_id < k
      then scan_most_recent rest k
      else scan_most_recent rest most_recent_id)"

definition fallback_lookup ::
  "correlator \<Rightarrow> u32 option \<Rightarrow> u32 option \<Rightarrow> sub_id" where
  "fallback_lookup s mme enb =
     (let candidate_by_s1ap_id = scan_by_s1ap_id mme enb (subscriber_records s) 0
      in if candidate_by_s1ap_id = 0 then
           (case scan_stable (subscriber_records s) 0 0 of
              (candidate_count, candidate_id) \<Rightarrow>
                if candidate_count = 1 \<and> candidate_id \<noteq> 0 then candidate_id
                else if 1 < candidate_count \<and> candidate_id \<noteq> 0
                  then scan_most_recent (subscriber_records s) candidate_id
                else 0)
         else candidate_by_s1ap_id)"

text \<open>
  The search part of \<open>getOrCreateSubscriber\<close> (source lines 319 to 457): the id of
  the record the identifiers resolve to, or 0. Priority: IMSI, TMSI, IMEISV, both S1AP
  ids, MME id, eNB id, TEID, then the fallback for requests that carry S1AP ids only.
\<close>

definition find_subscriber ::
  "correlator \<Rightarrow> string option \<Rightarrow> string option \<Rightarrow> u32 option \<Rightarrow> u32 option \<Rightarrow>
   u32 option \<Rightarrow> string option \<Rightarrow> sub_id" where
  "find_subscriber s imsi_arg tmsi_arg enb mme teid imeisv_arg =
     (let id1 = lookup_step 0 imsi_arg (imsi_to_subscriber_id s);
          id2 = lookup_step id1 tmsi_arg (tmsi_to_subscriber_id s);
          id3 = lookup_step id2 imeisv_arg (imeisv_to_subscriber_id s);
          id4 = lookup_both id3 mme enb (mme_ue_s1ap_id_to_subscriber_id s)
                  (enb_ue_s1ap_id_to_subscriber_id s);
          id5 = lookup_step id4 mme (mme_ue_s1ap_id_to_subscriber_id s);
          id6 = lookup_step id5 enb (enb_ue_s1ap_id_to_subscriber_id s);
          id7 = lookup_step id6 teid (teid_to_subscriber_id s)
      in if id7 = 0 \<and> imsi_arg = None \<and> tmsi_arg = None \<and> imeisv_arg = None \<and>
            \<not> (mme = None \<and> enb = None)
         then fallback_lookup s mme enb
         else id7)"

text \<open>
  Creation (source lines 459 to 482): a search that ended with 0 takes the id
  \<open>next_subscriber_id_++\<close> (a \<open>uint64_t\<close>, so the increment wraps) and assigns a
  fresh record to it; then \<open>&subscriber_records_[subscriber_id]\<close> is taken.
\<close>

definition obtain_record :: "correlator \<Rightarrow> sub_id \<Rightarrow> correlator \<times> sub_id" where
  "obtain_record s found =
     (if found = 0 then
        (let subscriber_id = next_subscriber_id s
         in (s\<lparr>next_subscriber_id := next_subscriber_id s + 1,
               subscriber_records :=
                 index_record subscriber_id
                   (AList.update subscriber_id new_SubscriberRecord (subscriber_records s))\<rparr>,
             subscriber_id))
      else (s\<lparr>subscriber_records := index_record found (subscriber_records s)\<rparr>, found))"

text \<open>An association made only when the optional argument has a value.\<close>

definition when_given ::
  "'v option \<Rightarrow> (correlator \<Rightarrow> 'v \<Rightarrow> correlator) \<Rightarrow> correlator \<Rightarrow> correlator" where
  "when_given arg f s = (case arg of None \<Rightarrow> s | Some v \<Rightarrow> f s v)"

text \<open>
  The whole operation. It returns the new store and the pointer \<open>subscriber\<close>, which
  is never null; the pointer is the key \<open>subscriber_id\<close>, which is what the source
  passes with it to every association.
\<close>

definition getOrCreateSubscriber ::
  "correlator \<Rightarrow> string option \<Rightarrow> string option \<Rightarrow> u32 option \<Rightarrow> u32 option \<Rightarrow>
   u32 option \<Rightarrow> string option \<Rightarrow> correlator \<times> sub_id" where
  "getOrCreateSubscriber s imsi_arg tmsi_arg enb mme teid imeisv_arg =
     (case obtain_record s (find_subscriber s imsi_arg tmsi_arg enb mme teid imeisv_arg) of
        (s0, subscriber_id) \<Rightarrow>
          (let s1 = when_given imsi_arg (\<lambda>t. associateImsi t (Some subscriber_id) subscriber_id) s0;
               s2 = when_given tmsi_arg (\<lambda>t. associateTmsi t (Some subscriber_id) subscriber_id) s1;
               s3 = when_given enb (\<lambda>t. associateEnbUeS1apId t (Some subscriber_id) subscriber_id) s2;
               s4 = when_given mme (\<lambda>t. associateMmeUeS1apId t (Some subscriber_id) subscriber_id) s3;
               s5 = when_given teid (\<lambda>t. associateTeid t (Some subscriber_id) subscriber_id) s4;
               s6 = when_given imeisv_arg (\<lambda>t. associateImeisv t (Some subscriber_id) subscriber_id) s5
           in (s6, subscriber_id)))"

subsection \<open>Identifier normalisation\<close>

definition isdigit :: "char \<Rightarrow> bool" where
  "isdigit c = (48 \<le> (of_char c :: nat) \<and> (of_char c :: nat) \<le> 57)"

definition isxdigit :: "char \<Rightarrow> bool" where
  "isxdigit c =
     (isdigit c \<or> (65 \<le> (of_char c :: nat) \<and> (of_char c :: nat) \<le> 70)
        \<or> (97 \<le> (of_char c :: nat) \<and> (of_char c :: nat) \<le> 102))"

definition tolower :: "char \<Rightarrow> char" where
  "tolower c =
     (if 65 \<le> (of_char c :: nat) \<and> (of_char c :: nat) \<le> 90
      then char_of ((of_char c :: nat) + 32) else c)"

definition toupper :: "char \<Rightarrow> char" where
  "toupper c =
     (if 97 \<le> (of_char c :: nat) \<and> (of_char c :: nat) \<le> 122
      then char_of ((of_char c :: nat) - 32) else c)"

definition normalizeImsi :: "string \<Rightarrow> string" where
  "normalizeImsi x = filter isdigit x"

definition normalizeTmsi :: "string \<Rightarrow> string" where
  "normalizeTmsi x =
     (let normalized = map tolower (filter isxdigit x)
      in if 2 < length normalized \<and> take 2 normalized = ''0x''
         then drop 2 normalized else normalized)"

definition normalizeImeisv :: "string \<Rightarrow> string" where
  "normalizeImeisv x = normalizeImsi x"

subsection \<open>processS1apFrame\<close>

text \<open>
  The parser's result for one S1AP PDU (s1ap\_parser.h). The struct has no default
  member initialisers; \<open>pdu_type\<close> and \<open>procedure_code\<close> are only read after the
  parser has set them. \<open>information_elements\<close> is an \<open>unordered_map\<close> from IE name
  to the IE value as a hex string.
\<close>

datatype S1apPduType = INITIATING_MESSAGE | SUCCESSFUL_OUTCOME | UNSUCCESSFUL_OUTCOME

record S1apParseResult =
  decoded :: bool
  pdu_type :: S1apPduType
  procedure_code :: u8
  procedure_name :: string
  information_elements :: "(string \<times> string) list"
  raw_bytes :: "u8 list"
  s1ap_payload :: "u8 list"

text \<open>
  \<open>processS1apFrame\<close> first calls the parser's extractors on the parse result
  (\<open>extractTeidsFromS1ap\<close>, \<open>extractImsisFromS1ap\<close>, \<open>extractTmsisFromS1ap\<close>,
  \<open>extractImeisvsFromS1ap\<close>, \<open>extractS1apIds\<close>). They are pure functions of the
  frame; what they return for it is the argument \<open>ids\<close>: the identifiers the frame
  carries. \<open>s1ap_ids\<close> is the pair (MME-UE-S1AP-ID, eNB-UE-S1AP-ID).
\<close>

record frame_identifiers =
  teids_from_bytes :: "u32 list"
  imsis :: "string list"
  tmsis :: "string list"
  tmsi_teids :: "u32 list"
  imeisvs :: "string list"
  s1ap_ids :: "u32 option \<times> u32 option"

definition first_normalized :: "(string \<Rightarrow> string) \<Rightarrow> string list \<Rightarrow> string option" where
  "first_normalized nf xs = (case xs of [] \<Rightarrow> None | x # rest \<Rightarrow> Some (nf x))"

definition update_timestamps :: "real \<Rightarrow> SubscriberRecord \<Rightarrow> SubscriberRecord" where
  "update_timestamps timestamp r =
     r\<lparr>first_seen_timestamp :=
         (case first_seen_timestamp r of None \<Rightarrow> Some timestamp | Some t \<Rightarrow> Some t),
       last_seen_timestamp := Some timestamp\<rparr>"

definition is_UEContextReleaseComplete :: "S1apParseResult \<Rightarrow> bool" where
  "is_UEContextReleaseComplete s1ap_result =
     (procedure_code s1ap_result = 23 \<and> pdu_type s1ap_result = SUCCESSFUL_OUTCOME)"

text \<open>
  The result is the new store and the returned pointer (\<open>None\<close> for \<open>nullptr\<close>,
  when the frame carries no identifier). \<open>subscriber\<close> is the pointer that
  \<open>getOrCreateSubscriber\<close> returned; \<open>subscriber_id\<close> is looked up again in the
  indexes, as the source does.
\<close>

definition processS1apFrame ::
  "correlator \<Rightarrow> S1apParseResult \<Rightarrow> frame_identifiers \<Rightarrow> real \<Rightarrow> correlator \<times> sub_id option" where
  "processS1apFrame s s1ap_result ids timestamp =
     (let all_teids = teids_from_bytes ids @ tmsi_teids ids;
          imsi_norm = first_normalized normalizeImsi (imsis ids);
          tmsi_norm = first_normalized normalizeTmsi (tmsis ids);
          imeisv_norm = first_normalized normalizeImeisv (imeisvs ids);
          mme = fst (s1ap_ids ids);
          enb = snd (s1ap_ids ids)
      in if imsi_norm = None \<and> tmsi_norm = None \<and> imeisv_norm = None \<and> mme = None \<and> enb = None
         then (s, None)
         else
           (case getOrCreateSubscriber s imsi_norm tmsi_norm enb mme None imeisv_norm of
              (s1, subscriber) \<Rightarrow>
                (let id1 = lookup_step 0 imsi_norm (imsi_to_subscriber_id s1);
                     id2 = lookup_step id1 tmsi_norm (tmsi_to_subscriber_id s1);
                     id3 = lookup_step id2 imeisv_norm (imeisv_to_subscriber_id s1);
                     id4 = lookup_step id3 mme (mme_ue_s1ap_id_to_subscriber_id s1);
                     subscriber_id = lookup_step id4 enb (enb_ue_s1ap_id_to_subscriber_id s1);
                     s2 = (if subscriber_id = 0 then s1
                           else
                             (let a = when_given mme
                                        (\<lambda>t. associateMmeUeS1apId t (Some subscriber) subscriber_id) s1;
                                  b = when_given enb
                                        (\<lambda>t. associateEnbUeS1apId t (Some subscriber) subscriber_id) a
                              in foldl (\<lambda>t teid. associateTeid t (Some subscriber) subscriber_id teid)
                                   b all_teids));
                     s3 = (if 0 < timestamp
                           then s2\<lparr>subscriber_records :=
                                     modify_record subscriber (update_timestamps timestamp)
                                       (subscriber_records s2)\<rparr>
                           else s2);
                     s4 = (if is_UEContextReleaseComplete s1ap_result
                           then when_given enb removeEnbUeS1apIdAssociation
                                  (when_given mme removeMmeUeS1apIdAssociation s3)
                           else s3)
                 in (s4, Some subscriber))))"

subsection \<open>Sequences of store operations\<close>

text \<open>
  The public operations of the store, as a caller can issue them. An association takes a
  record pointer and the id of that record; a caller holds the pointer of a record that
  is in the table (the \<open>getSubscriberBy...\<close> functions return \<open>nullptr\<close> when there
  is none), and passes that record's own id with it.
\<close>

datatype store_op =
    GetOrCreateSubscriber "string option" "string option" "u32 option" "u32 option"
      "u32 option" "string option"
  | ProcessS1apFrame S1apParseResult frame_identifiers real
  | AssociateImsi sub_id string
  | AssociateTmsi sub_id string
  | AssociateImeisv sub_id string
  | AssociateEnbUeS1apId sub_id u32
  | AssociateMmeUeS1apId sub_id u32
  | AssociateTeid sub_id u32
  | RemoveImsiAssociation string
  | RemoveTmsiAssociation string
  | RemoveImeisvAssociation string
  | RemoveEnbUeS1apIdAssociation u32
  | RemoveMmeUeS1apIdAssociation u32
  | RemoveTeidAssociation u32

definition pointer_to :: "correlator \<Rightarrow> sub_id \<Rightarrow> sub_id option" where
  "pointer_to s k = (case find_record s k of None \<Rightarrow> None | Some r \<Rightarrow> Some k)"

fun apply_op :: "correlator \<Rightarrow> store_op \<Rightarrow> correlator" where
  "apply_op s (GetOrCreateSubscriber i t e m td iv) = fst (getOrCreateSubscriber s i t e m td iv)"
| "apply_op s (ProcessS1apFrame res ids ts) = fst (processS1apFrame s res ids ts)"
| "apply_op s (AssociateImsi k x) = associateImsi s (pointer_to s k) k x"
| "apply_op s (AssociateTmsi k x) = associateTmsi s (pointer_to s k) k x"
| "apply_op s (AssociateImeisv k x) = associateImeisv s (pointer_to s k) k x"
| "apply_op s (AssociateEnbUeS1apId k v) = associateEnbUeS1apId s (pointer_to s k) k v"
| "apply_op s (AssociateMmeUeS1apId k v) = associateMmeUeS1apId s (pointer_to s k) k v"
| "apply_op s (AssociateTeid k v) = associateTeid s (pointer_to s k) k v"
| "apply_op s (RemoveImsiAssociation x) = removeImsiAssociation s x"
| "apply_op s (RemoveTmsiAssociation x) = removeTmsiAssociation s x"
| "apply_op s (RemoveImeisvAssociation x) = removeImeisvAssociation s x"
| "apply_op s (RemoveEnbUeS1apIdAssociation v) = removeEnbUeS1apIdAssociation s v"
| "apply_op s (RemoveMmeUeS1apIdAssociation v) = removeMmeUeS1apIdAssociation s v"
| "apply_op s (RemoveTeidAssociation v) = removeTeidAssociation s v"

text \<open>The store after a sequence of operations on a freshly constructed correlator.\<close>

definition run_ops :: "store_op list \<Rightarrow> correlator" where
  "run_ops ops = foldl apply_op new_correlator ops"

subsection \<open>Invariants of the store\<close>

text \<open>Every id an index holds is the id of a record.\<close>

definition points_into :: "('k \<rightharpoonup> sub_id) \<Rightarrow> sub_id set \<Rightarrow> bool" where
  "points_into idx A = (\<forall>k v. idx k = Some v \<longrightarrow> v \<in> A)"

definition indexes_ok :: "correlator \<Rightarrow> bool" where
  "indexes_ok s =
     (points_into (imsi_to_subscriber_id s) (record_ids s) \<and>
      points_into (tmsi_to_subscriber_id s) (record_ids s) \<and>
      points_into (imeisv_to_subscriber_id s) (record_ids s) \<and>
      points_into (enb_ue_s1ap_id_to_subscriber_id s) (record_ids s) \<and>
      points_into (mme_ue_s1ap_id_to_subscriber_id s) (record_ids s) \<and>
      points_into (teid_to_subscriber_id s) (record_ids s))"

text \<open>The counter is not 0, no record has the id 0, and every record id is below the
  counter.\<close>

definition ids_ok :: "correlator \<Rightarrow> bool" where
  "ids_ok s =
     (next_subscriber_id s \<noteq> 0 \<and>
      (\<forall>k \<in> record_ids s. k \<noteq> 0 \<and> k < next_subscriber_id s))"

text \<open>One step of the id counter: either no record is created, or exactly the record
  with the id \<open>next_subscriber_id\<close>, and the counter moves up by one.\<close>

definition id_step :: "correlator \<Rightarrow> correlator \<Rightarrow> bool" where
  "id_step s s' =
     (record_ids s' = record_ids s \<and> next_subscriber_id s' = next_subscriber_id s \<or>
      record_ids s' = insert (next_subscriber_id s) (record_ids s) \<and>
      next_subscriber_id s' = next_subscriber_id s + 1)"

text \<open>Operations that leave the table's ids and the counter alone and keep the indexes
  pointing at records.\<close>

definition keeps_table :: "correlator \<Rightarrow> correlator \<Rightarrow> bool" where
  "keeps_table s t =
     (indexes_ok t \<and> record_ids t = record_ids s \<and> next_subscriber_id t = next_subscriber_id s)"

section \<open>Rule engine (rule\_engine.cc)\<close>

text \<open>
  The part of a \<open>CanonicalMessage\<close> that the rule engine and the codec below use.
  Fields whose names other records of this theory already have carry the prefix
  \<open>cm_\<close>. A frame number of 0 is "not set".
\<close>

record CanonicalMessage =
  spool_partition :: int
  spool_offset :: int
  frame_number :: int
  cm_procedure_code :: u8
  msg_type :: string
  cm_imsi :: string
  cm_tmsi :: string
  cm_imei :: string
  cm_raw_bytes :: "u8 list"
  decode_failed :: bool

text \<open>An evidence entry (\<open>SpoolOffset\<close>): the frame number is optional.\<close>

record SpoolOffset =
  offset_partition :: int
  offset_offset :: int
  offset_frame_number :: "int option"

text \<open>
  An \<open>Event\<close>, without its attribute map, timestamp and confidence, which no claim
  here is about (the attribute extraction reads the correlator's UE contexts).
\<close>

record Event =
  name :: string
  ev_subscriber_key :: string
  evidence :: "SpoolOffset list"
  ev_ruleset_id :: string
  ev_ruleset_version :: string

record SingleMessageRule =
  event_name :: string
  msg_type_pattern :: string

text \<open>\<open>time_window\<close> is a \<open>std::chrono::milliseconds\<close>: a count of milliseconds.\<close>

record SequenceRule =
  seq_event_name :: string
  first_msg_type :: string
  second_msg_type :: string
  time_window :: int

record Ruleset =
  rs_id :: string
  rs_version :: string
  single_message_rules :: "SingleMessageRule list"
  sequence_rules :: "SequenceRule list"









text \<open>The evidence entry of a message: partition, offset, and the frame number when it
  is not 0.\<close>

definition offset_of :: "CanonicalMessage \<Rightarrow> SpoolOffset" where
  "offset_of message =
     \<lparr>offset_partition = spool_partition message, offset_offset = spool_offset message,
      offset_frame_number =
        (if frame_number message = 0 then None else Some (frame_number message))\<rparr>"

text \<open>\<open>create_event\<close> puts the evidence entry of the current message into the event.\<close>

definition create_event ::
  "string \<Rightarrow> CanonicalMessage \<Rightarrow> string \<Rightarrow> string \<Rightarrow> string \<Rightarrow> Event" where
  "create_event event_name' message ruleset_id ruleset_version subscriber_key =
     \<lparr>name = event_name', ev_subscriber_key = subscriber_key,
      evidence = [offset_of message],
      ev_ruleset_id = ruleset_id, ev_ruleset_version = ruleset_version\<rparr>"

fun check_single_message_rules ::
  "CanonicalMessage \<Rightarrow> Ruleset \<Rightarrow> string \<Rightarrow> SingleMessageRule list \<Rightarrow> Event list" where
  "check_single_message_rules message ruleset subscriber_key [] = []"
| "check_single_message_rules message ruleset subscriber_key (rule # rest) =
     (if msg_type message = msg_type_pattern rule
      then create_event (event_name rule) message (rs_id ruleset) (rs_version ruleset)
             subscriber_key
           # check_single_message_rules message ruleset subscriber_key rest
      else check_single_message_rules message ruleset subscriber_key rest)"










subsection \<open>Notions for stating what the engine emits\<close>



definition single_message_events ::
  "Ruleset list \<Rightarrow> CanonicalMessage \<Rightarrow> string \<Rightarrow> Event list" where
  "single_message_events rss message subscriber_key =
     concat (map (\<lambda>ruleset. check_single_message_rules message ruleset subscriber_key
                               (single_message_rules ruleset)) rss)"

section \<open>The S1AP codec (\<open>s1ap_parser.cpp\<close>)\<close>

text \<open>
  The parser reads a byte buffer through a raw pointer. A read at an index is modelled by
  \<open>rd\<close>, which is the byte when the index is inside the buffer and the fault
  \<open>OutOfBounds\<close> (undefined behaviour in the source) when it is not; every
  \<open>packet[i]\<close> and \<open>s1ap_bytes[i]\<close> of the source is one \<open>rd\<close>. \<open>size_t\<close>
  offsets are natural numbers (a buffer is far shorter than \<open>2 ^ 64\<close>).
\<close>

datatype fault = OutOfBounds nat

definition rd :: "u8 list \<Rightarrow> nat \<Rightarrow> fault + u8" where
  "rd bytes i = (if i < length bytes then Inr (bytes ! i) else Inl (OutOfBounds i))"

definition bind_res :: "fault + 'a \<Rightarrow> ('a \<Rightarrow> fault + 'b) \<Rightarrow> fault + 'b" where
  "bind_res m f = (case m of Inl e \<Rightarrow> Inl e | Inr x \<Rightarrow> f x)"

text \<open>\<open>(hi << 8) | lo\<close> on two bytes promoted to \<open>int\<close>.\<close>

definition be16 :: "u8 \<Rightarrow> u8 \<Rightarrow> nat" where
  "be16 hi lo = unat hi * 256 + unat lo"

definition IP_PROTO_SCTP :: u8 where
  "IP_PROTO_SCTP = 132"

definition SCTP_CHUNK_DATA :: u8 where
  "SCTP_CHUNK_DATA = 0"

subsection \<open>\<open>extractS1apFromSctp\<close>\<close>

text \<open>The VLAN tag: the EtherType and the offset after it.\<close>

definition vlan_tag :: "u8 list \<Rightarrow> nat \<Rightarrow> nat \<Rightarrow> fault + nat \<times> nat" where
  "vlan_tag packet eth_type offset =
     (if (eth_type = 0x8100 \<or> eth_type = 0x88A8) \<and> offset + 4 \<le> length packet then
        bind_res (rd packet (offset + 2)) (\<lambda>hi.
        bind_res (rd packet (offset + 3)) (\<lambda>lo.
          Inr (be16 hi lo, offset + 4)))
      else Inr (eth_type, offset))"

text \<open>
  The loop over IPv6 extension headers; the first argument is what is left of the limit of
  8 headers. The result is the protocol and the offset after the loop, or \<open>None\<close> where
  the source returns \<open>nullopt\<close>.
\<close>

fun ipv6_ext_headers :: "u8 list \<Rightarrow> nat \<Rightarrow> u8 \<Rightarrow> nat \<Rightarrow> fault + (u8 \<times> nat) option" where
  "ipv6_ext_headers packet 0 protocol offset = Inr (Some (protocol, offset))"
| "ipv6_ext_headers packet (Suc left) protocol offset =
     (if protocol \<noteq> IP_PROTO_SCTP \<and> offset < length packet then
        if protocol = 0 \<or> protocol = 43 \<or> protocol = 44 \<or> protocol = 60 then
          if length packet < offset + 8 then Inr None
          else
            (case rd packet (offset + 1) of
               Inl e \<Rightarrow> Inl e
             | Inr ext_len \<Rightarrow>
                 let ext_header_len = (unat ext_len + 1) * 8 in
                 if length packet < offset + ext_header_len then Inr None
                 else
                   (case rd packet offset of
                      Inl e \<Rightarrow> Inl e
                    | Inr next_header \<Rightarrow>
                        ipv6_ext_headers packet left next_header (offset + ext_header_len)))
        else Inr (Some (protocol, offset))
      else Inr (Some (protocol, offset)))"

text \<open>The IP header: the protocol and the offset of what follows it.\<close>

definition ip_header :: "u8 list \<Rightarrow> nat \<Rightarrow> nat \<Rightarrow> fault + (u8 \<times> nat) option" where
  "ip_header packet eth_type offset =
     (if eth_type = 0x0800 then
        if length packet < offset + 20 then Inr None
        else
          bind_res (rd packet offset) (\<lambda>ver_ihl.
            if drop_bit 4 ver_ihl \<noteq> 4 then Inr None
            else
              let ip_header_len = unat (ver_ihl AND 0x0F) * 4 in
              if length packet < offset + ip_header_len then Inr None
              else
                bind_res (rd packet (offset + 9)) (\<lambda>protocol.
                  Inr (Some (protocol, offset + ip_header_len))))
      else if eth_type = 0x86DD then
        if length packet < offset + 40 then Inr None
        else
          bind_res (rd packet offset) (\<lambda>version.
            if drop_bit 4 version \<noteq> 6 then Inr None
            else
              bind_res (rd packet (offset + 6)) (\<lambda>protocol.
                ipv6_ext_headers packet 8 protocol (offset + 40)))
      else Inr None)"

text \<open>
  One SCTP chunk at \<open>offset\<close> (with \<open>offset + 4 \<le> len\<close>): the loop stops with a
  result (\<open>Inl\<close>: the payload, or \<open>None\<close> for \<open>nullopt\<close> and for \<open>break\<close>, after which
  the function returns \<open>nullopt\<close> as well) or goes on at the next chunk (\<open>Inr\<close>).
\<close>

definition sctp_chunk :: "u8 list \<Rightarrow> nat \<Rightarrow> fault + (u8 list option + nat)" where
  "sctp_chunk packet offset =
     bind_res (rd packet offset) (\<lambda>chunk_type.
     bind_res (rd packet (offset + 2)) (\<lambda>hi.
     bind_res (rd packet (offset + 3)) (\<lambda>lo.
       let chunk_len = be16 hi lo;
           next_chunk = offset + chunk_len + (4 - chunk_len mod 4) mod 4 in
       if chunk_len < 4 \<or> offset + chunk_len > length packet then Inr (Inl None)
       else if chunk_type = SCTP_CHUNK_DATA \<and> chunk_len \<ge> 16 then
         bind_res (rd packet (offset + 12)) (\<lambda>p0.
         bind_res (rd packet (offset + 13)) (\<lambda>p1.
         bind_res (rd packet (offset + 14)) (\<lambda>p2.
         bind_res (rd packet (offset + 15)) (\<lambda>p3.
           let payload_protocol_id :: u32 =
                 push_bit 24 (ucast p0) OR push_bit 16 (ucast p1) OR push_bit 8 (ucast p2) OR ucast p3;
               payload_offset = offset + 16;
               payload_len = chunk_len - 16 in
           if payload_protocol_id \<noteq> 18 then Inr (Inl None)
           else if payload_len > 0 \<and> payload_offset + payload_len \<le> length packet then
             Inr (Inl (Some (take payload_len (drop payload_offset packet))))
           else Inr (Inr next_chunk)))))
       else Inr (Inr next_chunk))))"

function sctp_chunks :: "u8 list \<Rightarrow> nat \<Rightarrow> fault + u8 list option" where
  "sctp_chunks packet offset =
     (if offset + 4 \<le> length packet then
        (case sctp_chunk packet offset of
           Inl e \<Rightarrow> Inl e
         | Inr (Inl found) \<Rightarrow> Inr found
         | Inr (Inr next_chunk) \<Rightarrow>
             sctp_chunks packet next_chunk)
      else Inr None)"
  by pat_completeness auto
termination
proof (relation "measure (\<lambda>(packet, offset). length packet - offset)")
  fix packet :: "u8 list" and offset next_chunk :: nat and step :: "u8 list option + nat"
  assume room: "offset + 4 \<le> length packet"
    and step: "sctp_chunk packet offset = Inr step" "step = Inr next_chunk"
  from step have "offset < next_chunk"
    by (auto simp add: sctp_chunk_def bind_res_def Let_def split: sum.splits if_splits)
  with room show "((packet, next_chunk), (packet, offset))
      \<in> measure (\<lambda>(packet, offset). length packet - offset)"
    by simp
qed simp

declare sctp_chunks.simps [simp del]

definition extractS1apFromSctp :: "u8 list \<Rightarrow> fault + u8 list option" where
  "extractS1apFromSctp packet =
     (if length packet < 14 then Inr None
      else
        bind_res (rd packet 12) (\<lambda>hi.
        bind_res (rd packet 13) (\<lambda>lo.
        bind_res (vlan_tag packet (be16 hi lo) 14) (\<lambda>(eth_type, offset).
        bind_res (ip_header packet eth_type offset) (\<lambda>header.
          case header of
            None \<Rightarrow> Inr None
          | Some (protocol, offset) \<Rightarrow>
              if protocol \<noteq> IP_PROTO_SCTP then Inr None
              else if length packet < offset + 12 then Inr None
              else sctp_chunks packet (offset + 12))))))"

subsection \<open>Names of procedures, information elements and messages\<close>

text \<open>\<open>getProcedureCodeName\<close>: the \<open>switch\<close> as a table; the default is \<open>Unknown\<close>.\<close>

definition procedure_code_names :: "(nat \<times> string) list" where
  "procedure_code_names =
     [(0, ''HandoverPreparation''),
      (1, ''HandoverResourceAllocation''),
      (2, ''HandoverNotification''),
      (3, ''PathSwitchRequest''),
      (4, ''HandoverCancel''),
      (5, ''E-RABSetup''),
      (6, ''E-RABModify''),
      (7, ''E-RABRelease''),
      (8, ''E-RABReleaseIndication''),
      (9, ''InitialContextSetup''),
      (10, ''Paging''),
      (11, ''downlinkNASTransport''),
      (12, ''initialUEMessage''),
      (13, ''uplinkNASTransport''),
      (14, ''Reset''),
      (15, ''ErrorIndication''),
      (16, ''NASNonDeliveryIndication''),
      (17, ''S1Setup''),
      (18, ''UEContextReleaseRequest''),
      (19, ''DownlinkS1cdma2000tunneling''),
      (20, ''UplinkS1cdma2000tunneling''),
      (21, ''UEContextModification''),
      (22, ''UECapabilityInfoIndication''),
      (23, ''UEContextRelease''),
      (24, ''eNBStatusTransfer''),
      (25, ''MMEStatusTransfer''),
      (26, ''DeactivateTrace''),
      (27, ''TraceStart''),
      (28, ''TraceFailureIndication''),
      (29, ''ENBConfigurationUpdate''),
      (30, ''MMEConfigurationUpdate''),
      (31, ''LocationReportingControl''),
      (32, ''LocationReportingFailureIndication''),
      (33, ''LocationReport''),
      (34, ''OverloadStart''),
      (35, ''OverloadStop''),
      (36, ''WriteReplaceWarning''),
      (37, ''eNBDirectInformationTransfer''),
      (38, ''MMEDirectInformationTransfer''),
      (39, ''PrivateMessage''),
      (40, ''eNBConfigurationTransfer''),
      (41, ''MMEConfigurationTransfer''),
      (42, ''CellTrafficTrace''),
      (43, ''Kill''),
      (44, ''downlinkUEAssociatedLPPaTransport''),
      (45, ''uplinkUEAssociatedLPPaTransport''),
      (46, ''downlinkNonUEAssociatedLPPaTransport''),
      (47, ''uplinkNonUEAssociatedLPPaTransport'')]"

definition getProcedureCodeName :: "u8 \<Rightarrow> string" where
  "getProcedureCodeName code =
     (case map_of procedure_code_names (unat code) of None \<Rightarrow> ''Unknown'' | Some n \<Rightarrow> n)"

text \<open>\<open>getIeNameFromId\<close>: the \<open>switch\<close> as a table; the default is \<open>IE_\<close> followed by
  the id in decimal.\<close>

definition ie_names :: "(nat \<times> string) list" where
  "ie_names =
     [(0, ''MME-UE-S1AP-ID''),
      (1, ''HandoverType''),
      (2, ''Cause''),
      (3, ''SourceID''),
      (4, ''TargetID''),
      (5, ''Unknown-5''),
      (6, ''Unknown-6''),
      (7, ''Unknown-7''),
      (8, ''eNB-UE-S1AP-ID''),
      (9, ''Unknown-9''),
      (10, ''Unknown-10''),
      (11, ''Unknown-11''),
      (12, ''E-RABSubjecttoDataForwardingList''),
      (13, ''E-RABtoReleaseListHOCmd''),
      (14, ''E-RABDataForwardingItem''),
      (15, ''E-RABReleaseItemBearerRelComp''),
      (16, ''E-RABToBeSetupListBearerSUReq''),
      (17, ''E-RABToBeSetupItemBearerSUReq''),
      (18, ''E-RABAdmittedList''),
      (19, ''E-RABFailedToSetupListHOReqAck''),
      (20, ''E-RABAdmittedItem''),
      (21, ''E-RABFailedtoSetupItemHOReqAck''),
      (22, ''E-RABToBeSwitchedDLList''),
      (23, ''E-RABToBeSwitchedDLItem''),
      (24, ''E-RABToBeSetupListCtxtSUReq''),
      (25, ''TraceActivation''),
      (26, ''NAS-PDU''),
      (27, ''E-RABToBeSetupItemHOReq''),
      (28, ''E-RABSetupListBearerSURes''),
      (29, ''E-RABFailedToSetupListBearerSURes''),
      (30, ''E-RABToBeModifiedListBearerModReq''),
      (31, ''E-RABModifyListBearerModRes''),
      (32, ''E-RABFailedToModifyList''),
      (33, ''E-RABToBeReleasedList''),
      (34, ''E-RABFailedToReleaseList''),
      (35, ''E-RABItem''),
      (36, ''E-RABToBeModifiedItemBearerModReq''),
      (37, ''E-RABModifyItemBearerModRes''),
      (38, ''E-RABReleaseItem''),
      (39, ''E-RABSetupItemBearerSURes''),
      (40, ''SecurityContext''),
      (41, ''HandoverRestrictionList''),
      (42, ''Unknown-42''),
      (43, ''UEPagingID''),
      (44, ''pagingDRX''),
      (45, ''Unknown-45''),
      (46, ''TAIList''),
      (47, ''TAIItem''),
      (48, ''E-RABFailedToSetupListCtxtSURes''),
      (49, ''E-RABReleaseItemHOCmd''),
      (50, ''E-RABSetupItemCtxtSURes''),
      (51, ''E-RABSetupListCtxtSURes''),
      (52, ''E-RABToBeSetupItemCtxtSUReq''),
      (53, ''E-RABToBeSetupListHOReq''),
      (54, ''Unknown-54''),
      (55, ''GERANtoLTEHOInformationRes''),
      (56, ''Unknown-56''),
      (57, ''UTRANtoLTEHOInformationRes''),
      (58, ''CriticalityDiagnostics''),
      (59, ''Global-ENB-ID''),
      (60, ''eNBname''),
      (61, ''MMEname''),
      (62, ''Unknown-62''),
      (63, ''ServedPLMNs''),
      (64, ''SupportedTAs''),
      (65, ''TimeToWait''),
      (66, ''uEaggregateMaximumBitrate''),
      (67, ''TAI''),
      (68, ''Unknown-68''),
      (69, ''E-RABReleaseListBearerRelComp''),
      (70, ''cdma2000PDU''),
      (71, ''cdma2000RATType''),
      (72, ''cdma2000SectorID''),
      (73, ''SecurityKey''),
      (74, ''UERadioCapability''),
      (75, ''GUMMEI-ID''),
      (76, ''Unknown-76''),
      (77, ''Unknown-77''),
      (78, ''E-RABInformationListItem''),
      (79, ''Direct-Forwarding-Path-Availability''),
      (80, ''UEIdentityIndexValue''),
      (81, ''Unknown-81''),
      (82, ''Unknown-82''),
      (83, ''cdma2000HOStatus''),
      (84, ''cdma2000HORequiredIndication''),
      (85, ''Unknown-85''),
      (86, ''E-UTRAN-Trace-ID''),
      (87, ''RelativeMMECapacity''),
      (88, ''SourceMME-UE-S1AP-ID''),
      (89, ''Bearers-SubjectToStatusTransfer-Item''),
      (90, ''eNB-StatusTransfer-TransparentContainer''),
      (91, ''UE-associatedLogicalS1-ConnectionItem''),
      (92, ''ResetType''),
      (93, ''UE-associatedLogicalS1-ConnectionListResAck''),
      (94, ''E-RABToBeSwitchedULItem''),
      (95, ''E-RABToBeSwitchedULList''),
      (96, ''S-TMSI''),
      (97, ''cdma2000OneXRAND''),
      (98, ''RequestType''),
      (99, ''UE-S1AP-IDs''),
      (100, ''EUTRAN-CGI''),
      (101, ''OverloadResponse''),
      (102, ''cdma2000OneXSRVCCInfo''),
      (103, ''E-RABFailedToBeReleasedList''),
      (104, ''Source-ToTarget-TransparentContainer''),
      (105, ''ServedGUMMEIs''),
      (106, ''SubscriberProfileIDforRFP''),
      (107, ''UESecurityCapabilities''),
      (108, ''CSFallbackIndicator''),
      (109, ''CNDomain''),
      (110, ''E-RABReleasedList''),
      (111, ''MessageIdentifier''),
      (112, ''SerialNumber''),
      (113, ''WarningAreaList''),
      (114, ''RepetitionPeriod''),
      (115, ''NumberofBroadcastRequest''),
      (116, ''WarningType''),
      (117, ''WarningSecurityInfo''),
      (118, ''DataCodingScheme''),
      (119, ''WarningMessageContents''),
      (120, ''BroadcastCompletedAreaList''),
      (121, ''Inter-SystemInformationTransferTypeEDT''),
      (122, ''Inter-SystemInformationTransferTypeMDT''),
      (123, ''Target-ToSource-TransparentContainer''),
      (124, ''SRVCCOperationPossible''),
      (125, ''SRVCCHOIndication''),
      (126, ''NAS-DownlinkCount''),
      (127, ''CSG-Id''),
      (128, ''CSG-IdList''),
      (129, ''SONConfigurationTransferECT''),
      (130, ''SONConfigurationTransferMCT''),
      (131, ''TraceCollectionEntityIPAddress''),
      (132, ''MSClassmark2''),
      (133, ''MSClassmark3''),
      (134, ''RRC-Establishment-Cause''),
      (135, ''NASSecurityParametersfromE-UTRAN''),
      (136, ''NASSecurityParameterstoE-UTRAN''),
      (137, ''DefaultPagingDRX''),
      (138, ''Source-ToTarget-TransparentContainer-Secondary''),
      (139, ''Target-ToSource-TransparentContainer-Secondary''),
      (140, ''EUTRANRoundTripDelayEstimationInfo''),
      (141, ''BroadcastCancelledAreaList''),
      (142, ''ConcurrentWarningMessageIndicator''),
      (143, ''Data-Forwarding-Not-Possible''),
      (144, ''ExtendedRepetitionPeriod''),
      (145, ''CellAccessMode''),
      (146, ''CSGMembershipStatus''),
      (147, ''LPPa-PDU''),
      (148, ''Routing-ID''),
      (149, ''Time-Synchronization-Info''),
      (150, ''PS-ServiceNotAvailable''),
      (151, ''PagingPriority''),
      (152, ''x2TNLConfigurationInfo''),
      (153, ''eNBX2ExtendedTransportLayerAddresses''),
      (154, ''GUMMEIList''),
      (155, ''GW-TransportLayerAddress''),
      (156, ''Correlation-ID''),
      (157, ''SourceMME-GUMMEI''),
      (158, ''MME-UE-S1AP-ID-2''),
      (159, ''RegisteredLAI''),
      (160, ''RelayNode-Indicator''),
      (161, ''TrafficLoadReductionIndication''),
      (162, ''MDTConfiguration''),
      (163, ''MMERelaySupportIndicator''),
      (164, ''GWContextReleaseIndication''),
      (165, ''ManagementBasedMDTAllowed'')]"

definition getIeNameFromId :: "nat \<Rightarrow> string" where
  "getIeNameFromId ie_id =
     (case map_of ie_names ie_id of None \<Rightarrow> ''IE_'' @ to_string ie_id | Some n \<Rightarrow> n)"

text \<open>
  \<open>map_procedure_to_msg_type\<close>: one block per procedure code, each an
  \<open>if\<close>/\<open>else if\<close> chain over the PDU type; here the blocks are the rows of a
  table. A pair that no block returns for falls through to the procedure name (for an
  initiating message as it is, otherwise \<open>Unknown\<close> when it is empty).
\<close>

definition msg_type_names :: "(nat \<times> (S1apPduType \<times> string) list) list" where
  "msg_type_names =
     [(0, [(INITIATING_MESSAGE, ''HandoverRequired''), (SUCCESSFUL_OUTCOME, ''HandoverCommand''), (UNSUCCESSFUL_OUTCOME, ''HandoverPreparationFailure'')]),
      (1, [(INITIATING_MESSAGE, ''HandoverRequest''), (SUCCESSFUL_OUTCOME, ''HandoverRequestAcknowledge''), (UNSUCCESSFUL_OUTCOME, ''HandoverFailure'')]),
      (2, [(INITIATING_MESSAGE, ''HandoverNotify'')]),
      (3, [(INITIATING_MESSAGE, ''PathSwitchRequest''), (SUCCESSFUL_OUTCOME, ''PathSwitchRequestAcknowledge''), (UNSUCCESSFUL_OUTCOME, ''PathSwitchRequestFailure'')]),
      (4, [(INITIATING_MESSAGE, ''HandoverCancel''), (SUCCESSFUL_OUTCOME, ''HandoverCancelAcknowledge'')]),
      (5, [(INITIATING_MESSAGE, ''E-RABSetupRequest''), (SUCCESSFUL_OUTCOME, ''E-RABSetupResponse'')]),
      (6, [(INITIATING_MESSAGE, ''E-RABModifyRequest''), (SUCCESSFUL_OUTCOME, ''E-RABModifyResponse'')]),
      (7, [(INITIATING_MESSAGE, ''E-RABReleaseCommand''), (SUCCESSFUL_OUTCOME, ''E-RABReleaseResponse'')]),
      (8, [(INITIATING_MESSAGE, ''E-RABReleaseIndication'')]),
      (9, [(INITIATING_MESSAGE, ''InitialContextSetupRequest''), (SUCCESSFUL_OUTCOME, ''InitialContextSetupResponse''), (UNSUCCESSFUL_OUTCOME, ''InitialContextSetupFailure'')]),
      (10, [(INITIATING_MESSAGE, ''Paging'')]),
      (11, [(INITIATING_MESSAGE, ''DownlinkNASTransport'')]),
      (12, [(INITIATING_MESSAGE, ''initialUEMessage'')]),
      (13, [(INITIATING_MESSAGE, ''UplinkNASTransport'')]),
      (14, [(INITIATING_MESSAGE, ''Reset''), (SUCCESSFUL_OUTCOME, ''ResetAcknowledge'')]),
      (15, [(INITIATING_MESSAGE, ''ErrorIndication'')]),
      (16, [(INITIATING_MESSAGE, ''NASNonDeliveryIndication'')]),
      (17, [(INITIATING_MESSAGE, ''S1SetupRequest''), (SUCCESSFUL_OUTCOME, ''S1SetupResponse''), (UNSUCCESSFUL_OUTCOME, ''S1SetupFailure'')]),
      (18, [(INITIATING_MESSAGE, ''UEContextReleaseRequest'')]),
      (19, [(INITIATING_MESSAGE, ''DownlinkS1cdma2000tunneling'')]),
      (20, [(INITIATING_MESSAGE, ''UplinkS1cdma2000tunneling'')]),
      (21, [(INITIATING_MESSAGE, ''UEContextModificationRequest''), (SUCCESSFUL_OUTCOME, ''UEContextModificationResponse''), (UNSUCCESSFUL_OUTCOME, ''UEContextModificationFailure'')]),
      (22, [(INITIATING_MESSAGE, ''UECapabilityInfoIndication'')]),
      (23, [(INITIATING_MESSAGE, ''UEContextReleaseCommand''), (SUCCESSFUL_OUTCOME, ''UEContextReleaseComplete'')]),
      (24, [(INITIATING_MESSAGE, ''ENBStatusTransfer'')]),
      (25, [(INITIATING_MESSAGE, ''MMEStatusTransfer'')]),
      (26, [(INITIATING_MESSAGE, ''DeactivateTrace'')]),
      (27, [(INITIATING_MESSAGE, ''TraceStart'')]),
      (28, [(INITIATING_MESSAGE, ''TraceFailureIndication'')]),
      (29, [(INITIATING_MESSAGE, ''ENBConfigurationUpdate''), (SUCCESSFUL_OUTCOME, ''ENBConfigurationUpdateAcknowledge''), (UNSUCCESSFUL_OUTCOME, ''ENBConfigurationUpdateFailure'')]),
      (30, [(INITIATING_MESSAGE, ''MMEConfigurationUpdate''), (SUCCESSFUL_OUTCOME, ''MMEConfigurationUpdateAcknowledge''), (UNSUCCESSFUL_OUTCOME, ''MMEConfigurationUpdateFailure'')]),
      (31, [(INITIATING_MESSAGE, ''LocationReportingControl'')]),
      (32, [(INITIATING_MESSAGE, ''LocationReportingFailureIndication'')]),
      (33, [(INITIATING_MESSAGE, ''LocationReport'')]),
      (34, [(INITIATING_MESSAGE, ''OverloadStart'')]),
      (35, [(INITIATING_MESSAGE, ''OverloadStop'')]),
      (36, [(INITIATING_MESSAGE, ''WriteReplaceWarningRequest''), (SUCCESSFUL_OUTCOME, ''WriteReplaceWarningResponse'')]),
      (37, [(INITIATING_MESSAGE, ''ENBDirectInformationTransfer'')]),
      (38, [(INITIATING_MESSAGE, ''MMEDirectInformationTransfer'')]),
      (39, [(INITIATING_MESSAGE, ''PrivateMessage'')]),
      (40, [(INITIATING_MESSAGE, ''ENBConfigurationTransfer'')]),
      (41, [(INITIATING_MESSAGE, ''MMEConfigurationTransfer'')]),
      (42, [(INITIATING_MESSAGE, ''CellTrafficTrace'')]),
      (43, [(INITIATING_MESSAGE, ''KillRequest''), (SUCCESSFUL_OUTCOME, ''KillResponse'')]),
      (44, [(INITIATING_MESSAGE, ''DownlinkUEAssociatedLPPaTransport'')]),
      (45, [(INITIATING_MESSAGE, ''UplinkUEAssociatedLPPaTransport'')]),
      (46, [(INITIATING_MESSAGE, ''DownlinkNonUEAssociatedLPPaTransport'')]),
      (47, [(INITIATING_MESSAGE, ''UplinkNonUEAssociatedLPPaTransport'')])]"

definition map_procedure_to_msg_type :: "u8 \<Rightarrow> S1apPduType \<Rightarrow> string \<Rightarrow> string" where
  "map_procedure_to_msg_type code ptype pname =
     (case (case map_of msg_type_names (unat code) of
              None \<Rightarrow> None | Some row \<Rightarrow> map_of row ptype) of
        Some n \<Rightarrow> n
      | None \<Rightarrow>
          if ptype = INITIATING_MESSAGE then pname
          else if pname = [] then ''Unknown'' else pname)"

subsection \<open>\<open>parseS1apPdu\<close>\<close>

text \<open>Two lowercase hexadecimal digits for a byte (\<open>std::hex\<close>, \<open>setw(2)\<close>,
  \<open>setfill('0')\<close>).\<close>

definition hex_digit :: "nat \<Rightarrow> char" where
  "hex_digit d = ''0123456789abcdef'' ! d"

definition hex_byte :: "u8 \<Rightarrow> string" where
  "hex_byte b = [hex_digit (unat b div 16), hex_digit (unat b mod 16)]"

definition hex_of :: "u8 list \<Rightarrow> string" where
  "hex_of bs = concat (map hex_byte bs)"

definition S1apPduType_of :: "u8 \<Rightarrow> S1apPduType" where
  "S1apPduType_of choice_index =
     (if choice_index = 0 then INITIATING_MESSAGE
      else if choice_index = 1 then SUCCESSFUL_OUTCOME
      else UNSUCCESSFUL_OUTCOME)"

text \<open>
  The length determinant of the sequence of information elements (lines 726 to 777), from
  the offset after the criticality, which is inside the buffer. The result is the parse
  result, the number of information elements and the offset of the first of them. The
  reads of \<open>second_byte\<close> and of \<open>num_ies\<close> come after the offset has moved and have no
  check of their own.
\<close>

definition sequence_length ::
  "u8 list \<Rightarrow> nat \<Rightarrow> S1apParseResult \<Rightarrow> fault + S1apParseResult \<times> u32 \<times> nat" where
  "sequence_length s1ap_bytes offset result =
     bind_res (rd s1ap_bytes offset) (\<lambda>length_byte.
       let offset = offset + 1 in
       bind_res (rd s1ap_bytes offset) (\<lambda>second_byte.
         let offset = offset + 2 in
         if length_byte AND 0x80 = 0 then
           bind_res (rd s1ap_bytes offset) (\<lambda>num_ies.
             Inr (result, ucast num_ies, offset + 1))
         else
           let num_length_bytes = (unat (length_byte AND 0x7F) * 256 + unat second_byte) mod 256;
               result = (if num_length_bytes > 4 \<or> offset + num_length_bytes > length s1ap_bytes
                         then result\<lparr>decoded := True\<rparr> else result);
               offset = offset + 1 in
           bind_res (rd s1ap_bytes offset) (\<lambda>num_ies.
             Inr (result, ucast num_ies, offset + 1))))"

text \<open>The bytes of an extended length, big-endian, into a \<open>uint32_t\<close>.\<close>

fun read_length :: "u8 list \<Rightarrow> nat \<Rightarrow> nat \<Rightarrow> u32 \<Rightarrow> fault + u32" where
  "read_length s1ap_bytes offset 0 value_length = Inr value_length"
| "read_length s1ap_bytes offset (Suc n) value_length =
     (case rd s1ap_bytes offset of
        Inl e \<Rightarrow> Inl e
      | Inr b \<Rightarrow> read_length s1ap_bytes (offset + 1) n (push_bit 8 value_length OR ucast b))"

text \<open>The length determinant of the value of an information element: the length and the
  offset of the value, or \<open>None\<close> where the loop breaks.\<close>

definition open_type_length :: "u8 list \<Rightarrow> nat \<Rightarrow> u8 \<Rightarrow> fault + (u32 \<times> nat) option" where
  "open_type_length s1ap_bytes offset value_length_byte =
     (if value_length_byte AND 0x80 = 0 then
        Inr (Some (ucast (value_length_byte AND 0x7F), offset))
      else
        let num_length_bytes = unat (value_length_byte AND 0x7F) + 1 in
        if num_length_bytes > 4 \<or> offset + num_length_bytes > length s1ap_bytes then Inr None
        else
          bind_res (read_length s1ap_bytes offset num_length_bytes 0) (\<lambda>value_length.
            Inr (Some (value_length, offset + num_length_bytes))))"

text \<open>
  One pass of the loop over the information elements, from an offset inside the buffer:
  the next offset and the elements so far, or \<open>None\<close> where the loop breaks. The second byte
  of the id is read with no check.
\<close>

definition protocol_ie ::
  "u8 list \<Rightarrow> nat \<Rightarrow> (string \<times> string) list
     \<Rightarrow> fault + (nat \<times> (string \<times> string) list) option" where
  "protocol_ie s1ap_bytes offset ies =
     bind_res (rd s1ap_bytes offset) (\<lambda>first_byte.
     bind_res (rd s1ap_bytes (offset + 1)) (\<lambda>low_byte.
       let ie_id = be16 first_byte low_byte;
           offset = offset + 2 in
       if offset \<ge> length s1ap_bytes then Inr None
       else
         bind_res (rd s1ap_bytes offset) (\<lambda>ie_criticality.
           let offset = offset + 1 in
           if offset \<ge> length s1ap_bytes then Inr None
           else
             bind_res (rd s1ap_bytes offset) (\<lambda>value_length_byte.
             bind_res (open_type_length s1ap_bytes (offset + 1) value_length_byte) (\<lambda>determinant.
               case determinant of
                 None \<Rightarrow> Inr None
               | Some (value_length, offset) \<Rightarrow>
                   if offset + unat value_length > length s1ap_bytes then Inr None
                   else
                     let ie_name = getIeNameFromId ie_id;
                         full_value_hex = hex_of (take (unat value_length) (drop offset s1ap_bytes)) in
                     Inr (Some (offset + unat value_length,
                                AList.update ie_name full_value_hex ies)))))))"

text \<open>The loop; the second argument is \<open>num_ies - ie_idx\<close>.\<close>

fun protocol_ies ::
  "u8 list \<Rightarrow> nat \<Rightarrow> nat \<Rightarrow> (string \<times> string) list \<Rightarrow> fault + (string \<times> string) list" where
  "protocol_ies s1ap_bytes 0 offset ies = Inr ies"
| "protocol_ies s1ap_bytes (Suc left) offset ies =
     (if offset < length s1ap_bytes then
        (case protocol_ie s1ap_bytes offset ies of
           Inl e \<Rightarrow> Inl e
         | Inr None \<Rightarrow> Inr ies
         | Inr (Some (next_offset, next_ies)) \<Rightarrow> protocol_ies s1ap_bytes left next_offset next_ies)
      else Inr ies)"

text \<open>
  \<open>parseS1apPdu\<close>. On the early returns with \<open>decoded = false\<close> the source leaves
  \<open>pdu_type\<close> and \<open>procedure_code\<close> uninitialised; the caller does not read them then, and
  the model shows the first enumerator and 0.
\<close>

definition parseS1apPdu :: "u8 list \<Rightarrow> fault + S1apParseResult" where
  "parseS1apPdu s1ap_bytes =
     (let len = length s1ap_bytes;
          result = \<lparr>decoded = False, pdu_type = INITIATING_MESSAGE, procedure_code = 0,
                    procedure_name = [], information_elements = [],
                    raw_bytes = s1ap_bytes, s1ap_payload = s1ap_bytes\<rparr>;
          offset = 0 in
      if len < 1 then Inr result
      else if offset \<ge> len then Inr result
      else
        bind_res (rd s1ap_bytes offset) (\<lambda>first_byte.
          let choice_index = drop_bit 5 first_byte AND 0x03;
              offset = offset + 1 in
          if choice_index > 2 then Inr result
          else
            let result = result\<lparr>pdu_type := S1apPduType_of choice_index\<rparr> in
            if offset \<ge> len then Inr result
            else
              bind_res (rd s1ap_bytes offset) (\<lambda>code.
                let result = result\<lparr>procedure_code := code,
                                      procedure_name := getProcedureCodeName code\<rparr>;
                    offset = offset + 1 in
                if offset \<ge> len then Inr (result\<lparr>decoded := True\<rparr>)
                else
                  let offset = offset + 1 in
                  if offset \<ge> len then Inr (result\<lparr>decoded := True\<rparr>)
                  else
                    bind_res (if offset < len then sequence_length s1ap_bytes offset result
                              else Inr (result, 0, offset)) (\<lambda>(result, num_ies, offset).
                    bind_res (protocol_ies s1ap_bytes (unat num_ies) offset
                                (information_elements result)) (\<lambda>ies.
                      Inr (result\<lparr>information_elements := ies, decoded := True\<rparr>))))))"

subsection \<open>The extractors on raw bytes and on the information elements\<close>

text \<open>The extractors that \<open>decode\<close> calls return no identifier, whatever the bytes.\<close>

definition extractImsiFromS1apBytes :: "u8 list \<Rightarrow> string list" where
  "extractImsiFromS1apBytes s1ap_bytes = []"

definition extractTmsiFromS1apBytes :: "u8 list \<Rightarrow> string list" where
  "extractTmsiFromS1apBytes s1ap_bytes = (if length s1ap_bytes < 4 then [] else [])"

definition extractImeisvFromS1apBytes :: "u8 list \<Rightarrow> string list" where
  "extractImeisvFromS1apBytes s1ap_bytes = []"

text \<open>\<open>extractTmsiFromIEList\<close>, which the correlator's extraction uses: the last 8
  hexadecimal digits of the S-TMSI element, in upper case.\<close>

definition extractTmsiFromIEList :: "(string \<times> string) list \<Rightarrow> string list" where
  "extractTmsiFromIEList ies =
     (case map_of ies ''S-TMSI'' of
        None \<Rightarrow> []
      | Some s_tmsi_hex \<Rightarrow>
          if s_tmsi_hex = [] then []
          else if length s_tmsi_hex < 10 then []
          else
            let m_tmsi_hex = drop (length s_tmsi_hex - 8) s_tmsi_hex;
                normalized = map toupper (filter isxdigit m_tmsi_hex) in
            if length normalized = 8 then [normalized] else [])"

subsection \<open>\<open>RealS1APDecoder::decode\<close>\<close>

text \<open>
  \<open>decode\<close> fills the canonical message it is given and returns whether it decoded. Of
  the message the model has the fields of \<open>CanonicalMessage\<close> above; the S1AP ids, the
  ECGI fields and the decoded tree, which \<open>decode\<close> sets from the information elements
  between the message type and the IMSI and after the IMEISV, are left out.
\<close>

definition decode :: "u8 list \<Rightarrow> CanonicalMessage \<Rightarrow> fault + bool \<times> CanonicalMessage" where
  "decode bytes canonical_message =
     (if bytes = [] then
        Inr (False, canonical_message\<lparr>decode_failed := True, cm_raw_bytes := bytes\<rparr>)
      else
        bind_res (extractS1apFromSctp bytes) (\<lambda>s1ap_opt.
          let s1ap_bytes = (case s1ap_opt of Some payload \<Rightarrow> payload | None \<Rightarrow> bytes) in
          bind_res (parseS1apPdu s1ap_bytes) (\<lambda>parse_result.
            if \<not> decoded parse_result then
              Inr (False, canonical_message\<lparr>decode_failed := True, cm_raw_bytes := bytes\<rparr>)
            else
              let cm = canonical_message
                         \<lparr>cm_procedure_code := procedure_code parse_result,
                          msg_type := map_procedure_to_msg_type (procedure_code parse_result)
                                        (pdu_type parse_result) (procedure_name parse_result)\<rparr>;
                  imsis = extractImsiFromS1apBytes s1ap_bytes;
                  cm = (if imsis \<noteq> [] then cm\<lparr>cm_imsi := hd imsis\<rparr> else cm);
                  tmsis = extractTmsiFromS1apBytes s1ap_bytes;
                  cm = (if tmsis \<noteq> [] then cm\<lparr>cm_tmsi := hd tmsis\<rparr> else cm);
                  imeisvs = extractImeisvFromS1apBytes s1ap_bytes;
                  cm = (if imeisvs \<noteq> [] then cm\<lparr>cm_imei := hd imeisvs\<rparr> else cm) in
              Inr (True, cm\<lparr>cm_raw_bytes := bytes, decode_failed := False\<rparr>))))"

section \<open>Write-ahead log (wal\_log.cc)\<close>

text \<open>
  A \<open>SignalMessage\<close> with the fields the log reads, and the \<open>SpoolRecord\<close> the log
  builds from it (without the append timestamp).
\<close>

record SignalMessage =
  source_id :: string
  source_sequence :: nat
  payload :: "u8 list"

record SpoolRecord =
  partition :: int
  offset :: int
  message :: SignalMessage

text \<open>
  \<open>WALLog::Config\<close>. \<open>num_partitions\<close> is a count; times are in milliseconds.
\<close>

record Config =
  num_partitions :: nat
  max_segment_size :: int
  max_retention_bytes :: int
  max_retention_seconds :: int
  fsync_on_append :: bool
  use_buffering :: bool
  fsync_interval :: int

text \<open>
  A segment's two files. The log file is the sequence of the serialised records written
  to it (each is preceded by a 4-byte length on disk); the index file is the sequence of
  its (offset, position) entries, 16 bytes each.
\<close>

record segment_files =
  log_data :: "u8 list list"
  idx_data :: "(int \<times> int) list"

text \<open>
  \<open>SegmentInfo\<close>. The two paths are determined by partition and base offset and are
  left out; \<open>log_file\<close> and \<open>idx_file\<close> are the two stream handles, here whether
  they are non-null.
\<close>

record SegmentInfo =
  seg_partition :: int
  base_offset :: int
  current_offset :: int
  file_size :: int
  log_file :: bool
  idx_file :: bool
  log_buffer :: "u8 list list"
  idx_buffer :: "(int \<times> int) list"
  last_fsync :: int

text \<open>
  The log: its configuration, the active segment of each partition, and the segment
  files on disk, keyed by (partition, base offset), in directory order.
\<close>

record WALLog =
  config :: Config
  active_segments :: "int \<rightharpoonup> SegmentInfo"
  disk :: "((int \<times> int) \<times> segment_files) list"

text \<open>
  What the log takes from outside: the string hash, protobuf's
  \<open>SerializeToString\<close> (\<open>None\<close> when it returns false), and whether a segment's
  log and index file can be opened for appending.
\<close>

record wal_env =
  hasher :: "string \<Rightarrow> nat"
  SerializeToString :: "SpoolRecord \<Rightarrow> u8 list option"
  can_open_log :: "int \<Rightarrow> int \<Rightarrow> bool"
  can_open_idx :: "int \<Rightarrow> int \<Rightarrow> bool"

text \<open>
  How a call can end without a result: a \<open>std::runtime_error\<close> with its message, or
  undefined behaviour (a dereferenced end iterator, a division by zero).
\<close>

datatype wal_error = RuntimeError string | UndefinedBehaviour

definition BUFFER_SIZE :: nat where
  "BUFFER_SIZE = 64 * 1024"

definition INDEX_ENTRY_SIZE :: nat where
  "INDEX_ENTRY_SIZE = 16"

text \<open>The constructor on an empty base directory.\<close>

definition new_WALLog :: "Config \<Rightarrow> WALLog" where
  "new_WALLog cfg = \<lparr>config = cfg, active_segments = Map.empty, disk = []\<rparr>"

text \<open>\<open>partition_for_message\<close>: the hash of \<open>source_id:source_sequence\<close> modulo the
  number of partitions; a count of 0 divides by zero.\<close>

definition partition_for_message :: "wal_env \<Rightarrow> WALLog \<Rightarrow> SignalMessage \<Rightarrow> wal_error + int" where
  "partition_for_message env s m =
     (if num_partitions (config s) = 0 then Inl UndefinedBehaviour
      else Inr (int (hasher env (source_id m @ '':'' @ to_string (source_sequence m))
                       mod num_partitions (config s))))"

text \<open>The bytes a buffer of records or of index entries holds.\<close>

definition log_bytes :: "u8 list list \<Rightarrow> nat" where
  "log_bytes entries = sum_list (map (\<lambda>e. 4 + length e) entries)"

definition idx_bytes :: "(int \<times> int) list \<Rightarrow> nat" where
  "idx_bytes entries = INDEX_ENTRY_SIZE * length entries"

text \<open>A write to one of the two files of a segment; opening for append has created
  them.\<close>

definition files_of :: "WALLog \<Rightarrow> int \<times> int \<Rightarrow> segment_files" where
  "files_of s k =
     (case map_of (disk s) k of None \<Rightarrow> \<lparr>log_data = [], idx_data = []\<rparr> | Some f \<Rightarrow> f)"

definition write_log :: "int \<times> int \<Rightarrow> u8 list list \<Rightarrow> WALLog \<Rightarrow> WALLog" where
  "write_log k entries s =
     s\<lparr>disk := AList.update k ((files_of s k)\<lparr>log_data := log_data (files_of s k) @ entries\<rparr>)
                 (disk s)\<rparr>"

definition write_idx :: "int \<times> int \<Rightarrow> (int \<times> int) list \<Rightarrow> WALLog \<Rightarrow> WALLog" where
  "write_idx k entries s =
     s\<lparr>disk := AList.update k ((files_of s k)\<lparr>idx_data := idx_data (files_of s k) @ entries\<rparr>)
                 (disk s)\<rparr>"

text \<open>
  \<open>open_segment_files\<close>: each handle that is null is opened for appending, which
  creates the file; a file that cannot be opened throws. The result is the new disk and
  segment, or the error with the disk as the failed call left it.
\<close>

definition open_segment_files ::
  "wal_env \<Rightarrow> WALLog \<Rightarrow> SegmentInfo \<Rightarrow> WALLog \<times> (wal_error + SegmentInfo)" where
  "open_segment_files env s seg =
     (let k = (seg_partition seg, base_offset seg) in
      if \<not> log_file seg \<and> \<not> can_open_log env (seg_partition seg) (base_offset seg)
      then (s, Inl (RuntimeError ''Failed to open log file''))
      else
        (let s1 = (if log_file seg then s else write_log k [] s);
             seg1 = seg\<lparr>log_file := True\<rparr>
         in if \<not> idx_file seg1 \<and> \<not> can_open_idx env (seg_partition seg) (base_offset seg)
            then (s1, Inl (RuntimeError ''Failed to open index file''))
            else ((if idx_file seg1 then s1 else write_idx k [] s1),
                  Inr (seg1\<lparr>idx_file := True\<rparr>))))"

text \<open>\<open>flush_segment_buffers\<close>: the buffers go to the files and are cleared.\<close>

definition flush_segment_buffers :: "WALLog \<Rightarrow> SegmentInfo \<Rightarrow> WALLog \<times> SegmentInfo" where
  "flush_segment_buffers s seg =
     (let k = (seg_partition seg, base_offset seg);
          flush_log = (log_file seg \<and> log_buffer seg \<noteq> []);
          s1 = (if flush_log then write_log k (log_buffer seg) s else s);
          seg1 = (if flush_log then seg\<lparr>log_buffer := []\<rparr> else seg);
          flush_idx = (idx_file seg1 \<and> idx_buffer seg1 \<noteq> []);
          s2 = (if flush_idx then write_idx k (idx_buffer seg1) s1 else s1);
          seg2 = (if flush_idx then seg1\<lparr>idx_buffer := []\<rparr> else seg1)
      in (s2, seg2))"

text \<open>\<open>rotate_segment\<close>: the active segment is flushed, closed and erased from
  \<open>active_segments_\<close>.\<close>

definition rotate_segment :: "WALLog \<Rightarrow> int \<Rightarrow> WALLog" where
  "rotate_segment s p =
     (case active_segments s p of
        None \<Rightarrow> s
      | Some seg \<Rightarrow>
          (case flush_segment_buffers s seg of
             (s1, seg1) \<Rightarrow> s1\<lparr>active_segments := (active_segments s1)(p := None)\<rparr>))"

text \<open>The directory scan of a partition: one past the highest base offset of its
  \<open>.log\<close> files, or 0.\<close>

fun scan_base_offset :: "int \<Rightarrow> ((int \<times> int) \<times> segment_files) list \<Rightarrow> int \<Rightarrow> int" where
  "scan_base_offset p [] base = base"
| "scan_base_offset p (((q, seg_offset), f) # rest) base =
     (if q = p \<and> base \<le> seg_offset then scan_base_offset p rest (seg_offset + 1)
      else scan_base_offset p rest base)"

text \<open>
  \<open>get_or_create_segment\<close>. With an active segment whose size has reached
  \<open>max_segment_size\<close> the source calls \<open>rotate_segment\<close>, looks the partition up
  again and dereferences the iterator, which is \<open>end()\<close> after the erase. Without an
  active segment a new one is made from the directory scan and registered once its files
  are open. The result is the segment that \<open>active_segments_\<close> then holds for the
  partition.
\<close>

definition get_or_create_segment ::
  "wal_env \<Rightarrow> WALLog \<Rightarrow> int \<Rightarrow> int \<Rightarrow> WALLog \<times> (wal_error + SegmentInfo)" where
  "get_or_create_segment env s p now =
     (case active_segments s p of
        Some seg \<Rightarrow>
          if max_segment_size (config s) \<le> file_size seg
          then (rotate_segment s p, Inl UndefinedBehaviour)
          else (s, Inr seg)
      | None \<Rightarrow>
          (let base = scan_base_offset p (disk s) 0;
               cur = (case map_of (disk s) (p, base) of
                        None \<Rightarrow> base
                      | Some f \<Rightarrow>
                          if 0 < idx_bytes (idx_data f)
                          then base + int (idx_bytes (idx_data f) div INDEX_ENTRY_SIZE)
                          else base);
               seg = \<lparr>seg_partition = p, base_offset = base, current_offset = cur,
                      file_size = 0, log_file = False, idx_file = False,
                      log_buffer = [], idx_buffer = [], last_fsync = now\<rparr>
           in case open_segment_files env s seg of
                (s1, Inl e) \<Rightarrow> (s1, Inl e)
              | (s1, Inr seg1) \<Rightarrow>
                  (s1\<lparr>active_segments := (active_segments s1)(p \<mapsto> seg1)\<rparr>, Inr seg1)))"

text \<open>
  The writes of \<open>append\<close> for one serialised record, on the segment after
  \<open>current_offset++\<close>: the record goes to the log buffer or file, \<open>file_size\<close>
  grows, the index entry goes to the index buffer or file, and the buffers are flushed
  when the fsync interval has passed.
\<close>

definition write_record ::
  "wal_env \<Rightarrow> WALLog \<Rightarrow> SegmentInfo \<Rightarrow> int \<Rightarrow> u8 list \<Rightarrow> int \<Rightarrow>
   WALLog \<times> (wal_error + SegmentInfo)" where
  "write_record env s seg off serialized now =
     (let k = (seg_partition seg, base_offset seg);
          position = file_size seg;
          logged =
            (if use_buffering (config s) \<and> log_file seg then
               (let seg1 = seg\<lparr>log_buffer := log_buffer seg @ [serialized]\<rparr>
                in if BUFFER_SIZE \<le> log_bytes (log_buffer seg1)
                   then (write_log k (log_buffer seg1) s, Inr (seg1\<lparr>log_buffer := []\<rparr>))
                   else (s, Inr seg1))
             else
               (case (if log_file seg then (s, Inr seg) else open_segment_files env s seg) of
                  (s1, Inl e) \<Rightarrow> (s1, Inl e)
                | (s1, Inr seg1) \<Rightarrow> (write_log k [serialized] s1, Inr seg1)))
      in case logged of
           (s1, Inl e) \<Rightarrow> (s1, Inl e)
         | (s1, Inr seg1) \<Rightarrow>
             (let seg2 = seg1\<lparr>file_size := file_size seg1 + 4 + int (length serialized)\<rparr>;
                  indexed =
                    (if use_buffering (config s) \<and> idx_file seg2 then
                       (let seg3 = seg2\<lparr>idx_buffer := idx_buffer seg2 @ [(off, position)]\<rparr>
                        in if BUFFER_SIZE \<le> idx_bytes (idx_buffer seg3)
                           then (write_idx k (idx_buffer seg3) s1, Inr (seg3\<lparr>idx_buffer := []\<rparr>))
                           else (s1, Inr seg3))
                     else
                       (case (if idx_file seg2 then (s1, Inr seg2)
                              else open_segment_files env s1 seg2) of
                          (s2, Inl e) \<Rightarrow> (s2, Inl e)
                        | (s2, Inr seg3) \<Rightarrow> (write_idx k [(off, position)] s2, Inr seg3)))
              in case indexed of
                   (s2, Inl e) \<Rightarrow> (s2, Inl e)
                 | (s2, Inr seg3) \<Rightarrow>
                     if fsync_on_append (config s) \<and>
                        fsync_interval (config s) \<le> now - last_fsync seg3
                     then (case flush_segment_buffers s2 seg3 of
                             (s3, seg4) \<Rightarrow> (s3, Inr (seg4\<lparr>last_fsync := now\<rparr>)))
                     else (s2, Inr seg3)))"

text \<open>
  \<open>append\<close>. The result is the log after the call and either the pair (partition,
  offset) or how the call failed. \<open>seg\<close> is a pointer into \<open>active_segments_\<close>, so
  every change to the segment is a change of the log, also when the call throws later:
  \<open>current_offset++\<close> comes before the record is serialised.
\<close>

definition store_segment :: "WALLog \<Rightarrow> int \<Rightarrow> SegmentInfo \<Rightarrow> WALLog" where
  "store_segment s p seg = s\<lparr>active_segments := (active_segments s)(p \<mapsto> seg)\<rparr>"

definition append ::
  "wal_env \<Rightarrow> WALLog \<Rightarrow> SignalMessage \<Rightarrow> int \<Rightarrow> WALLog \<times> (wal_error + int \<times> int)" where
  "append env s m now =
     (case partition_for_message env s m of
        Inl e \<Rightarrow> (s, Inl e)
      | Inr p \<Rightarrow>
          (case get_or_create_segment env s p now of
             (s1, Inl e) \<Rightarrow> (s1, Inl e)
           | (s1, Inr seg) \<Rightarrow>
               (let off = current_offset seg;
                    seg1 = seg\<lparr>current_offset := current_offset seg + 1\<rparr>;
                    s2 = store_segment s1 p seg1
                in case SerializeToString env \<lparr>partition = p, offset = off, message = m\<rparr> of
                     None \<Rightarrow> (s2, Inl (RuntimeError ''Failed to serialize SpoolRecord''))
                   | Some serialized \<Rightarrow>
                       (case write_record env s2 seg1 off serialized now of
                          (s3, Inl e) \<Rightarrow> (s3, Inl e)
                        | (s3, Inr seg2) \<Rightarrow> (store_segment s3 p seg2, Inr (p, off))))))"

text \<open>\<open>prune_old_segments\<close>: the body takes the lock and does nothing else.\<close>

definition prune_old_segments :: "WALLog \<Rightarrow> WALLog" where
  "prune_old_segments s = s"

text \<open>The segments of a partition on disk that are not its active segment, and the
  bytes a segment holds on disk.\<close>

definition closed_segments :: "WALLog \<Rightarrow> int \<Rightarrow> (int \<times> int) list" where
  "closed_segments s p =
     filter (\<lambda>k. fst k = p \<and>
                 (case active_segments s p of None \<Rightarrow> True | Some seg \<Rightarrow> base_offset seg \<noteq> snd k))
       (map fst (disk s))"

definition segment_bytes :: "WALLog \<Rightarrow> int \<times> int \<Rightarrow> nat" where
  "segment_bytes s k = log_bytes (log_data (files_of s k))"

definition partition_bytes :: "WALLog \<Rightarrow> int \<Rightarrow> nat" where
  "partition_bytes s p =
     sum_list (map (segment_bytes s) (filter (\<lambda>k. fst k = p) (map fst (disk s))))"

subsection \<open>Example frames and stores\<close>

definition initial_ue_message :: S1apParseResult where
  "initial_ue_message =
     \<lparr>decoded = True, pdu_type = INITIATING_MESSAGE, procedure_code = 12,
      procedure_name = ''initialUEMessage'', information_elements = [],
      raw_bytes = [], s1ap_payload = []\<rparr>"

definition uplink_nas_transport :: S1apParseResult where
  "uplink_nas_transport =
     \<lparr>decoded = True, pdu_type = INITIATING_MESSAGE, procedure_code = 13,
      procedure_name = ''uplinkNASTransport'', information_elements = [],
      raw_bytes = [], s1ap_payload = []\<rparr>"

definition ue_context_release_complete :: S1apParseResult where
  "ue_context_release_complete =
     \<lparr>decoded = True, pdu_type = SUCCESSFUL_OUTCOME, procedure_code = 23,
      procedure_name = ''UEContextRelease'', information_elements = [],
      raw_bytes = [], s1ap_payload = []\<rparr>"

definition carries :: "string list \<Rightarrow> string list \<Rightarrow> u32 option \<Rightarrow> u32 option \<Rightarrow> frame_identifiers" where
  "carries im tm mme enb =
     \<lparr>teids_from_bytes = [], imsis = im, tmsis = tm, tmsi_teids = [], imeisvs = [],
      s1ap_ids = (mme, enb)\<rparr>"

definition after_attach :: correlator where
  "after_attach =
     fst (processS1apFrame new_correlator initial_ue_message
            (carries [''001010123456789''] [] (Some 77) None) 1)"

definition after_release :: correlator where
  "after_release =
     fst (processS1apFrame after_attach ue_context_release_complete
            (carries [] [] (Some 77) None) 2)"

text \<open>A store with one attached subscriber: record 1 holds an IMSI, a TMSI and both
  S1AP ids, and every index points to it.\<close>

definition attached_store :: correlator where
  "attached_store =
     \<lparr>subscriber_records =
        [(1, \<lparr>imsi = Some ''001010123456789'', tmsi = Some ''deadbeef'',
              enb_ue_s1ap_id = Some 5, mme_ue_s1ap_id = Some 77, teids = {},
              imeisv = None, first_seen_timestamp = Some 1, last_seen_timestamp = Some 1\<rparr>)],
      next_subscriber_id = 2,
      imsi_to_subscriber_id = [''001010123456789'' \<mapsto> 1],
      tmsi_to_subscriber_id = [''deadbeef'' \<mapsto> 1],
      enb_ue_s1ap_id_to_subscriber_id = [5 \<mapsto> 1],
      mme_ue_s1ap_id_to_subscriber_id = [77 \<mapsto> 1],
      teid_to_subscriber_id = Map.empty, imeisv_to_subscriber_id = Map.empty\<rparr>"

text \<open>A store with two subscribers that are known by their IMSIs and have no S1AP ids,
  and the store after a UEContextReleaseComplete that carries the IMSI of the first of
  them and the MME-UE-S1AP-ID 77.\<close>

definition two_subscribers :: correlator where
  "two_subscribers =
     \<lparr>subscriber_records =
        [(1, \<lparr>imsi = Some ''001010123456789'', tmsi = None,
              enb_ue_s1ap_id = None, mme_ue_s1ap_id = None, teids = {},
              imeisv = None, first_seen_timestamp = Some 1, last_seen_timestamp = Some 1\<rparr>),
         (2, \<lparr>imsi = Some ''001010999999999'', tmsi = None,
              enb_ue_s1ap_id = None, mme_ue_s1ap_id = None, teids = {},
              imeisv = None, first_seen_timestamp = Some 2, last_seen_timestamp = Some 2\<rparr>)],
      next_subscriber_id = 3,
      imsi_to_subscriber_id = [''001010123456789'' \<mapsto> 1, ''001010999999999'' \<mapsto> 2],
      tmsi_to_subscriber_id = Map.empty,
      enb_ue_s1ap_id_to_subscriber_id = Map.empty,
      mme_ue_s1ap_id_to_subscriber_id = Map.empty,
      teid_to_subscriber_id = Map.empty, imeisv_to_subscriber_id = Map.empty\<rparr>"

definition released_first :: correlator where
  "released_first =
     fst (processS1apFrame two_subscribers ue_context_release_complete
            (carries [''001010123456789''] [] (Some 77) None) 3)"

text \<open>Three requests that reassign a TMSI, and the same three with an MME-UE-S1AP-ID.\<close>

definition tmsi_reassigned :: correlator where
  "tmsi_reassigned =
     fst (getOrCreateSubscriber
           (fst (getOrCreateSubscriber
                  (fst (getOrCreateSubscriber new_correlator
                          None (Some ''aabbccdd'') None None None None))
                  (Some ''001010123456789'') None None None None None))
           (Some ''001010123456789'') (Some ''aabbccdd'') None None None None)"

definition mme_reassigned :: correlator where
  "mme_reassigned =
     fst (getOrCreateSubscriber
           (fst (getOrCreateSubscriber
                  (fst (getOrCreateSubscriber new_correlator
                          None None None (Some 77) None None))
                  (Some ''001010123456789'') None None None None None))
           (Some ''001010123456789'') None None (Some 77) None None)"

subsection \<open>Example rules and messages\<close>














subsection \<open>Example logs\<close>

text \<open>An environment in which every file opens, the hash is the length of the key, and
  \<open>SerializeToString\<close> fails on a record whose payload is over 1000 bytes (standing
  for protobuf's size limit) and otherwise yields the payload.\<close>

definition example_env :: wal_env where
  "example_env =
     \<lparr>hasher = length,
      SerializeToString =
        (\<lambda>r. if 1000 < length (payload (message r)) then None
              else Some (payload (message r))),
      can_open_log = (\<lambda>p b. True), can_open_idx = (\<lambda>p b. True)\<rparr>"

definition small_config :: Config where
  "small_config =
     \<lparr>num_partitions = 1, max_segment_size = 16, max_retention_bytes = 10,
      max_retention_seconds = 60, fsync_on_append = True, use_buffering = True,
      fsync_interval = 100\<rparr>"

definition msg :: "nat \<Rightarrow> nat \<Rightarrow> SignalMessage" where
  "msg n len = \<lparr>source_id = ''a'', source_sequence = n, payload = replicate len 0\<rparr>"

definition after_one_append :: WALLog where
  "after_one_append = fst (append example_env (new_WALLog small_config) (msg 1 12) 0)"

definition after_failed_append :: WALLog where
  "after_failed_append = fst (append example_env (new_WALLog small_config) (msg 1 1001) 0)"

text \<open>A log with two closed segments and an active one, each closed segment holding
  one record of 100 bytes, over a retention limit of 10 bytes.\<close>

definition over_retention :: WALLog where
  "over_retention =
     \<lparr>config = small_config,
      active_segments =
        [0 \<mapsto> \<lparr>seg_partition = 0, base_offset = 2, current_offset = 2, file_size = 0,
                 log_file = True, idx_file = True, log_buffer = [], idx_buffer = [],
                 last_fsync = 0\<rparr>],
      disk = [((0, 0), \<lparr>log_data = [replicate 100 0], idx_data = [(0, 0)]\<rparr>),
              ((0, 1), \<lparr>log_data = [replicate 100 0], idx_data = [(1, 0)]\<rparr>),
              ((0, 2), \<lparr>log_data = [], idx_data = []\<rparr>)]\<rparr>"

subsection \<open>Byte buffers for the codec\<close>

definition blank_message :: CanonicalMessage where
  "blank_message =
     \<lparr>spool_partition = 0, spool_offset = 0, frame_number = 0, cm_procedure_code = 0,
      msg_type = [], cm_imsi = [], cm_tmsi = [], cm_imei = [], cm_raw_bytes = [],
      decode_failed = False\<rparr>"

text \<open>An initiating message of procedure 12 cut after the length byte.\<close>

definition truncated_pdu :: "u8 list" where
  "truncated_pdu = [0x00, 0x0C, 0x40, 0x00]"

text \<open>An initialUEMessage (initiating message, procedure 12) with one information element,
  the S-TMSI (id 96) of value \<open>00 DE AD BE EF\<close>.\<close>

definition s_tmsi_pdu :: "u8 list" where
  "s_tmsi_pdu =
     [0x00, 0x0C, 0x40, 0x0C, 0x00, 0x00, 0x01,
      0x00, 0x60, 0x40, 0x05, 0x00, 0xDE, 0xAD, 0xBE, 0xEF]"

section \<open>Subscriber store: proofs\<close>

lemma map_of_modify_record:
  "map_of (modify_record k f recs) k' =
     (if k' = k then map_option f (map_of recs k') else map_of recs k')"
  by (induction recs) auto

lemma map_fst_modify_record: "map fst (modify_record k f recs) = map fst recs"
  by (induction recs) auto

lemma keys_modify_record: "fst ` set (modify_record k f recs) = fst ` set recs"
  using map_fst_modify_record [of k f recs] by (metis set_map)

lemma map_of_index_record:
  "map_of (index_record k recs) k' =
     (if k' = k \<and> map_of recs k = None then Some new_SubscriberRecord else map_of recs k')"
  by (auto simp: index_record_def map_add_def split: option.splits)

lemma keys_index_record: "fst ` set (index_record k recs) = insert k (fst ` set recs)"
proof (cases "map_of recs k")
  case None
  then show ?thesis by (simp add: index_record_def)
next
  case (Some r)
  then have "k \<in> fst ` set recs"
    by (metis domI dom_map_of_conv_image_fst)
  with Some show ?thesis by (auto simp: index_record_def)
qed

lemmas store_defs = associateImsi_def associateTmsi_def associateImeisv_def
  associateEnbUeS1apId_def associateMmeUeS1apId_def associateTeid_def
  removeImsiAssociation_def removeTmsiAssociation_def removeImeisvAssociation_def
  removeEnbUeS1apIdAssociation_def removeMmeUeS1apIdAssociation_def removeTeidAssociation_def

lemmas view_defs = field_of_def find_record_def record_ids_def map_of_modify_record keys_modify_record Let_def

(* imsi field preserved *)
lemma imsi_field_preserved:
  "field_of (associateTmsi s ptr sid x) k imsi = field_of s k imsi"
  "field_of (associateImeisv s ptr sid x) k imsi = field_of s k imsi"
  "field_of (associateEnbUeS1apId s ptr sid v) k imsi = field_of s k imsi"
  "field_of (associateMmeUeS1apId s ptr sid v) k imsi = field_of s k imsi"
  "field_of (associateTeid s ptr sid v) k imsi = field_of s k imsi"
  "field_of (removeTmsiAssociation s x) k imsi = field_of s k imsi"
  "field_of (removeImeisvAssociation s x) k imsi = field_of s k imsi"
  "field_of (removeEnbUeS1apIdAssociation s v) k imsi = field_of s k imsi"
  "field_of (removeMmeUeS1apIdAssociation s v) k imsi = field_of s k imsi"
  "field_of (removeTeidAssociation s v) k imsi = field_of s k imsi"
  by (auto simp: store_defs view_defs split: option.splits)

lemma has_record_iff: "k \<in> record_ids s \<longleftrightarrow> find_record s k \<noteq> None"
  by (simp add: record_ids_def find_record_def map_of_eq_None_iff)

text \<open>What each operation leaves alone: the set of record ids, the id counter, the
  fields of other kinds and the indexes of other kinds.\<close>

lemma op_record_ids [simp]:
  "record_ids (associateImsi s ptr sid x) = record_ids s"
  "record_ids (associateTmsi s ptr sid x) = record_ids s"
  "record_ids (associateImeisv s ptr sid x) = record_ids s"
  "record_ids (associateEnbUeS1apId s ptr sid v) = record_ids s"
  "record_ids (associateMmeUeS1apId s ptr sid v) = record_ids s"
  "record_ids (associateTeid s ptr sid v) = record_ids s"
  "record_ids (removeImsiAssociation s x) = record_ids s"
  "record_ids (removeTmsiAssociation s x) = record_ids s"
  "record_ids (removeImeisvAssociation s x) = record_ids s"
  "record_ids (removeEnbUeS1apIdAssociation s v) = record_ids s"
  "record_ids (removeMmeUeS1apIdAssociation s v) = record_ids s"
  "record_ids (removeTeidAssociation s v) = record_ids s"
  by (auto simp: store_defs view_defs split: option.splits)

lemma op_next_subscriber_id [simp]:
  "next_subscriber_id (associateImsi s ptr sid x) = next_subscriber_id s"
  "next_subscriber_id (associateTmsi s ptr sid x) = next_subscriber_id s"
  "next_subscriber_id (associateImeisv s ptr sid x) = next_subscriber_id s"
  "next_subscriber_id (associateEnbUeS1apId s ptr sid v) = next_subscriber_id s"
  "next_subscriber_id (associateMmeUeS1apId s ptr sid v) = next_subscriber_id s"
  "next_subscriber_id (associateTeid s ptr sid v) = next_subscriber_id s"
  "next_subscriber_id (removeImsiAssociation s x) = next_subscriber_id s"
  "next_subscriber_id (removeTmsiAssociation s x) = next_subscriber_id s"
  "next_subscriber_id (removeImeisvAssociation s x) = next_subscriber_id s"
  "next_subscriber_id (removeEnbUeS1apIdAssociation s v) = next_subscriber_id s"
  "next_subscriber_id (removeMmeUeS1apIdAssociation s v) = next_subscriber_id s"
  "next_subscriber_id (removeTeidAssociation s v) = next_subscriber_id s"
  by (auto simp: store_defs view_defs split: option.splits)

lemma op_keeps_imsi [simp]:
  "field_of (associateTmsi s ptr sid x) k imsi = field_of s k imsi"
  "field_of (associateImeisv s ptr sid x) k imsi = field_of s k imsi"
  "field_of (associateEnbUeS1apId s ptr sid v) k imsi = field_of s k imsi"
  "field_of (associateMmeUeS1apId s ptr sid v) k imsi = field_of s k imsi"
  "field_of (associateTeid s ptr sid v) k imsi = field_of s k imsi"
  "field_of (removeTmsiAssociation s x) k imsi = field_of s k imsi"
  "field_of (removeImeisvAssociation s x) k imsi = field_of s k imsi"
  "field_of (removeEnbUeS1apIdAssociation s v) k imsi = field_of s k imsi"
  "field_of (removeMmeUeS1apIdAssociation s v) k imsi = field_of s k imsi"
  "field_of (removeTeidAssociation s v) k imsi = field_of s k imsi"
  by (auto simp: store_defs view_defs split: option.splits)

lemma op_keeps_tmsi [simp]:
  "field_of (associateImsi s ptr sid x) k tmsi = field_of s k tmsi"
  "field_of (associateImeisv s ptr sid x) k tmsi = field_of s k tmsi"
  "field_of (associateEnbUeS1apId s ptr sid v) k tmsi = field_of s k tmsi"
  "field_of (associateMmeUeS1apId s ptr sid v) k tmsi = field_of s k tmsi"
  "field_of (associateTeid s ptr sid v) k tmsi = field_of s k tmsi"
  "field_of (removeImsiAssociation s x) k tmsi = field_of s k tmsi"
  "field_of (removeImeisvAssociation s x) k tmsi = field_of s k tmsi"
  "field_of (removeEnbUeS1apIdAssociation s v) k tmsi = field_of s k tmsi"
  "field_of (removeMmeUeS1apIdAssociation s v) k tmsi = field_of s k tmsi"
  "field_of (removeTeidAssociation s v) k tmsi = field_of s k tmsi"
  by (auto simp: store_defs view_defs split: option.splits)

lemma op_keeps_imeisv [simp]:
  "field_of (associateImsi s ptr sid x) k imeisv = field_of s k imeisv"
  "field_of (associateTmsi s ptr sid x) k imeisv = field_of s k imeisv"
  "field_of (associateEnbUeS1apId s ptr sid v) k imeisv = field_of s k imeisv"
  "field_of (associateMmeUeS1apId s ptr sid v) k imeisv = field_of s k imeisv"
  "field_of (associateTeid s ptr sid v) k imeisv = field_of s k imeisv"
  "field_of (removeImsiAssociation s x) k imeisv = field_of s k imeisv"
  "field_of (removeTmsiAssociation s x) k imeisv = field_of s k imeisv"
  "field_of (removeEnbUeS1apIdAssociation s v) k imeisv = field_of s k imeisv"
  "field_of (removeMmeUeS1apIdAssociation s v) k imeisv = field_of s k imeisv"
  "field_of (removeTeidAssociation s v) k imeisv = field_of s k imeisv"
  by (auto simp: store_defs view_defs split: option.splits)

lemma op_keeps_enb_ue_s1ap_id [simp]:
  "field_of (associateImsi s ptr sid x) k enb_ue_s1ap_id = field_of s k enb_ue_s1ap_id"
  "field_of (associateTmsi s ptr sid x) k enb_ue_s1ap_id = field_of s k enb_ue_s1ap_id"
  "field_of (associateImeisv s ptr sid x) k enb_ue_s1ap_id = field_of s k enb_ue_s1ap_id"
  "field_of (associateMmeUeS1apId s ptr sid v) k enb_ue_s1ap_id = field_of s k enb_ue_s1ap_id"
  "field_of (associateTeid s ptr sid v) k enb_ue_s1ap_id = field_of s k enb_ue_s1ap_id"
  "field_of (removeImsiAssociation s x) k enb_ue_s1ap_id = field_of s k enb_ue_s1ap_id"
  "field_of (removeTmsiAssociation s x) k enb_ue_s1ap_id = field_of s k enb_ue_s1ap_id"
  "field_of (removeImeisvAssociation s x) k enb_ue_s1ap_id = field_of s k enb_ue_s1ap_id"
  "field_of (removeMmeUeS1apIdAssociation s v) k enb_ue_s1ap_id = field_of s k enb_ue_s1ap_id"
  "field_of (removeTeidAssociation s v) k enb_ue_s1ap_id = field_of s k enb_ue_s1ap_id"
  by (auto simp: store_defs view_defs split: option.splits)

lemma op_keeps_mme_ue_s1ap_id [simp]:
  "field_of (associateImsi s ptr sid x) k mme_ue_s1ap_id = field_of s k mme_ue_s1ap_id"
  "field_of (associateTmsi s ptr sid x) k mme_ue_s1ap_id = field_of s k mme_ue_s1ap_id"
  "field_of (associateImeisv s ptr sid x) k mme_ue_s1ap_id = field_of s k mme_ue_s1ap_id"
  "field_of (associateEnbUeS1apId s ptr sid v) k mme_ue_s1ap_id = field_of s k mme_ue_s1ap_id"
  "field_of (associateTeid s ptr sid v) k mme_ue_s1ap_id = field_of s k mme_ue_s1ap_id"
  "field_of (removeImsiAssociation s x) k mme_ue_s1ap_id = field_of s k mme_ue_s1ap_id"
  "field_of (removeTmsiAssociation s x) k mme_ue_s1ap_id = field_of s k mme_ue_s1ap_id"
  "field_of (removeImeisvAssociation s x) k mme_ue_s1ap_id = field_of s k mme_ue_s1ap_id"
  "field_of (removeEnbUeS1apIdAssociation s v) k mme_ue_s1ap_id = field_of s k mme_ue_s1ap_id"
  "field_of (removeTeidAssociation s v) k mme_ue_s1ap_id = field_of s k mme_ue_s1ap_id"
  by (auto simp: store_defs view_defs split: option.splits)

lemma op_keeps_imsi_to_subscriber_id [simp]:
  "imsi_to_subscriber_id (associateTmsi s ptr sid x) = imsi_to_subscriber_id s"
  "imsi_to_subscriber_id (associateImeisv s ptr sid x) = imsi_to_subscriber_id s"
  "imsi_to_subscriber_id (associateEnbUeS1apId s ptr sid v) = imsi_to_subscriber_id s"
  "imsi_to_subscriber_id (associateMmeUeS1apId s ptr sid v) = imsi_to_subscriber_id s"
  "imsi_to_subscriber_id (associateTeid s ptr sid v) = imsi_to_subscriber_id s"
  "imsi_to_subscriber_id (removeTmsiAssociation s x) = imsi_to_subscriber_id s"
  "imsi_to_subscriber_id (removeImeisvAssociation s x) = imsi_to_subscriber_id s"
  "imsi_to_subscriber_id (removeEnbUeS1apIdAssociation s v) = imsi_to_subscriber_id s"
  "imsi_to_subscriber_id (removeMmeUeS1apIdAssociation s v) = imsi_to_subscriber_id s"
  "imsi_to_subscriber_id (removeTeidAssociation s v) = imsi_to_subscriber_id s"
  by (auto simp: store_defs view_defs split: option.splits)

lemma op_keeps_tmsi_to_subscriber_id [simp]:
  "tmsi_to_subscriber_id (associateImsi s ptr sid x) = tmsi_to_subscriber_id s"
  "tmsi_to_subscriber_id (associateImeisv s ptr sid x) = tmsi_to_subscriber_id s"
  "tmsi_to_subscriber_id (associateEnbUeS1apId s ptr sid v) = tmsi_to_subscriber_id s"
  "tmsi_to_subscriber_id (associateMmeUeS1apId s ptr sid v) = tmsi_to_subscriber_id s"
  "tmsi_to_subscriber_id (associateTeid s ptr sid v) = tmsi_to_subscriber_id s"
  "tmsi_to_subscriber_id (removeImsiAssociation s x) = tmsi_to_subscriber_id s"
  "tmsi_to_subscriber_id (removeImeisvAssociation s x) = tmsi_to_subscriber_id s"
  "tmsi_to_subscriber_id (removeEnbUeS1apIdAssociation s v) = tmsi_to_subscriber_id s"
  "tmsi_to_subscriber_id (removeMmeUeS1apIdAssociation s v) = tmsi_to_subscriber_id s"
  "tmsi_to_subscriber_id (removeTeidAssociation s v) = tmsi_to_subscriber_id s"
  by (auto simp: store_defs view_defs split: option.splits)

lemma op_keeps_imeisv_to_subscriber_id [simp]:
  "imeisv_to_subscriber_id (associateImsi s ptr sid x) = imeisv_to_subscriber_id s"
  "imeisv_to_subscriber_id (associateTmsi s ptr sid x) = imeisv_to_subscriber_id s"
  "imeisv_to_subscriber_id (associateEnbUeS1apId s ptr sid v) = imeisv_to_subscriber_id s"
  "imeisv_to_subscriber_id (associateMmeUeS1apId s ptr sid v) = imeisv_to_subscriber_id s"
  "imeisv_to_subscriber_id (associateTeid s ptr sid v) = imeisv_to_subscriber_id s"
  "imeisv_to_subscriber_id (removeImsiAssociation s x) = imeisv_to_subscriber_id s"
  "imeisv_to_subscriber_id (removeTmsiAssociation s x) = imeisv_to_subscriber_id s"
  "imeisv_to_subscriber_id (removeEnbUeS1apIdAssociation s v) = imeisv_to_subscriber_id s"
  "imeisv_to_subscriber_id (removeMmeUeS1apIdAssociation s v) = imeisv_to_subscriber_id s"
  "imeisv_to_subscriber_id (removeTeidAssociation s v) = imeisv_to_subscriber_id s"
  by (auto simp: store_defs view_defs split: option.splits)

lemma op_keeps_enb_ue_s1ap_id_to_subscriber_id [simp]:
  "enb_ue_s1ap_id_to_subscriber_id (associateImsi s ptr sid x) = enb_ue_s1ap_id_to_subscriber_id s"
  "enb_ue_s1ap_id_to_subscriber_id (associateTmsi s ptr sid x) = enb_ue_s1ap_id_to_subscriber_id s"
  "enb_ue_s1ap_id_to_subscriber_id (associateImeisv s ptr sid x) = enb_ue_s1ap_id_to_subscriber_id s"
  "enb_ue_s1ap_id_to_subscriber_id (associateMmeUeS1apId s ptr sid v) = enb_ue_s1ap_id_to_subscriber_id s"
  "enb_ue_s1ap_id_to_subscriber_id (associateTeid s ptr sid v) = enb_ue_s1ap_id_to_subscriber_id s"
  "enb_ue_s1ap_id_to_subscriber_id (removeImsiAssociation s x) = enb_ue_s1ap_id_to_subscriber_id s"
  "enb_ue_s1ap_id_to_subscriber_id (removeTmsiAssociation s x) = enb_ue_s1ap_id_to_subscriber_id s"
  "enb_ue_s1ap_id_to_subscriber_id (removeImeisvAssociation s x) = enb_ue_s1ap_id_to_subscriber_id s"
  "enb_ue_s1ap_id_to_subscriber_id (removeMmeUeS1apIdAssociation s v) = enb_ue_s1ap_id_to_subscriber_id s"
  "enb_ue_s1ap_id_to_subscriber_id (removeTeidAssociation s v) = enb_ue_s1ap_id_to_subscriber_id s"
  by (auto simp: store_defs view_defs split: option.splits)

lemma op_keeps_mme_ue_s1ap_id_to_subscriber_id [simp]:
  "mme_ue_s1ap_id_to_subscriber_id (associateImsi s ptr sid x) = mme_ue_s1ap_id_to_subscriber_id s"
  "mme_ue_s1ap_id_to_subscriber_id (associateTmsi s ptr sid x) = mme_ue_s1ap_id_to_subscriber_id s"
  "mme_ue_s1ap_id_to_subscriber_id (associateImeisv s ptr sid x) = mme_ue_s1ap_id_to_subscriber_id s"
  "mme_ue_s1ap_id_to_subscriber_id (associateEnbUeS1apId s ptr sid v) = mme_ue_s1ap_id_to_subscriber_id s"
  "mme_ue_s1ap_id_to_subscriber_id (associateTeid s ptr sid v) = mme_ue_s1ap_id_to_subscriber_id s"
  "mme_ue_s1ap_id_to_subscriber_id (removeImsiAssociation s x) = mme_ue_s1ap_id_to_subscriber_id s"
  "mme_ue_s1ap_id_to_subscriber_id (removeTmsiAssociation s x) = mme_ue_s1ap_id_to_subscriber_id s"
  "mme_ue_s1ap_id_to_subscriber_id (removeImeisvAssociation s x) = mme_ue_s1ap_id_to_subscriber_id s"
  "mme_ue_s1ap_id_to_subscriber_id (removeEnbUeS1apIdAssociation s v) = mme_ue_s1ap_id_to_subscriber_id s"
  "mme_ue_s1ap_id_to_subscriber_id (removeTeidAssociation s v) = mme_ue_s1ap_id_to_subscriber_id s"
  by (auto simp: store_defs view_defs split: option.splits)

lemma op_keeps_teid_to_subscriber_id [simp]:
  "teid_to_subscriber_id (associateImsi s ptr sid x) = teid_to_subscriber_id s"
  "teid_to_subscriber_id (associateTmsi s ptr sid x) = teid_to_subscriber_id s"
  "teid_to_subscriber_id (associateImeisv s ptr sid x) = teid_to_subscriber_id s"
  "teid_to_subscriber_id (associateEnbUeS1apId s ptr sid v) = teid_to_subscriber_id s"
  "teid_to_subscriber_id (associateMmeUeS1apId s ptr sid v) = teid_to_subscriber_id s"
  "teid_to_subscriber_id (removeImsiAssociation s x) = teid_to_subscriber_id s"
  "teid_to_subscriber_id (removeTmsiAssociation s x) = teid_to_subscriber_id s"
  "teid_to_subscriber_id (removeImeisvAssociation s x) = teid_to_subscriber_id s"
  "teid_to_subscriber_id (removeEnbUeS1apIdAssociation s v) = teid_to_subscriber_id s"
  "teid_to_subscriber_id (removeMmeUeS1apIdAssociation s v) = teid_to_subscriber_id s"
  by (auto simp: store_defs view_defs split: option.splits)

lemma when_given_simps [simp]:
  "when_given None f s = s"
  "when_given (Some v) f s = f s v"
  by (simp_all add: when_given_def)

lemma foldl_keeps: "(\<And>t x. g (f t x) = g t) \<Longrightarrow> g (foldl f s xs) = g s"
  by (induction xs arbitrary: s) auto

lemma field_of_touch:
  "(\<And>r. f (g r) = f r) \<Longrightarrow>
   field_of (s\<lparr>subscriber_records := modify_record p g (subscriber_records s)\<rparr>) k f = field_of s k f"
  by (auto simp: view_defs split: option.splits)

lemma record_ids_touch [simp]:
  "record_ids (s\<lparr>subscriber_records := modify_record p g (subscriber_records s)\<rparr>) = record_ids s"
  by (simp add: view_defs)

lemma update_timestamps_keeps [simp]:
  "imsi (update_timestamps t r) = imsi r"
  "tmsi (update_timestamps t r) = tmsi r"
  "imeisv (update_timestamps t r) = imeisv r"
  "mme_ue_s1ap_id (update_timestamps t r) = mme_ue_s1ap_id r"
  "enb_ue_s1ap_id (update_timestamps t r) = enb_ue_s1ap_id r"
  by (simp_all add: update_timestamps_def)

lemmas lookup_defs = field_of_def find_record_def map_of_modify_record Let_def has_record_iff

text \<open>What the operations do to their own field and index.\<close>

lemma associateImsi_sets:
  assumes "sid \<noteq> 0"
  shows "imsi_to_subscriber_id (associateImsi s (Some p) sid x) x = Some sid"
    and "p \<in> record_ids s \<Longrightarrow> field_of (associateImsi s (Some p) sid x) p imsi = Some x"
  using assms by (auto simp: store_defs lookup_defs split: option.splits)

lemma associateMmeUeS1apId_sets:
  shows "mme_ue_s1ap_id_to_subscriber_id (associateMmeUeS1apId s (Some p) sid v) v = Some sid"
    and "p \<in> record_ids s \<Longrightarrow>
         field_of (associateMmeUeS1apId s (Some p) sid v) p mme_ue_s1ap_id = Some v"
  by (auto simp: store_defs lookup_defs split: option.splits)

lemma associateEnbUeS1apId_sets:
  shows "enb_ue_s1ap_id_to_subscriber_id (associateEnbUeS1apId s (Some p) sid v) v = Some sid"
    and "p \<in> record_ids s \<Longrightarrow>
         field_of (associateEnbUeS1apId s (Some p) sid v) p enb_ue_s1ap_id = Some v"
  by (auto simp: store_defs lookup_defs split: option.splits)

lemma removeMmeUeS1apIdAssociation_clears:
  assumes "mme_ue_s1ap_id_to_subscriber_id s v = Some k" "k \<noteq> 0"
  shows "mme_ue_s1ap_id_to_subscriber_id (removeMmeUeS1apIdAssociation s v) v = None"
    and "field_of (removeMmeUeS1apIdAssociation s v) k mme_ue_s1ap_id = None"
  using assms by (auto simp: store_defs view_defs split: option.splits)

lemma removeEnbUeS1apIdAssociation_clears:
  assumes "enb_ue_s1ap_id_to_subscriber_id s v = Some k" "k \<noteq> 0"
  shows "enb_ue_s1ap_id_to_subscriber_id (removeEnbUeS1apIdAssociation s v) v = None"
    and "field_of (removeEnbUeS1apIdAssociation s v) k enb_ue_s1ap_id = None"
  using assms by (auto simp: store_defs view_defs split: option.splits)

text \<open>\<open>obtain_record\<close>: the id it returns is not 0 and has a record; the indexes are
  untouched; an id that is found and has a record leaves the store as it is.\<close>

lemma obtain_record_id:
  assumes "obtain_record s found = (s0, sid)" "next_subscriber_id s \<noteq> 0"
  shows "sid \<noteq> 0" and "sid \<in> record_ids s0"
  using assms
  by (auto simp: obtain_record_def Let_def record_ids_def keys_index_record split: if_splits)

lemma obtain_record_indexes:
  assumes "obtain_record s found = (s0, sid)"
  shows "imsi_to_subscriber_id s0 = imsi_to_subscriber_id s"
    and "tmsi_to_subscriber_id s0 = tmsi_to_subscriber_id s"
    and "imeisv_to_subscriber_id s0 = imeisv_to_subscriber_id s"
    and "enb_ue_s1ap_id_to_subscriber_id s0 = enb_ue_s1ap_id_to_subscriber_id s"
    and "mme_ue_s1ap_id_to_subscriber_id s0 = mme_ue_s1ap_id_to_subscriber_id s"
    and "teid_to_subscriber_id s0 = teid_to_subscriber_id s"
  using assms by (auto simp: obtain_record_def Let_def split: if_splits)

lemma obtain_record_found:
  assumes "found \<noteq> 0" "found \<in> record_ids s"
  shows "obtain_record s found = (s, found)"
proof -
  from assms(2) obtain r where "map_of (subscriber_records s) found = Some r"
    by (auto simp: has_record_iff find_record_def)
  then have "index_record found (subscriber_records s) = subscriber_records s"
    by (simp add: index_record_def)
  with assms(1) show ?thesis by (simp add: obtain_record_def)
qed

text \<open>The first message of the merge property, through \<open>getOrCreateSubscriber\<close>.\<close>

lemma getOrCreateSubscriber_imsi_mme:
  assumes nz: "next_subscriber_id s \<noteq> 0"
    and goc: "getOrCreateSubscriber s (Some X) tm enb (Some Y) td ie = (s', R)"
  shows "R \<noteq> 0" and "R \<in> record_ids s'"
    and "field_of s' R imsi = Some X"
    and "field_of s' R mme_ue_s1ap_id = Some Y"
    and "mme_ue_s1ap_id_to_subscriber_id s' Y = Some R"
    and "imsi_to_subscriber_id s' X = Some R"
proof -
  obtain s0 where ob: "obtain_record s (find_subscriber s (Some X) tm enb (Some Y) td ie) = (s0, R)"
    using goc by (auto simp: getOrCreateSubscriber_def Let_def split: prod.splits)
  have R: "R \<noteq> 0" "R \<in> record_ids s0"
    using obtain_record_id [OF ob nz] by auto
  have s': "s' = when_given ie (\<lambda>t. associateImeisv t (Some R) R)
                  (when_given td (\<lambda>t. associateTeid t (Some R) R)
                    (associateMmeUeS1apId
                      (when_given enb (\<lambda>t. associateEnbUeS1apId t (Some R) R)
                        (when_given tm (\<lambda>t. associateTmsi t (Some R) R)
                          (associateImsi s0 (Some R) R X))) (Some R) R Y))"
    using goc ob by (auto simp: getOrCreateSubscriber_def Let_def split: prod.splits)
  show "R \<noteq> 0" by fact
  show "R \<in> record_ids s'"
    unfolding s' using R by (cases ie; cases td; cases enb; cases tm) simp_all
  show "field_of s' R imsi = Some X"
    unfolding s' using R
    by (cases ie; cases td; cases enb; cases tm) (simp_all add: associateImsi_sets)
  show "field_of s' R mme_ue_s1ap_id = Some Y"
    unfolding s' using R
    by (cases ie; cases td; cases enb; cases tm) (simp_all add: associateMmeUeS1apId_sets)
  show "mme_ue_s1ap_id_to_subscriber_id s' Y = Some R"
    unfolding s' by (cases ie; cases td) (simp_all add: associateMmeUeS1apId_sets)
  show "imsi_to_subscriber_id s' X = Some R"
    unfolding s' using R
    by (cases ie; cases td; cases enb; cases tm) (simp_all add: associateImsi_sets)
qed

lemma lookup_step_simps [simp]:
  "sid \<noteq> 0 \<Longrightarrow> lookup_step sid key idx = sid"
  "lookup_step 0 None idx = 0"
  "idx k = Some v \<Longrightarrow> lookup_step 0 (Some k) idx = v"
  by (simp_all add: lookup_step_def)

lemma first_normalized_simps [simp]:
  "first_normalized nf [] = None"
  "first_normalized nf (x # xs) = Some (nf x)"
  by (simp_all add: first_normalized_def)

text \<open>The associations \<open>processS1apFrame\<close> makes after \<open>getOrCreateSubscriber\<close>,
  the timestamp update and the release step, as one function of the store.\<close>

lemma processS1apFrame_after:
  assumes goc: "getOrCreateSubscriber s (first_normalized normalizeImsi (imsis ids))
                  (first_normalized normalizeTmsi (tmsis ids)) (snd (s1ap_ids ids))
                  (fst (s1ap_ids ids)) None
                  (first_normalized normalizeImeisv (imeisvs ids)) = (s1, R)"
    and some: "\<not> (first_normalized normalizeImsi (imsis ids) = None \<and>
                   first_normalized normalizeTmsi (tmsis ids) = None \<and>
                   first_normalized normalizeImeisv (imeisvs ids) = None \<and>
                   fst (s1ap_ids ids) = None \<and> snd (s1ap_ids ids) = None)"
    and chain: "lookup_step
                  (lookup_step
                    (lookup_step
                      (lookup_step
                        (lookup_step 0 (first_normalized normalizeImsi (imsis ids))
                          (imsi_to_subscriber_id s1))
                        (first_normalized normalizeTmsi (tmsis ids)) (tmsi_to_subscriber_id s1))
                      (first_normalized normalizeImeisv (imeisvs ids)) (imeisv_to_subscriber_id s1))
                    (fst (s1ap_ids ids)) (mme_ue_s1ap_id_to_subscriber_id s1))
                  (snd (s1ap_ids ids)) (enb_ue_s1ap_id_to_subscriber_id s1) = R"
    and nz: "R \<noteq> 0"
  shows "processS1apFrame s res ids ts =
           (let s2 = foldl (\<lambda>t teid. associateTeid t (Some R) R teid)
                       (when_given (snd (s1ap_ids ids)) (\<lambda>t. associateEnbUeS1apId t (Some R) R)
                         (when_given (fst (s1ap_ids ids)) (\<lambda>t. associateMmeUeS1apId t (Some R) R) s1))
                       (teids_from_bytes ids @ tmsi_teids ids);
                s3 = (if 0 < ts
                      then s2\<lparr>subscriber_records :=
                                modify_record R (update_timestamps ts) (subscriber_records s2)\<rparr>
                      else s2)
            in (if is_UEContextReleaseComplete res
                then when_given (snd (s1ap_ids ids)) removeEnbUeS1apIdAssociation
                       (when_given (fst (s1ap_ids ids)) removeMmeUeS1apIdAssociation s3)
                else s3, Some R))"
  using some nz by (simp add: processS1apFrame_def Let_def goc chain)

lemma teid_loop_keeps [simp]:
  "field_of (foldl (\<lambda>t teid. associateTeid t ptr sid teid) s ts) k imsi = field_of s k imsi"
  "field_of (foldl (\<lambda>t teid. associateTeid t ptr sid teid) s ts) k tmsi = field_of s k tmsi"
  "field_of (foldl (\<lambda>t teid. associateTeid t ptr sid teid) s ts) k imeisv = field_of s k imeisv"
  "field_of (foldl (\<lambda>t teid. associateTeid t ptr sid teid) s ts) k mme_ue_s1ap_id =
     field_of s k mme_ue_s1ap_id"
  "field_of (foldl (\<lambda>t teid. associateTeid t ptr sid teid) s ts) k enb_ue_s1ap_id =
     field_of s k enb_ue_s1ap_id"
  "mme_ue_s1ap_id_to_subscriber_id (foldl (\<lambda>t teid. associateTeid t ptr sid teid) s ts) =
     mme_ue_s1ap_id_to_subscriber_id s"
  "enb_ue_s1ap_id_to_subscriber_id (foldl (\<lambda>t teid. associateTeid t ptr sid teid) s ts) =
     enb_ue_s1ap_id_to_subscriber_id s"
  "record_ids (foldl (\<lambda>t teid. associateTeid t ptr sid teid) s ts) = record_ids s"
  by (rule foldl_keeps, simp)+

lemma find_subscriber_mme_only:
  assumes "mme_ue_s1ap_id_to_subscriber_id s Y = Some R" "R \<noteq> 0"
  shows "find_subscriber s None None None (Some Y) None None = R"
  using assms by (simp add: find_subscriber_def lookup_both_def Let_def)

lemma find_subscriber_both:
  assumes "mme_ue_s1ap_id_to_subscriber_id s Y = Some R"
    and "enb_ue_s1ap_id_to_subscriber_id s Z = Some R" and "R \<noteq> 0"
  shows "find_subscriber s None None (Some Z) (Some Y) None None = R"
  using assms by (simp add: find_subscriber_def lookup_both_def Let_def)

lemma getOrCreateSubscriber_mme_only:
  assumes "mme_ue_s1ap_id_to_subscriber_id s Y = Some R" "R \<noteq> 0" "R \<in> record_ids s"
  shows "getOrCreateSubscriber s None None None (Some Y) None None =
           (associateMmeUeS1apId s (Some R) R Y, R)"
  using assms
  by (simp add: getOrCreateSubscriber_def find_subscriber_mme_only obtain_record_found)

lemma getOrCreateSubscriber_both:
  assumes "mme_ue_s1ap_id_to_subscriber_id s Y = Some R"
    and "enb_ue_s1ap_id_to_subscriber_id s Z = Some R" and "R \<noteq> 0" "R \<in> record_ids s"
  shows "getOrCreateSubscriber s None None (Some Z) (Some Y) None None =
           (associateMmeUeS1apId (associateEnbUeS1apId s (Some R) R Z) (Some R) R Y, R)"
  using assms
  by (simp add: getOrCreateSubscriber_def find_subscriber_both obtain_record_found)

text \<open>The first message of the merge property through \<open>processS1apFrame\<close>.\<close>

lemma processS1apFrame_imsi_mme:
  assumes nz: "next_subscriber_id s \<noteq> 0"
    and im: "imsis ids = X # xs" and mm: "fst (s1ap_ids ids) = Some Y"
    and rel: "\<not> is_UEContextReleaseComplete res"
    and run: "processS1apFrame s res ids ts = (s', p)"
  shows "\<exists>R. p = Some R \<and> R \<noteq> 0 \<and> R \<in> record_ids s' \<and>
             field_of s' R imsi = Some (normalizeImsi X) \<and>
             field_of s' R mme_ue_s1ap_id = Some Y \<and>
             mme_ue_s1ap_id_to_subscriber_id s' Y = Some R"
proof -
  obtain s1 R where goc:
    "getOrCreateSubscriber s (first_normalized normalizeImsi (imsis ids))
       (first_normalized normalizeTmsi (tmsis ids)) (snd (s1ap_ids ids))
       (fst (s1ap_ids ids)) None
       (first_normalized normalizeImeisv (imeisvs ids)) = (s1, R)"
    by (cases "getOrCreateSubscriber s (first_normalized normalizeImsi (imsis ids))
       (first_normalized normalizeTmsi (tmsis ids)) (snd (s1ap_ids ids))
       (fst (s1ap_ids ids)) None
       (first_normalized normalizeImeisv (imeisvs ids))") auto
  have goc': "getOrCreateSubscriber s (Some (normalizeImsi X))
       (first_normalized normalizeTmsi (tmsis ids)) (snd (s1ap_ids ids))
       (Some Y) None (first_normalized normalizeImeisv (imeisvs ids)) = (s1, R)"
    using goc by (simp add: im mm)
  note f = getOrCreateSubscriber_imsi_mme [OF nz goc']
  have chain: "lookup_step
                  (lookup_step
                    (lookup_step
                      (lookup_step
                        (lookup_step 0 (first_normalized normalizeImsi (imsis ids))
                          (imsi_to_subscriber_id s1))
                        (first_normalized normalizeTmsi (tmsis ids)) (tmsi_to_subscriber_id s1))
                      (first_normalized normalizeImeisv (imeisvs ids)) (imeisv_to_subscriber_id s1))
                    (fst (s1ap_ids ids)) (mme_ue_s1ap_id_to_subscriber_id s1))
                  (snd (s1ap_ids ids)) (enb_ue_s1ap_id_to_subscriber_id s1) = R"
    using f by (simp add: im)
  have some: "\<not> (first_normalized normalizeImsi (imsis ids) = None \<and>
                   first_normalized normalizeTmsi (tmsis ids) = None \<and>
                   first_normalized normalizeImeisv (imeisvs ids) = None \<and>
                   fst (s1ap_ids ids) = None \<and> snd (s1ap_ids ids) = None)"
    by (simp add: im)
  note after = processS1apFrame_after [OF goc some chain f(1), of res ts]
  have p: "p = Some R" using run after by (simp add: Let_def)
  have s': "s' = (let s2 = foldl (\<lambda>t teid. associateTeid t (Some R) R teid)
                       (when_given (snd (s1ap_ids ids)) (\<lambda>t. associateEnbUeS1apId t (Some R) R)
                         (associateMmeUeS1apId s1 (Some R) R Y))
                       (teids_from_bytes ids @ tmsi_teids ids)
                 in (if 0 < ts
                      then s2\<lparr>subscriber_records :=
                                modify_record R (update_timestamps ts) (subscriber_records s2)\<rparr>
                      else s2))"
    using run after rel by (auto simp: Let_def mm)
  have "R \<in> record_ids s'"
    unfolding s' Let_def using f(2) by (cases "snd (s1ap_ids ids)") simp_all
  moreover have "field_of s' R imsi = Some (normalizeImsi X)"
    unfolding s' Let_def using f(3) by (cases "snd (s1ap_ids ids)") (simp_all add: field_of_touch)
  moreover have "field_of s' R mme_ue_s1ap_id = Some Y"
    unfolding s' Let_def using f(2)
    by (cases "snd (s1ap_ids ids)") (simp_all add: field_of_touch associateMmeUeS1apId_sets)
  moreover have "mme_ue_s1ap_id_to_subscriber_id s' Y = Some R"
    unfolding s' Let_def
    by (cases "snd (s1ap_ids ids)") (simp_all add: associateMmeUeS1apId_sets)
  ultimately show ?thesis using p f(1) by simp
qed

text \<open>The second message: only the MME-UE-S1AP-ID, which the index resolves. The frame
  returns the indexed record and keeps its IMSI; the record holds the MME-UE-S1AP-ID
  afterwards unless the frame is a UEContextReleaseComplete, which removes it.\<close>

lemma processS1apFrame_mme_only:
  assumes ix: "mme_ue_s1ap_id_to_subscriber_id s Y = Some R" and nz: "R \<noteq> 0"
    and ex: "R \<in> record_ids s"
    and only: "imsis ids = []" "tmsis ids = []" "imeisvs ids = []" "s1ap_ids ids = (Some Y, None)"
    and run: "processS1apFrame s res ids ts = (s', p)"
  shows "p = Some R" and "field_of s' R imsi = field_of s R imsi"
    and "field_of s' R mme_ue_s1ap_id =
           (if is_UEContextReleaseComplete res then None else Some Y)"
proof -
  have goc: "getOrCreateSubscriber s (first_normalized normalizeImsi (imsis ids))
       (first_normalized normalizeTmsi (tmsis ids)) (snd (s1ap_ids ids))
       (fst (s1ap_ids ids)) None
       (first_normalized normalizeImeisv (imeisvs ids)) = (associateMmeUeS1apId s (Some R) R Y, R)"
    using getOrCreateSubscriber_mme_only [OF ix nz ex] by (simp add: only)
  have chain: "lookup_step
                  (lookup_step
                    (lookup_step
                      (lookup_step
                        (lookup_step 0 (first_normalized normalizeImsi (imsis ids))
                          (imsi_to_subscriber_id (associateMmeUeS1apId s (Some R) R Y)))
                        (first_normalized normalizeTmsi (tmsis ids))
                        (tmsi_to_subscriber_id (associateMmeUeS1apId s (Some R) R Y)))
                      (first_normalized normalizeImeisv (imeisvs ids))
                      (imeisv_to_subscriber_id (associateMmeUeS1apId s (Some R) R Y)))
                    (fst (s1ap_ids ids))
                    (mme_ue_s1ap_id_to_subscriber_id (associateMmeUeS1apId s (Some R) R Y)))
                  (snd (s1ap_ids ids))
                  (enb_ue_s1ap_id_to_subscriber_id (associateMmeUeS1apId s (Some R) R Y)) = R"
    using nz by (simp add: only associateMmeUeS1apId_sets)
  have some: "\<not> (first_normalized normalizeImsi (imsis ids) = None \<and>
                   first_normalized normalizeTmsi (tmsis ids) = None \<and>
                   first_normalized normalizeImeisv (imeisvs ids) = None \<and>
                   fst (s1ap_ids ids) = None \<and> snd (s1ap_ids ids) = None)"
    by (simp add: only)
  note after = processS1apFrame_after [OF goc some chain nz, of res ts]
  define s2 where "s2 = foldl (\<lambda>t teid. associateTeid t (Some R) R teid)
                         (associateMmeUeS1apId (associateMmeUeS1apId s (Some R) R Y) (Some R) R Y)
                       (teids_from_bytes ids @ tmsi_teids ids)"
  define s3 where "s3 = (if 0 < ts
                      then s2\<lparr>subscriber_records :=
                                modify_record R (update_timestamps ts) (subscriber_records s2)\<rparr>
                      else s2)"
  show "p = Some R" using run after by (simp add: Let_def)
  have s': "s' = (if is_UEContextReleaseComplete res then removeMmeUeS1apIdAssociation s3 Y
                  else s3)"
    using run after by (auto simp: Let_def only s2_def s3_def)
  have i3: "field_of s3 R imsi = field_of s R imsi"
    by (simp add: s3_def s2_def field_of_touch)
  have m3: "field_of s3 R mme_ue_s1ap_id = Some Y"
    using ex by (simp add: s3_def s2_def field_of_touch associateMmeUeS1apId_sets)
  have x3: "mme_ue_s1ap_id_to_subscriber_id s3 Y = Some R"
    by (simp add: s3_def s2_def associateMmeUeS1apId_sets)
  show "field_of s' R imsi = field_of s R imsi"
    unfolding s' using i3 by simp
  show "field_of s' R mme_ue_s1ap_id =
           (if is_UEContextReleaseComplete res then None else Some Y)"
    unfolding s' using m3 removeMmeUeS1apIdAssociation_clears(2) [OF x3 nz] by simp
qed
subsection \<open>C1: subscriber identity merge\<close>

text \<open>
  Claim C1, as the code has it. Let a first message carry IMSI \<open>X\<close> and
  MME-UE-S1AP-ID \<open>Y\<close> (and anything else), and a second one only the
  MME-UE-S1AP-ID \<open>Y\<close>. Through \<open>getOrCreateSubscriber\<close> both calls return the
  same record, and after the second that record has IMSI \<open>X\<close> and MME-UE-S1AP-ID
  \<open>Y\<close>. Through \<open>processS1apFrame\<close>, when the first frame is not a
  UEContextReleaseComplete (whose final step removes the S1AP ids, so that the second
  frame has nothing to resolve by), both frames return the same record and after the
  second that record has IMSI \<open>X\<close> (in normalised form); it has MME-UE-S1AP-ID \<open>Y\<close>
  unless the second frame is a UEContextReleaseComplete, after which it has none. The id
  counter must not have wrapped to 0, the "not found" value.
\<close>

theorem subscriber_identity_merge:
  assumes "next_subscriber_id s \<noteq> 0"
  shows "(getOrCreateSubscriber s (Some X) tm enb (Some Y) td ie = (sa, Ra) \<and>
          getOrCreateSubscriber sa None None None (Some Y) None None = (sb, Rb)
          \<longrightarrow> Rb = Ra \<and> field_of sb Ra imsi = Some X \<and> field_of sb Ra mme_ue_s1ap_id = Some Y)
       \<and> (imsis m1 = X # xs \<and> fst (s1ap_ids m1) = Some Y \<and>
          imsis m2 = [] \<and> tmsis m2 = [] \<and> imeisvs m2 = [] \<and> s1ap_ids m2 = (Some Y, None) \<and>
          \<not> is_UEContextReleaseComplete r1 \<and>
          processS1apFrame s r1 m1 t1 = (s1, p1) \<and> processS1apFrame s1 r2 m2 t2 = (s2, p2)
          \<longrightarrow> p2 = p1 \<and>
              (\<exists>R. p1 = Some R \<and> field_of s2 R imsi = Some (normalizeImsi X) \<and>
                   field_of s2 R mme_ue_s1ap_id =
                     (if is_UEContextReleaseComplete r2 then None else Some Y)))"
proof (intro conjI impI)
  assume a: "getOrCreateSubscriber s (Some X) tm enb (Some Y) td ie = (sa, Ra) \<and>
          getOrCreateSubscriber sa None None None (Some Y) None None = (sb, Rb)"
  note f = getOrCreateSubscriber_imsi_mme [OF assms conjunct1 [OF a]]
  have sb: "(sb, Rb) = (associateMmeUeS1apId sa (Some Ra) Ra Y, Ra)"
    using getOrCreateSubscriber_mme_only [OF f(5) f(1) f(2)] a by simp
  then show "Rb = Ra" by simp
  from sb show "field_of sb Ra imsi = Some X" using f(3) by simp
  from sb show "field_of sb Ra mme_ue_s1ap_id = Some Y"
    using f(2) by (simp add: associateMmeUeS1apId_sets)
next
  assume a: "imsis m1 = X # xs \<and> fst (s1ap_ids m1) = Some Y \<and>
          imsis m2 = [] \<and> tmsis m2 = [] \<and> imeisvs m2 = [] \<and> s1ap_ids m2 = (Some Y, None) \<and>
          \<not> is_UEContextReleaseComplete r1 \<and>
          processS1apFrame s r1 m1 t1 = (s1, p1) \<and> processS1apFrame s1 r2 m2 t2 = (s2, p2)"
  then obtain R where R: "p1 = Some R" "R \<noteq> 0" "R \<in> record_ids s1"
      "field_of s1 R imsi = Some (normalizeImsi X)"
      "mme_ue_s1ap_id_to_subscriber_id s1 Y = Some R"
    using processS1apFrame_imsi_mme [OF assms, of m1 X xs Y r1 t1 s1 p1] by auto
  from a have second: "imsis m2 = []" "tmsis m2 = []" "imeisvs m2 = []"
      "s1ap_ids m2 = (Some Y, None)" "processS1apFrame s1 r2 m2 t2 = (s2, p2)"
    by auto
  note g = processS1apFrame_mme_only [OF R(5) R(2) R(3) second]
  show "p2 = p1" using g R by simp
  show "\<exists>R. p1 = Some R \<and> field_of s2 R imsi = Some (normalizeImsi X) \<and>
                   field_of s2 R mme_ue_s1ap_id =
                     (if is_UEContextReleaseComplete r2 then None else Some Y)"
    using g R by simp
qed

theorem subscriber_identity_merge_witness:
  "next_subscriber_id new_correlator \<noteq> 0 \<and>
   snd (processS1apFrame after_attach uplink_nas_transport (carries [] [] (Some 77) None) 2)
     = snd (processS1apFrame new_correlator initial_ue_message
              (carries [''001010123456789''] [] (Some 77) None) 1) \<and>
   (\<exists>R. snd (processS1apFrame new_correlator initial_ue_message
              (carries [''001010123456789''] [] (Some 77) None) 1) = Some R \<and>
        field_of (fst (processS1apFrame after_attach uplink_nas_transport
                         (carries [] [] (Some 77) None) 2)) R imsi
          = Some (normalizeImsi ''001010123456789'') \<and>
        field_of (fst (processS1apFrame after_attach uplink_nas_transport
                         (carries [] [] (Some 77) None) 2)) R mme_ue_s1ap_id = Some 77)"
proof -
  have nz: "next_subscriber_id new_correlator \<noteq> 0"
    by (simp add: new_correlator_def)
  have hyps: "imsis (carries [''001010123456789''] [] (Some 77) None) = ''001010123456789'' # [] \<and>
      fst (s1ap_ids (carries [''001010123456789''] [] (Some 77) None)) = Some 77 \<and>
      imsis (carries [] [] (Some 77) None) = [] \<and> tmsis (carries [] [] (Some 77) None) = [] \<and>
      imeisvs (carries [] [] (Some 77) None) = [] \<and>
      s1ap_ids (carries [] [] (Some 77) None) = (Some 77, None) \<and>
      \<not> is_UEContextReleaseComplete initial_ue_message \<and>
      processS1apFrame new_correlator initial_ue_message
         (carries [''001010123456789''] [] (Some 77) None) 1 =
        (after_attach, snd (processS1apFrame new_correlator initial_ue_message
              (carries [''001010123456789''] [] (Some 77) None) 1)) \<and>
      processS1apFrame after_attach uplink_nas_transport (carries [] [] (Some 77) None) 2 =
        (fst (processS1apFrame after_attach uplink_nas_transport (carries [] [] (Some 77) None) 2),
         snd (processS1apFrame after_attach uplink_nas_transport (carries [] [] (Some 77) None) 2))"
    by (simp add: carries_def is_UEContextReleaseComplete_def initial_ue_message_def
          after_attach_def)
  have r2: "\<not> is_UEContextReleaseComplete uplink_nas_transport"
    by (simp add: is_UEContextReleaseComplete_def uplink_nas_transport_def)
  from subscriber_identity_merge [OF nz, THEN conjunct2, rule_format, OF hyps] nz r2
  show ?thesis by simp
qed


text \<open>The store with two subscribers is what two frames that carry one IMSI each leave
  of a fresh store.\<close>

lemma two_subscribers_reachable:
  "fst (processS1apFrame
         (fst (processS1apFrame new_correlator initial_ue_message
                 (carries [''001010123456789''] [] None None) 1))
         initial_ue_message (carries [''001010999999999''] [] None None) 2) = two_subscribers"
  by (simp add: processS1apFrame_def getOrCreateSubscriber_def find_subscriber_def
      obtain_record_def new_correlator_def carries_def initial_ue_message_def
      is_UEContextReleaseComplete_def lookup_step_def lookup_both_def Let_def
      associateImsi_def field_of_def find_record_def index_record_def
      new_SubscriberRecord_def update_timestamps_def two_subscribers_def
      normalizeImsi_def isdigit_def when_given_def first_normalized_def fun_upd_twist)

text \<open>
  C1 as stated fails when one of the two messages is a UEContextReleaseComplete. As the
  second message, carrying only the MME-UE-S1AP-ID 77: both frames return record 1, which
  keeps its IMSI, but after the second frame its MME-UE-S1AP-ID is absent. As the first
  message, carrying the IMSI of record 1 and the MME-UE-S1AP-ID 77, in a store with two
  subscribers: the frame returns record 1 and removes the id 77 again, and the second
  message, which carries only the id 77, returns record 2.
\<close>

theorem subscriber_identity_merge_counterexample:
  "snd (processS1apFrame new_correlator initial_ue_message
            (carries [''001010123456789''] [] (Some 77) None) 1) = Some 1 \<and>
     snd (processS1apFrame after_attach ue_context_release_complete
            (carries [] [] (Some 77) None) 2) = Some 1 \<and>
     field_of after_release 1 imsi = Some ''001010123456789'' \<and>
     field_of after_release 1 mme_ue_s1ap_id = None \<and>
     snd (processS1apFrame two_subscribers ue_context_release_complete
            (carries [''001010123456789''] [] (Some 77) None) 3) = Some 1 \<and>
     snd (processS1apFrame released_first uplink_nas_transport
            (carries [] [] (Some 77) None) 4) = Some 2"
  by code_simp
subsection \<open>C2: UEContextReleaseComplete clears the S1AP ids\<close>

text \<open>A request that carries two S1AP ids which the indexes map to the same record
  resolves to a record: to the one a stable identifier of the request is indexed to, or
  else to the record of the two ids.\<close>

lemma find_subscriber_indexed:
  assumes "mme_ue_s1ap_id_to_subscriber_id s Y = Some S"
    and "enb_ue_s1ap_id_to_subscriber_id s Z = Some S" and "S \<noteq> 0"
  shows "find_subscriber s im tm (Some Z) (Some Y) td iv \<noteq> 0"
    and "im = None \<Longrightarrow> tm = None \<Longrightarrow> iv = None \<Longrightarrow>
         find_subscriber s im tm (Some Z) (Some Y) td iv = S"
  using assms
  by (auto simp add: find_subscriber_def lookup_step_def lookup_both_def Let_def
      split: option.splits)

lemma obtain_record_nonzero:
  assumes "found \<noteq> 0"
  shows "obtain_record s found =
           (s\<lparr>subscriber_records := index_record found (subscriber_records s)\<rparr>, found)"
  using assms by (simp add: obtain_record_def)

lemma field_of_index_record:
  assumes "S \<in> record_ids s"
  shows "field_of (s\<lparr>subscriber_records := index_record k (subscriber_records s)\<rparr>) S f =
           field_of s S f"
  using assms by (auto simp add: lookup_defs map_of_index_record)

lemma record_ids_index_record:
  "record_ids (s\<lparr>subscriber_records := index_record k (subscriber_records s)\<rparr>) =
     insert k (record_ids s)"
  by (simp add: record_ids_def keys_index_record)

lemma associateTmsi_sets:
  "tmsi_to_subscriber_id (associateTmsi s (Some p) sid x) x = Some sid"
  by (auto simp: store_defs lookup_defs split: option.splits)

lemma associateImeisv_sets:
  "imeisv_to_subscriber_id (associateImeisv s (Some p) sid x) x = Some sid"
  by (auto simp: store_defs lookup_defs split: option.splits)

text \<open>The conflict branch of the two S1AP id associations: the record the value was
  indexed to loses the field. A record other than the one written to whose field is
  absent keeps it absent, through associations and removals.\<close>

lemma associate_conflict_clears:
  "mme_ue_s1ap_id_to_subscriber_id s v = Some S \<Longrightarrow> S \<noteq> sid \<Longrightarrow> S \<noteq> p \<Longrightarrow>
     field_of (associateMmeUeS1apId s (Some p) sid v) S mme_ue_s1ap_id = None"
  "enb_ue_s1ap_id_to_subscriber_id s v = Some S \<Longrightarrow> S \<noteq> sid \<Longrightarrow> S \<noteq> p \<Longrightarrow>
     field_of (associateEnbUeS1apId s (Some p) sid v) S enb_ue_s1ap_id = None"
  by (auto simp: store_defs lookup_defs split: option.splits)

lemma absent_stays_absent:
  "field_of s S mme_ue_s1ap_id = None \<Longrightarrow> S \<noteq> p \<Longrightarrow>
     field_of (associateMmeUeS1apId s (Some p) sid v) S mme_ue_s1ap_id = None"
  "field_of s S enb_ue_s1ap_id = None \<Longrightarrow> S \<noteq> p \<Longrightarrow>
     field_of (associateEnbUeS1apId s (Some p) sid v) S enb_ue_s1ap_id = None"
  "field_of s S mme_ue_s1ap_id = None \<Longrightarrow>
     field_of (removeMmeUeS1apIdAssociation s v) S mme_ue_s1ap_id = None"
  "field_of s S enb_ue_s1ap_id = None \<Longrightarrow>
     field_of (removeEnbUeS1apIdAssociation s v) S enb_ue_s1ap_id = None"
  by (auto simp: store_defs lookup_defs split: option.splits)

text \<open>
  \<open>getOrCreateSubscriber\<close> on a request with two S1AP ids that the indexes map to the
  record \<open>S\<close>: it returns a record \<open>R\<close>, to which both ids are indexed afterwards and
  which the lookup chain of \<open>processS1apFrame\<close> finds again; \<open>S\<close>, when it is another
  record, has lost both ids; a stable identifier of \<open>S\<close> is unchanged when the request
  has none of its kind.
\<close>

lemma getOrCreateSubscriber_indexed:
  assumes mi: "mme_ue_s1ap_id_to_subscriber_id s Y = Some S"
    and ei: "enb_ue_s1ap_id_to_subscriber_id s Z = Some S"
    and nz: "S \<noteq> 0" and ex: "S \<in> record_ids s"
    and goc: "getOrCreateSubscriber s im tm (Some Z) (Some Y) None iv = (s1, R)"
  shows "R \<noteq> 0" and "R \<in> record_ids s1" and "S \<in> record_ids s1"
    and "mme_ue_s1ap_id_to_subscriber_id s1 Y = Some R"
    and "enb_ue_s1ap_id_to_subscriber_id s1 Z = Some R"
    and "lookup_step (lookup_step (lookup_step (lookup_step (lookup_step 0 im
           (imsi_to_subscriber_id s1)) tm (tmsi_to_subscriber_id s1)) iv
           (imeisv_to_subscriber_id s1)) (Some Y) (mme_ue_s1ap_id_to_subscriber_id s1))
           (Some Z) (enb_ue_s1ap_id_to_subscriber_id s1) = R"
    and "S \<noteq> R \<Longrightarrow> field_of s1 S mme_ue_s1ap_id = None"
    and "S \<noteq> R \<Longrightarrow> field_of s1 S enb_ue_s1ap_id = None"
    and "im = None \<Longrightarrow> field_of s1 S imsi = field_of s S imsi"
    and "tm = None \<Longrightarrow> field_of s1 S tmsi = field_of s S tmsi"
    and "iv = None \<Longrightarrow> field_of s1 S imeisv = field_of s S imeisv"
    and "im = None \<Longrightarrow> tm = None \<Longrightarrow> iv = None \<Longrightarrow> R = S"
proof -
  define s0 where "s0 = s\<lparr>subscriber_records := index_record R (subscriber_records s)\<rparr>"
  define s2 where "s2 = when_given tm (\<lambda>t. associateTmsi t (Some R) R)
                          (when_given im (\<lambda>t. associateImsi t (Some R) R) s0)"
  define s3 where "s3 = associateEnbUeS1apId s2 (Some R) R Z"
  define s4 where "s4 = associateMmeUeS1apId s3 (Some R) R Y"
  have found: "find_subscriber s im tm (Some Z) (Some Y) None iv = R" and R: "R \<noteq> 0"
    and s1: "s1 = when_given iv (\<lambda>t. associateImeisv t (Some R) R) s4"
    using goc find_subscriber_indexed(1) [OF mi ei nz, of im tm None iv]
    by (auto simp add: getOrCreateSubscriber_def obtain_record_nonzero Let_def
        s0_def s2_def s3_def s4_def)
  show "R \<noteq> 0" by fact
  have ids0: "record_ids s0 = insert R (record_ids s)"
    by (simp add: s0_def record_ids_index_record)
  have ids1: "record_ids s1 = insert R (record_ids s)"
    unfolding s1 s4_def s3_def s2_def using ids0 by (cases iv; cases tm; cases im) simp_all
  show "R \<in> record_ids s1" and "S \<in> record_ids s1"
    using ids1 ex by simp_all
  have e2: "enb_ue_s1ap_id_to_subscriber_id s2 Z = Some S"
    and m2: "mme_ue_s1ap_id_to_subscriber_id s2 Y = Some S"
    unfolding s2_def s0_def using mi ei by (cases tm; cases im; simp)+
  have m3: "mme_ue_s1ap_id_to_subscriber_id s3 Y = Some S"
    unfolding s3_def using m2 by simp
  show "mme_ue_s1ap_id_to_subscriber_id s1 Y = Some R"
    unfolding s1 s4_def by (cases iv) (simp_all add: associateMmeUeS1apId_sets)
  show "enb_ue_s1ap_id_to_subscriber_id s1 Z = Some R"
    unfolding s1 s4_def s3_def by (cases iv) (simp_all add: associateEnbUeS1apId_sets)
  have i1: "im = Some x \<Longrightarrow> imsi_to_subscriber_id s1 x = Some R" for x
    unfolding s1 s4_def s3_def s2_def using R
    by (cases iv; cases tm) (simp_all add: associateImsi_sets)
  have t1: "tm = Some x \<Longrightarrow> tmsi_to_subscriber_id s1 x = Some R" for x
    unfolding s1 s4_def s3_def s2_def by (cases iv) (simp_all add: associateTmsi_sets)
  have v1: "iv = Some x \<Longrightarrow> imeisv_to_subscriber_id s1 x = Some R" for x
    unfolding s1 by (simp add: associateImeisv_sets)
  have y1: "mme_ue_s1ap_id_to_subscriber_id s1 Y = Some R" by fact
  show "lookup_step (lookup_step (lookup_step (lookup_step (lookup_step 0 im
           (imsi_to_subscriber_id s1)) tm (tmsi_to_subscriber_id s1)) iv
           (imeisv_to_subscriber_id s1)) (Some Y) (mme_ue_s1ap_id_to_subscriber_id s1))
           (Some Z) (enb_ue_s1ap_id_to_subscriber_id s1) = R"
    using R i1 t1 v1 y1 by (cases im; cases tm; cases iv) simp_all
  show "field_of s1 S mme_ue_s1ap_id = None" if "S \<noteq> R"
    unfolding s1 s4_def using associate_conflict_clears(1) [OF m3 that that]
    by (cases iv) simp_all
  show "field_of s1 S enb_ue_s1ap_id = None" if "S \<noteq> R"
    unfolding s1 s4_def s3_def using associate_conflict_clears(2) [OF e2 that that]
    by (cases iv) simp_all
  have f0: "field_of s0 S f = field_of s S f" for f :: "SubscriberRecord \<Rightarrow> string option"
    unfolding s0_def using ex by (rule field_of_index_record)
  show "field_of s1 S imsi = field_of s S imsi" if "im = None"
    unfolding s1 s4_def s3_def s2_def using that f0 by (cases iv; cases tm) simp_all
  show "field_of s1 S tmsi = field_of s S tmsi" if "tm = None"
    unfolding s1 s4_def s3_def s2_def using that f0 by (cases iv; cases im) simp_all
  show "field_of s1 S imeisv = field_of s S imeisv" if "iv = None"
    unfolding s1 s4_def s3_def s2_def using that f0 by (cases tm; cases im) simp_all
  show "R = S" if "im = None" "tm = None" "iv = None"
    using found find_subscriber_indexed(2) [OF mi ei nz that, of None] by simp
qed

text \<open>
  Claim C2, as the code has it. Let the indexes map the MME-UE-S1AP-ID \<open>Y\<close> and the
  eNB-UE-S1AP-ID \<open>Z\<close> to the record \<open>S\<close>. After a UEContextReleaseComplete frame
  (procedure code 23, successful outcome) that carries \<open>Y\<close> and \<open>Z\<close>, whatever else it
  carries: the fields \<open>mme_ue_s1ap_id\<close> and \<open>enb_ue_s1ap_id\<close> of \<open>S\<close> are absent; the
  two indexes have no entry for \<open>Y\<close> and \<open>Z\<close>; the record is still in the table; and
  the IMSI (the TMSI, the IMEISV) of \<open>S\<close> is what it was when the frame carries no IMSI
  (no TMSI, no IMEISV). A frame that carries none of the three returns \<open>S\<close>.
\<close>

theorem release_complete_clears_s1ap_ids:
  assumes rel: "is_UEContextReleaseComplete res"
    and ids: "s1ap_ids ids = (Some Y, Some Z)"
    and mi: "mme_ue_s1ap_id_to_subscriber_id s Y = Some S"
    and ei: "enb_ue_s1ap_id_to_subscriber_id s Z = Some S"
    and nz: "S \<noteq> 0" and ex: "S \<in> record_ids s"
    and run: "processS1apFrame s res ids ts = (s', p)"
  shows "field_of s' S mme_ue_s1ap_id = None \<and> field_of s' S enb_ue_s1ap_id = None \<and>
         mme_ue_s1ap_id_to_subscriber_id s' Y = None \<and>
         enb_ue_s1ap_id_to_subscriber_id s' Z = None \<and>
         S \<in> record_ids s' \<and>
         (imsis ids = [] \<longrightarrow> field_of s' S imsi = field_of s S imsi) \<and>
         (tmsis ids = [] \<longrightarrow> field_of s' S tmsi = field_of s S tmsi) \<and>
         (imeisvs ids = [] \<longrightarrow> field_of s' S imeisv = field_of s S imeisv) \<and>
         (imsis ids = [] \<and> tmsis ids = [] \<and> imeisvs ids = [] \<longrightarrow> p = Some S)"
proof -
  let ?im = "first_normalized normalizeImsi (imsis ids)"
  let ?tm = "first_normalized normalizeTmsi (tmsis ids)"
  let ?iv = "first_normalized normalizeImeisv (imeisvs ids)"
  obtain s1 R where goc0: "getOrCreateSubscriber s ?im ?tm (Some Z) (Some Y) None ?iv = (s1, R)"
    by (cases "getOrCreateSubscriber s ?im ?tm (Some Z) (Some Y) None ?iv") auto
  note g = getOrCreateSubscriber_indexed [OF mi ei nz ex goc0]
  have goc: "getOrCreateSubscriber s ?im ?tm (snd (s1ap_ids ids)) (fst (s1ap_ids ids)) None ?iv
               = (s1, R)"
    using goc0 by (simp add: ids)
  have chain: "lookup_step (lookup_step (lookup_step (lookup_step (lookup_step 0 ?im
           (imsi_to_subscriber_id s1)) ?tm (tmsi_to_subscriber_id s1)) ?iv
           (imeisv_to_subscriber_id s1)) (fst (s1ap_ids ids)) (mme_ue_s1ap_id_to_subscriber_id s1))
           (snd (s1ap_ids ids)) (enb_ue_s1ap_id_to_subscriber_id s1) = R"
    using g(6) by (simp add: ids)
  have some: "\<not> (?im = None \<and> ?tm = None \<and> ?iv = None \<and>
                   fst (s1ap_ids ids) = None \<and> snd (s1ap_ids ids) = None)"
    by (simp add: ids)
  note after = processS1apFrame_after [OF goc some chain g(1), of res ts]
  define s2 where "s2 = foldl (\<lambda>t teid. associateTeid t (Some R) R teid)
                       (associateEnbUeS1apId (associateMmeUeS1apId s1 (Some R) R Y) (Some R) R Z)
                       (teids_from_bytes ids @ tmsi_teids ids)"
  define s3 where "s3 = (if 0 < ts
                      then s2\<lparr>subscriber_records :=
                                modify_record R (update_timestamps ts) (subscriber_records s2)\<rparr>
                      else s2)"
  have p: "p = Some R" using run after by (simp add: Let_def)
  have s': "s' = removeEnbUeS1apIdAssociation (removeMmeUeS1apIdAssociation s3 Y) Z"
    using run after rel by (auto simp: Let_def ids s2_def s3_def)
  have m3: "mme_ue_s1ap_id_to_subscriber_id s3 Y = Some R"
    by (simp add: s3_def s2_def associateMmeUeS1apId_sets)
  have e3: "enb_ue_s1ap_id_to_subscriber_id s3 Z = Some R"
    by (simp add: s3_def s2_def associateEnbUeS1apId_sets)
  have e4: "enb_ue_s1ap_id_to_subscriber_id (removeMmeUeS1apIdAssociation s3 Y) Z = Some R"
    using e3 by simp
  have mme: "field_of s' S mme_ue_s1ap_id = None"
  proof (cases "S = R")
    case True
    then show ?thesis
      unfolding s' using removeMmeUeS1apIdAssociation_clears(2) [OF m3 g(1)] by simp
  next
    case False
    have "field_of s3 S mme_ue_s1ap_id = None"
      using g(7) [OF False] False
      by (simp add: s3_def s2_def field_of_touch absent_stays_absent)
    then show ?thesis
      unfolding s' by (simp add: absent_stays_absent)
  qed
  have enb: "field_of s' S enb_ue_s1ap_id = None"
  proof (cases "S = R")
    case True
    then show ?thesis
      unfolding s' using removeEnbUeS1apIdAssociation_clears(2) [OF e4 g(1)] by simp
  next
    case False
    have "field_of s3 S enb_ue_s1ap_id = None"
      using g(8) [OF False] False
      by (simp add: s3_def s2_def field_of_touch absent_stays_absent)
    then show ?thesis
      unfolding s' by (simp add: absent_stays_absent)
  qed
  have idx: "mme_ue_s1ap_id_to_subscriber_id s' Y = None"
      "enb_ue_s1ap_id_to_subscriber_id s' Z = None"
    unfolding s'
    using removeMmeUeS1apIdAssociation_clears(1) [OF m3 g(1)]
      removeEnbUeS1apIdAssociation_clears(1) [OF e4 g(1)]
    by simp_all
  have keep: "field_of s' S imsi = field_of s1 S imsi" "field_of s' S tmsi = field_of s1 S tmsi"
      "field_of s' S imeisv = field_of s1 S imeisv" "record_ids s' = record_ids s1"
    unfolding s' by (simp_all add: s3_def s2_def field_of_touch)
  have "imsis ids = [] \<longrightarrow> field_of s' S imsi = field_of s S imsi"
    using keep(1) g(9) by simp
  moreover have "tmsis ids = [] \<longrightarrow> field_of s' S tmsi = field_of s S tmsi"
    using keep(2) g(10) by simp
  moreover have "imeisvs ids = [] \<longrightarrow> field_of s' S imeisv = field_of s S imeisv"
    using keep(3) g(11) by simp
  moreover have "imsis ids = [] \<and> tmsis ids = [] \<and> imeisvs ids = [] \<longrightarrow> p = Some S"
    using p g(12) by simp
  moreover have "S \<in> record_ids s'"
    using keep(4) g(3) by simp
  ultimately show ?thesis
    using mme enb idx by simp
qed

theorem release_complete_clears_s1ap_ids_witness:
  "snd (processS1apFrame attached_store ue_context_release_complete
          (carries [] [] (Some 77) (Some 5)) 2) = Some 1 \<and>
   field_of (fst (processS1apFrame attached_store ue_context_release_complete
          (carries [] [] (Some 77) (Some 5)) 2)) 1 mme_ue_s1ap_id = None \<and>
   field_of (fst (processS1apFrame attached_store ue_context_release_complete
          (carries [] [] (Some 77) (Some 5)) 2)) 1 enb_ue_s1ap_id = None \<and>
   mme_ue_s1ap_id_to_subscriber_id (fst (processS1apFrame attached_store
          ue_context_release_complete (carries [] [] (Some 77) (Some 5)) 2)) 77 = None \<and>
   enb_ue_s1ap_id_to_subscriber_id (fst (processS1apFrame attached_store
          ue_context_release_complete (carries [] [] (Some 77) (Some 5)) 2)) 5 = None \<and>
   field_of (fst (processS1apFrame attached_store ue_context_release_complete
          (carries [] [] (Some 77) (Some 5)) 2)) 1 imsi = Some ''001010123456789'' \<and>
   field_of (fst (processS1apFrame attached_store ue_context_release_complete
          (carries [] [] (Some 77) (Some 5)) 2)) 1 tmsi = Some ''deadbeef''"
proof -
  have a: "is_UEContextReleaseComplete ue_context_release_complete"
    by (simp add: is_UEContextReleaseComplete_def ue_context_release_complete_def)
  have b: "s1ap_ids (carries [] [] (Some 77) (Some 5)) = (Some 77, Some 5)"
    by (simp add: carries_def)
  have b': "imsis (carries [] [] (Some 77) (Some 5)) = []"
    "tmsis (carries [] [] (Some 77) (Some 5)) = []"
    "imeisvs (carries [] [] (Some 77) (Some 5)) = []"
    by (simp_all add: carries_def)
  have c: "mme_ue_s1ap_id_to_subscriber_id attached_store 77 = Some 1"
    by (simp add: attached_store_def)
  have d: "enb_ue_s1ap_id_to_subscriber_id attached_store 5 = Some 1"
    by (simp add: attached_store_def)
  have e: "(1::sub_id) \<noteq> 0" by simp
  have f: "1 \<in> record_ids attached_store"
    by (simp add: attached_store_def record_ids_def)
  have g: "field_of attached_store 1 imsi = Some ''001010123456789''"
    "field_of attached_store 1 tmsi = Some ''deadbeef''"
    by (simp_all add: attached_store_def field_of_def find_record_def)
  have run: "processS1apFrame attached_store ue_context_release_complete
          (carries [] [] (Some 77) (Some 5)) 2 =
       (fst (processS1apFrame attached_store ue_context_release_complete
          (carries [] [] (Some 77) (Some 5)) 2),
        snd (processS1apFrame attached_store ue_context_release_complete
          (carries [] [] (Some 77) (Some 5)) 2))"
    by simp
  from release_complete_clears_s1ap_ids [OF a b c d e f run] b' g
  show ?thesis by simp
qed

text \<open>The store with one attached subscriber is what one frame that carries the IMSI,
  the TMSI and both S1AP ids leaves of a fresh store.\<close>

lemma attached_store_reachable:
  "fst (processS1apFrame new_correlator initial_ue_message
          (carries [''001010123456789''] [''deadbeef''] (Some 77) (Some 5)) 1) = attached_store"
  by (simp add: processS1apFrame_def getOrCreateSubscriber_def find_subscriber_def
      fallback_lookup_def obtain_record_def new_correlator_def carries_def initial_ue_message_def
      is_UEContextReleaseComplete_def lookup_step_def lookup_both_def Let_def
      associateImsi_def associateTmsi_def associateEnbUeS1apId_def associateMmeUeS1apId_def
      field_of_def find_record_def index_record_def
      new_SubscriberRecord_def update_timestamps_def attached_store_def
      normalizeImsi_def normalizeTmsi_def isdigit_def isxdigit_def tolower_def
      when_given_def first_normalized_def)

text \<open>
  C2 as stated fails for a release that carries a stable identifier as well. On the
  store with one attached subscriber (record 1, IMSI 001010123456789, MME-UE-S1AP-ID 77,
  eNB-UE-S1AP-ID 5), a UEContextReleaseComplete that carries the two S1AP ids and the
  IMSI 001010999999999 resolves to record 1 by the S1AP ids and associates the IMSI it
  carries: the IMSI of record 1 is not what it was.
\<close>

theorem release_complete_clears_s1ap_ids_counterexample:
  "is_UEContextReleaseComplete ue_context_release_complete \<and>
   mme_ue_s1ap_id_to_subscriber_id attached_store 77 = Some 1 \<and>
   enb_ue_s1ap_id_to_subscriber_id attached_store 5 = Some 1 \<and>
   field_of attached_store 1 imsi = Some ''001010123456789'' \<and>
   snd (processS1apFrame attached_store ue_context_release_complete
          (carries [''001010999999999''] [] (Some 77) (Some 5)) 2) = Some 1 \<and>
   field_of (fst (processS1apFrame attached_store ue_context_release_complete
          (carries [''001010999999999''] [] (Some 77) (Some 5)) 2)) 1 imsi =
     Some ''001010999999999''"
  by code_simp

subsection \<open>The id counter and the indexes over sequences of operations\<close>

lemma points_into_mono: "points_into idx A \<Longrightarrow> A \<subseteq> B \<Longrightarrow> points_into idx B"
  by (auto simp: points_into_def)

lemma own_index_points:
  "points_into (imsi_to_subscriber_id s) A \<Longrightarrow> (ptr \<noteq> None \<longrightarrow> sid \<in> A) \<Longrightarrow>
     points_into (imsi_to_subscriber_id (associateImsi s ptr sid x)) A"
  "points_into (tmsi_to_subscriber_id s) A \<Longrightarrow> (ptr \<noteq> None \<longrightarrow> sid \<in> A) \<Longrightarrow>
     points_into (tmsi_to_subscriber_id (associateTmsi s ptr sid x)) A"
  "points_into (imeisv_to_subscriber_id s) A \<Longrightarrow> (ptr \<noteq> None \<longrightarrow> sid \<in> A) \<Longrightarrow>
     points_into (imeisv_to_subscriber_id (associateImeisv s ptr sid x)) A"
  "points_into (enb_ue_s1ap_id_to_subscriber_id s) A \<Longrightarrow> (ptr \<noteq> None \<longrightarrow> sid \<in> A) \<Longrightarrow>
     points_into (enb_ue_s1ap_id_to_subscriber_id (associateEnbUeS1apId s ptr sid v)) A"
  "points_into (mme_ue_s1ap_id_to_subscriber_id s) A \<Longrightarrow> (ptr \<noteq> None \<longrightarrow> sid \<in> A) \<Longrightarrow>
     points_into (mme_ue_s1ap_id_to_subscriber_id (associateMmeUeS1apId s ptr sid v)) A"
  "points_into (teid_to_subscriber_id s) A \<Longrightarrow> (ptr \<noteq> None \<longrightarrow> sid \<in> A) \<Longrightarrow>
     points_into (teid_to_subscriber_id (associateTeid s ptr sid v)) A"
  "points_into (imsi_to_subscriber_id s) A \<Longrightarrow>
     points_into (imsi_to_subscriber_id (removeImsiAssociation s x)) A"
  "points_into (tmsi_to_subscriber_id s) A \<Longrightarrow>
     points_into (tmsi_to_subscriber_id (removeTmsiAssociation s x)) A"
  "points_into (imeisv_to_subscriber_id s) A \<Longrightarrow>
     points_into (imeisv_to_subscriber_id (removeImeisvAssociation s x)) A"
  "points_into (enb_ue_s1ap_id_to_subscriber_id s) A \<Longrightarrow>
     points_into (enb_ue_s1ap_id_to_subscriber_id (removeEnbUeS1apIdAssociation s v)) A"
  "points_into (mme_ue_s1ap_id_to_subscriber_id s) A \<Longrightarrow>
     points_into (mme_ue_s1ap_id_to_subscriber_id (removeMmeUeS1apIdAssociation s v)) A"
  "points_into (teid_to_subscriber_id s) A \<Longrightarrow>
     points_into (teid_to_subscriber_id (removeTeidAssociation s v)) A"
  by (auto simp: store_defs points_into_def Let_def split: option.splits if_splits)

lemma associate_indexes_ok:
  assumes "indexes_ok s" "ptr \<noteq> None \<longrightarrow> sid \<in> record_ids s"
  shows "indexes_ok (associateImsi s ptr sid x)"
    and "indexes_ok (associateTmsi s ptr sid x)"
    and "indexes_ok (associateImeisv s ptr sid x)"
    and "indexes_ok (associateEnbUeS1apId s ptr sid v)"
    and "indexes_ok (associateMmeUeS1apId s ptr sid v)"
    and "indexes_ok (associateTeid s ptr sid v)"
  using assms by (simp_all add: indexes_ok_def own_index_points)

lemma remove_indexes_ok:
  assumes "indexes_ok s"
  shows "indexes_ok (removeImsiAssociation s x)"
    and "indexes_ok (removeTmsiAssociation s x)"
    and "indexes_ok (removeImeisvAssociation s x)"
    and "indexes_ok (removeEnbUeS1apIdAssociation s v)"
    and "indexes_ok (removeMmeUeS1apIdAssociation s v)"
    and "indexes_ok (removeTeidAssociation s v)"
  using assms by (simp_all add: indexes_ok_def own_index_points)

text \<open>What the search can return: 0 or the id of a record.\<close>

lemma lookup_step_in:
  "sid \<in> insert 0 A \<Longrightarrow> points_into idx A \<Longrightarrow> lookup_step sid key idx \<in> insert 0 A"
  by (auto simp: lookup_step_def points_into_def split: option.splits)

lemma lookup_both_in:
  "sid \<in> insert 0 A \<Longrightarrow> points_into mi A \<Longrightarrow> lookup_both sid mme enb mi ei \<in> insert 0 A"
  by (auto simp: lookup_both_def points_into_def split: option.splits)

lemma scan_by_s1ap_id_in:
  "cand \<in> B \<Longrightarrow> 0 \<in> B \<Longrightarrow> fst ` set recs \<subseteq> B \<Longrightarrow> scan_by_s1ap_id mme enb recs cand \<in> B"
  by (induction mme enb recs cand rule: scan_by_s1ap_id.induct) (simp_all add: Let_def)

lemma scan_stable_in:
  "cand \<in> B \<Longrightarrow> fst ` set recs \<subseteq> B \<Longrightarrow> snd (scan_stable recs n cand) \<in> B"
  by (induction recs n cand rule: scan_stable.induct) simp_all

lemma scan_most_recent_in:
  "cur \<in> B \<Longrightarrow> fst ` set recs \<subseteq> B \<Longrightarrow> scan_most_recent recs cur \<in> B"
  by (induction recs cur rule: scan_most_recent.induct) simp_all

lemma fallback_lookup_in: "fallback_lookup s mme enb \<in> insert 0 (record_ids s)"
proof -
  let ?B = "insert 0 (record_ids s)"
  have sub: "fst ` set (subscriber_records s) \<subseteq> ?B"
    by (auto simp: record_ids_def)
  have a: "scan_by_s1ap_id mme enb (subscriber_records s) 0 \<in> ?B"
    by (rule scan_by_s1ap_id_in [OF _ _ sub]) simp_all
  have b: "snd (scan_stable (subscriber_records s) 0 0) \<in> ?B"
    by (rule scan_stable_in [OF _ sub]) simp
  have c: "scan_most_recent (subscriber_records s) (snd (scan_stable (subscriber_records s) 0 0))
             \<in> ?B"
    by (rule scan_most_recent_in [OF b sub])
  show ?thesis
  proof (cases "scan_stable (subscriber_records s) 0 0")
    case (Pair n c0)
    with a b c show ?thesis
      by (auto simp: fallback_lookup_def Let_def)
  qed
qed

lemma find_subscriber_in:
  assumes "indexes_ok s"
  shows "find_subscriber s i t e m td iv \<in> insert 0 (record_ids s)"
proof -
  let ?B = "insert 0 (record_ids s)"
  note ix = assms [unfolded indexes_ok_def]
  define id1 where "id1 = lookup_step 0 i (imsi_to_subscriber_id s)"
  define id2 where "id2 = lookup_step id1 t (tmsi_to_subscriber_id s)"
  define id3 where "id3 = lookup_step id2 iv (imeisv_to_subscriber_id s)"
  define id4 where "id4 = lookup_both id3 m e (mme_ue_s1ap_id_to_subscriber_id s)
                  (enb_ue_s1ap_id_to_subscriber_id s)"
  define id5 where "id5 = lookup_step id4 m (mme_ue_s1ap_id_to_subscriber_id s)"
  define id6 where "id6 = lookup_step id5 e (enb_ue_s1ap_id_to_subscriber_id s)"
  define id7 where "id7 = lookup_step id6 td (teid_to_subscriber_id s)"
  have "id1 \<in> ?B" unfolding id1_def using ix by (intro lookup_step_in) simp_all
  then have "id2 \<in> ?B" unfolding id2_def using ix by (intro lookup_step_in) simp_all
  then have "id3 \<in> ?B" unfolding id3_def using ix by (intro lookup_step_in) simp_all
  then have "id4 \<in> ?B" unfolding id4_def using ix by (intro lookup_both_in) simp_all
  then have "id5 \<in> ?B" unfolding id5_def using ix by (intro lookup_step_in) simp_all
  then have "id6 \<in> ?B" unfolding id6_def using ix by (intro lookup_step_in) simp_all
  then have 7: "id7 \<in> ?B" unfolding id7_def using ix by (intro lookup_step_in) simp_all
  from 7 have full: "lookup_step
          (lookup_step
            (lookup_step
              (lookup_both
                (lookup_step
                  (lookup_step (lookup_step 0 i (imsi_to_subscriber_id s)) t
                    (tmsi_to_subscriber_id s))
                  iv (imeisv_to_subscriber_id s))
                m e (mme_ue_s1ap_id_to_subscriber_id s) (enb_ue_s1ap_id_to_subscriber_id s))
              m (mme_ue_s1ap_id_to_subscriber_id s))
            e (enb_ue_s1ap_id_to_subscriber_id s))
          td (teid_to_subscriber_id s) \<in> ?B"
    unfolding id1_def id2_def id3_def id4_def id5_def id6_def id7_def .
  show ?thesis
    unfolding find_subscriber_def Let_def
    using fallback_lookup_in [of s m e] full by (simp only: split: if_split) blast
qed

lemma word_less_succ_self:
  fixes n :: sub_id
  assumes "n + 1 \<noteq> 0"
  shows "n < n + 1"
proof -
  have "1 + n \<noteq> 0" using assms by (simp add: add.commute)
  then have "unat (1 + n) = Suc (unat n)" by (rule unatSuc)
  then show ?thesis by (simp add: word_less_nat_alt add.commute)
qed

lemma word_less_succ:
  fixes k n :: sub_id
  assumes "k < n" "n + 1 \<noteq> 0"
  shows "k < n + 1"
  using assms(1) word_less_succ_self [OF assms(2)] by simp

lemma obtain_record_step:
  assumes ob: "obtain_record s found = (s0, sid)"
    and fin: "found \<in> insert 0 (record_ids s)"
    and ok: "ids_ok s" "indexes_ok s" and nw: "next_subscriber_id s + 1 \<noteq> 0"
  shows "ids_ok s0 \<and> indexes_ok s0 \<and> id_step s s0 \<and> sid \<in> record_ids s0"
proof (cases "found = 0")
  case True
  then have s0: "s0 = s\<lparr>next_subscriber_id := next_subscriber_id s + 1,
             subscriber_records :=
               index_record (next_subscriber_id s)
                 (AList.update (next_subscriber_id s) new_SubscriberRecord (subscriber_records s))\<rparr>"
    and sid: "sid = next_subscriber_id s"
    using ob by (auto simp: obtain_record_def Let_def)
  have ids: "record_ids s0 = insert (next_subscriber_id s) (record_ids s)"
    by (auto simp: s0 record_ids_def keys_index_record dom_update)
  have nx: "next_subscriber_id s0 = next_subscriber_id s + 1" by (simp add: s0)
  have "ids_ok s0"
    using ok(1) nw by (auto simp: ids_ok_def ids nx intro: word_less_succ word_less_succ_self)
  moreover have "indexes_ok s0"
    using ok(2) by (auto simp: indexes_ok_def ids obtain_record_indexes [OF ob] points_into_def)
  moreover have "id_step s s0" by (simp add: id_step_def ids nx)
  moreover have "sid \<in> record_ids s0" by (simp add: ids sid)
  ultimately show ?thesis by simp
next
  case False
  with fin have "found \<in> record_ids s" by simp
  from obtain_record_found [OF False this] ob have "s0 = s" "sid = found" by simp_all
  with ok \<open>found \<in> record_ids s\<close> show ?thesis
    by (simp add: id_step_def)
qed

lemma keeps_table_refl: "indexes_ok s \<Longrightarrow> keeps_table s s"
  by (simp add: keeps_table_def)

lemma keeps_table_associate:
  assumes "keeps_table s t" "ptr \<noteq> None \<longrightarrow> sid \<in> record_ids s"
  shows "keeps_table s (associateImsi t ptr sid x)"
    and "keeps_table s (associateTmsi t ptr sid x)"
    and "keeps_table s (associateImeisv t ptr sid x)"
    and "keeps_table s (associateEnbUeS1apId t ptr sid v)"
    and "keeps_table s (associateMmeUeS1apId t ptr sid v)"
    and "keeps_table s (associateTeid t ptr sid v)"
  using assms by (simp_all add: keeps_table_def associate_indexes_ok)

lemma keeps_table_remove:
  assumes "keeps_table s t"
  shows "keeps_table s (removeImsiAssociation t x)"
    and "keeps_table s (removeTmsiAssociation t x)"
    and "keeps_table s (removeImeisvAssociation t x)"
    and "keeps_table s (removeEnbUeS1apIdAssociation t v)"
    and "keeps_table s (removeMmeUeS1apIdAssociation t v)"
    and "keeps_table s (removeTeidAssociation t v)"
  using assms by (simp_all add: keeps_table_def remove_indexes_ok)

lemma keeps_table_touch:
  assumes "keeps_table s t"
  shows "keeps_table s (t\<lparr>subscriber_records := modify_record p g (subscriber_records t)\<rparr>)"
  using assms by (auto simp: keeps_table_def indexes_ok_def)

lemma keeps_table_when_given:
  assumes "keeps_table s t" "\<And>u v. keeps_table s u \<Longrightarrow> keeps_table s (f u v)"
  shows "keeps_table s (when_given a f t)"
  using assms by (cases a) simp_all

lemma keeps_table_foldl:
  assumes "keeps_table s t" "\<And>u v. keeps_table s u \<Longrightarrow> keeps_table s (f u v)"
  shows "keeps_table s (foldl f t xs)"
  using assms by (induction xs arbitrary: t) simp_all

lemma getOrCreateSubscriber_step:
  assumes goc: "getOrCreateSubscriber s i t e m td iv = (s', R)"
    and ok: "ids_ok s" "indexes_ok s" and nw: "next_subscriber_id s + 1 \<noteq> 0"
  shows "ids_ok s' \<and> indexes_ok s' \<and> id_step s s' \<and> R \<in> record_ids s'"
proof -
  obtain s0 where ob: "obtain_record s (find_subscriber s i t e m td iv) = (s0, R)"
    using goc by (auto simp: getOrCreateSubscriber_def Let_def split: prod.splits)
  note st = obtain_record_step [OF ob find_subscriber_in [OF ok(2)] ok nw]
  have R: "Some R \<noteq> None \<longrightarrow> R \<in> record_ids s0" using st by simp
  have s': "s' = when_given iv (\<lambda>t. associateImeisv t (Some R) R)
                  (when_given td (\<lambda>t. associateTeid t (Some R) R)
                    (when_given m (\<lambda>t. associateMmeUeS1apId t (Some R) R)
                      (when_given e (\<lambda>t. associateEnbUeS1apId t (Some R) R)
                        (when_given t (\<lambda>t. associateTmsi t (Some R) R)
                          (when_given i (\<lambda>t. associateImsi t (Some R) R) s0)))))"
    using goc ob by (auto simp: getOrCreateSubscriber_def Let_def split: prod.splits)
  have "keeps_table s0 s'"
    unfolding s'
    by (intro keeps_table_when_given keeps_table_associate [OF _ R] keeps_table_refl)
       (use st in simp)
  then show ?thesis
    using st by (auto simp: keeps_table_def ids_ok_def id_step_def)
qed

lemma processS1apFrame_step:
  assumes run: "processS1apFrame s res ids ts = (s', p)"
    and ok: "ids_ok s" "indexes_ok s" and nw: "next_subscriber_id s + 1 \<noteq> 0"
  shows "ids_ok s' \<and> indexes_ok s' \<and> id_step s s'"
proof (cases "first_normalized normalizeImsi (imsis ids) = None \<and>
              first_normalized normalizeTmsi (tmsis ids) = None \<and>
              first_normalized normalizeImeisv (imeisvs ids) = None \<and>
              fst (s1ap_ids ids) = None \<and> snd (s1ap_ids ids) = None")
  case True
  then have "s' = s" using run by (simp add: processS1apFrame_def Let_def)
  with ok show ?thesis by (simp add: id_step_def)
next
  case False
  obtain s1 R where goc:
    "getOrCreateSubscriber s (first_normalized normalizeImsi (imsis ids))
       (first_normalized normalizeTmsi (tmsis ids)) (snd (s1ap_ids ids))
       (fst (s1ap_ids ids)) None
       (first_normalized normalizeImeisv (imeisvs ids)) = (s1, R)"
    by (cases "getOrCreateSubscriber s (first_normalized normalizeImsi (imsis ids))
       (first_normalized normalizeTmsi (tmsis ids)) (snd (s1ap_ids ids))
       (fst (s1ap_ids ids)) None
       (first_normalized normalizeImeisv (imeisvs ids))") auto
  note st = getOrCreateSubscriber_step [OF goc ok nw]
  define sid where "sid = lookup_step
                  (lookup_step
                    (lookup_step
                      (lookup_step
                        (lookup_step 0 (first_normalized normalizeImsi (imsis ids))
                          (imsi_to_subscriber_id s1))
                        (first_normalized normalizeTmsi (tmsis ids)) (tmsi_to_subscriber_id s1))
                      (first_normalized normalizeImeisv (imeisvs ids)) (imeisv_to_subscriber_id s1))
                    (fst (s1ap_ids ids)) (mme_ue_s1ap_id_to_subscriber_id s1))
                  (snd (s1ap_ids ids)) (enb_ue_s1ap_id_to_subscriber_id s1)"
  have ix: "indexes_ok s1" using st by simp
  have "sid \<in> insert 0 (record_ids s1)"
    unfolding sid_def using ix [unfolded indexes_ok_def]
    by (intro lookup_step_in) simp_all
  then have sid: "sid \<noteq> 0 \<Longrightarrow> Some R \<noteq> None \<longrightarrow> sid \<in> record_ids s1" by simp
  define s2 where "s2 = (if sid = 0 then s1
         else foldl (\<lambda>t teid. associateTeid t (Some R) sid teid)
                (when_given (snd (s1ap_ids ids)) (\<lambda>t. associateEnbUeS1apId t (Some R) sid)
                  (when_given (fst (s1ap_ids ids)) (\<lambda>t. associateMmeUeS1apId t (Some R) sid) s1))
                (teids_from_bytes ids @ tmsi_teids ids))"
  define s3 where "s3 = (if 0 < ts
                      then s2\<lparr>subscriber_records :=
                                modify_record R (update_timestamps ts) (subscriber_records s2)\<rparr>
                      else s2)"
  have s': "s' = (if is_UEContextReleaseComplete res
                then when_given (snd (s1ap_ids ids)) removeEnbUeS1apIdAssociation
                       (when_given (fst (s1ap_ids ids)) removeMmeUeS1apIdAssociation s3)
                else s3)"
    using run False
    by (auto simp: processS1apFrame_def Let_def goc s3_def s2_def sid_def)
  have k2: "keeps_table s1 s2"
  proof (cases "sid = 0")
    case True
    then show ?thesis using ix by (simp add: s2_def keeps_table_refl)
  next
    case nz: False
    show ?thesis
      unfolding s2_def using nz
      by (simp only: if_False)
         (intro keeps_table_foldl keeps_table_when_given keeps_table_associate [OF _ sid [OF nz]]
            keeps_table_refl ix)
  qed
  have k3: "keeps_table s1 s3"
    unfolding s3_def using k2 by (simp add: keeps_table_touch)
  have "keeps_table s1 s'"
    unfolding s' using k3
    by (auto intro!: keeps_table_when_given keeps_table_remove)
  then show ?thesis
    using st by (auto simp: keeps_table_def ids_ok_def id_step_def)
qed

lemma pointer_to_valid: "pointer_to s k \<noteq> None \<longrightarrow> k \<in> record_ids s"
  by (simp add: pointer_to_def has_record_iff split: option.splits)

lemma apply_op_step:
  assumes ok: "ids_ok s" "indexes_ok s" and nw: "next_subscriber_id s + 1 \<noteq> 0"
  shows "ids_ok (apply_op s op) \<and> indexes_ok (apply_op s op) \<and> id_step s (apply_op s op)"
proof -
  have kept: "keeps_table s t \<Longrightarrow> ids_ok t \<and> indexes_ok t \<and> id_step s t" for t
    using ok by (auto simp: keeps_table_def ids_ok_def id_step_def)
  note k = keeps_table_refl [OF ok(2)]
  show ?thesis
  proof (cases op)
    case (GetOrCreateSubscriber i t e m td iv)
    obtain s' R where "getOrCreateSubscriber s i t e m td iv = (s', R)"
      by (cases "getOrCreateSubscriber s i t e m td iv") auto
    from getOrCreateSubscriber_step [OF this ok nw] this show ?thesis
      by (simp add: GetOrCreateSubscriber)
  next
    case (ProcessS1apFrame res ids ts)
    obtain s' p where "processS1apFrame s res ids ts = (s', p)"
      by (cases "processS1apFrame s res ids ts") auto
    from processS1apFrame_step [OF this ok nw] this show ?thesis
      by (simp add: ProcessS1apFrame)
  qed (simp_all add: kept keeps_table_associate [OF k pointer_to_valid] keeps_table_remove [OF k])
qed

lemma run_ops_snoc: "run_ops (ops @ [op]) = apply_op (run_ops ops) op"
  by (simp add: run_ops_def)

lemma counter_room:
  fixes n :: sub_id
  assumes "unat n < 2 ^ 64 - 1"
  shows "n + 1 \<noteq> 0"
proof
  assume "n + 1 = 0"
  then have "n = - 1" by (simp add: eq_neg_iff_add_eq_0)
  then have "unat n = 2 ^ 64 - 1"
    by (simp add: unsigned_minus_1_eq_mask mask_eq_exp_minus_1)
  with assms show False by simp
qed

lemma unat_succ_le: "unat ((n :: sub_id) + 1) \<le> Suc (unat n)"
proof (cases "n + 1 = 0")
  case True
  then show ?thesis by simp
next
  case False
  then have "1 + n \<noteq> 0" by (simp add: add.commute)
  then have "unat (1 + n) = Suc (unat n)" by (rule unatSuc)
  then show ?thesis by (simp add: add.commute)
qed

lemma run_ops_ok:
  "length ops < 2 ^ 64 - 2 \<Longrightarrow>
   ids_ok (run_ops ops) \<and> indexes_ok (run_ops ops) \<and>
   unat (next_subscriber_id (run_ops ops)) \<le> Suc (length ops)"
proof (induction ops rule: rev_induct)
  case Nil
  show ?case
    by (simp add: run_ops_def new_correlator_def ids_ok_def indexes_ok_def points_into_def
          record_ids_def)
next
  case (snoc op ops)
  then have ih: "ids_ok (run_ops ops)" "indexes_ok (run_ops ops)"
      "unat (next_subscriber_id (run_ops ops)) \<le> Suc (length ops)"
    by simp_all
  from snoc.prems ih(3) have "unat (next_subscriber_id (run_ops ops)) < 2 ^ 64 - 1"
    by simp
  then have nw: "next_subscriber_id (run_ops ops) + 1 \<noteq> 0" by (rule counter_room)
  note st = apply_op_step [OF ih(1,2) nw, of op]
  have "unat (next_subscriber_id (apply_op (run_ops ops) op)) \<le> Suc (Suc (length ops))"
    using st ih(3) unat_succ_le [of "next_subscriber_id (run_ops ops)"]
    by (auto simp: id_step_def)
  with st show ?case by (simp add: run_ops_snoc)
qed

text \<open>No operation removes a key from the record table, whatever the store.\<close>

lemma when_given_record_ids:
  "(\<And>u v. record_ids (f u v) = record_ids u) \<Longrightarrow> record_ids (when_given a f t) = record_ids t"
  by (cases a) simp_all

lemma obtain_record_grows: "record_ids s \<subseteq> record_ids (fst (obtain_record s found))"
  by (auto simp: obtain_record_def Let_def record_ids_def keys_index_record dom_update)

lemma getOrCreateSubscriber_grows:
  "record_ids s \<subseteq> record_ids (fst (getOrCreateSubscriber s i t e m td iv))"
proof -
  obtain s0 R where ob: "obtain_record s (find_subscriber s i t e m td iv) = (s0, R)"
    by (cases "obtain_record s (find_subscriber s i t e m td iv)") auto
  have "record_ids (fst (getOrCreateSubscriber s i t e m td iv)) = record_ids s0"
    by (simp add: getOrCreateSubscriber_def ob Let_def when_given_record_ids)
  then show ?thesis
    using obtain_record_grows [of s "find_subscriber s i t e m td iv"] ob by simp
qed

lemma processS1apFrame_grows:
  "record_ids s \<subseteq> record_ids (fst (processS1apFrame s res ids ts))"
proof -
  obtain s1 R where goc:
    "getOrCreateSubscriber s (first_normalized normalizeImsi (imsis ids))
       (first_normalized normalizeTmsi (tmsis ids)) (snd (s1ap_ids ids))
       (fst (s1ap_ids ids)) None
       (first_normalized normalizeImeisv (imeisvs ids)) = (s1, R)"
    by (cases "getOrCreateSubscriber s (first_normalized normalizeImsi (imsis ids))
       (first_normalized normalizeTmsi (tmsis ids)) (snd (s1ap_ids ids))
       (fst (s1ap_ids ids)) None
       (first_normalized normalizeImeisv (imeisvs ids))") auto
  have "record_ids s \<subseteq> record_ids s1"
    using getOrCreateSubscriber_grows [of s "first_normalized normalizeImsi (imsis ids)"
       "first_normalized normalizeTmsi (tmsis ids)" "snd (s1ap_ids ids)"
       "fst (s1ap_ids ids)" None "first_normalized normalizeImeisv (imeisvs ids)"] goc
    by simp
  moreover have "record_ids (fst (processS1apFrame s res ids ts)) = record_ids s1 \<or>
                 fst (processS1apFrame s res ids ts) = s"
    by (simp add: processS1apFrame_def Let_def goc when_given_record_ids)
  ultimately show ?thesis by auto
qed

lemma apply_op_grows: "record_ids s \<subseteq> record_ids (apply_op s op)"
  by (cases op) (simp_all add: getOrCreateSubscriber_grows processS1apFrame_grows)

subsection \<open>C3: index and field consistency\<close>

text \<open>
  Claim C3 at a concrete input. A first request carries only the TMSI \<open>aabbccdd\<close> and
  creates record 1; a second carries only an IMSI and creates record 2; a third carries
  that IMSI and the TMSI, resolves to record 2 by the IMSI, and \<open>associateTmsi\<close>
  repoints the TMSI index to record 2 without clearing the field of record 1. Record 1
  then holds a TMSI that the index maps to record 2.
\<close>

theorem tmsi_conflict_keeps_stale_field:
  "field_of tmsi_reassigned 1 tmsi = Some ''aabbccdd'' \<and>
   tmsi_to_subscriber_id tmsi_reassigned ''aabbccdd'' = Some 2 \<and>
   field_of tmsi_reassigned 2 tmsi = Some ''aabbccdd''"
  by code_simp

text \<open>The sibling path: the same sequence with an MME-UE-S1AP-ID in place of the TMSI
  clears the field of record 1.\<close>

lemma mme_conflict_clears_field:
  "field_of mme_reassigned 1 mme_ue_s1ap_id = None \<and>
   mme_ue_s1ap_id_to_subscriber_id mme_reassigned 77 = Some 2 \<and>
   field_of mme_reassigned 2 mme_ue_s1ap_id = Some 77"
  by code_simp

lemma word_one_le: "k \<noteq> 0 \<Longrightarrow> 1 \<le> (k :: sub_id)"
  by (simp add: word_le_nat_alt unat_gt_0 Suc_leI)

subsection \<open>C10: records are never deleted, ids are never reused\<close>

text \<open>
  Claim C10. No operation of the store removes a key from the record table, whatever
  the store is. A fresh correlator has no record and the counter 1. After any sequence of
  fewer than \<open>2^64 - 2\<close> operations (so that the 64-bit counter has not wrapped),
  every record id is at least 1 and below the counter; one more operation either
  creates no record and leaves the counter, or creates exactly the record whose id is
  the counter, which no record had, and moves the counter up.
\<close>

theorem records_never_deleted_ids_increasing:
  "record_ids s \<subseteq> record_ids (apply_op s op) \<and>
   next_subscriber_id (run_ops []) = 1 \<and> record_ids (run_ops []) = {} \<and>
   (length ops < 2 ^ 64 - 2 \<longrightarrow>
      (\<forall>k \<in> record_ids (run_ops ops). 1 \<le> k \<and> k < next_subscriber_id (run_ops ops)) \<and>
      (record_ids (run_ops (ops @ [op])) = record_ids (run_ops ops) \<and>
         next_subscriber_id (run_ops (ops @ [op])) = next_subscriber_id (run_ops ops)
       \<or> record_ids (run_ops (ops @ [op])) =
           insert (next_subscriber_id (run_ops ops)) (record_ids (run_ops ops)) \<and>
         next_subscriber_id (run_ops ops) \<notin> record_ids (run_ops ops) \<and>
         next_subscriber_id (run_ops (ops @ [op])) = next_subscriber_id (run_ops ops) + 1 \<and>
         next_subscriber_id (run_ops ops) < next_subscriber_id (run_ops (ops @ [op]))))"
proof (intro conjI impI)
  show "record_ids s \<subseteq> record_ids (apply_op s op)" by (rule apply_op_grows)
  show "next_subscriber_id (run_ops []) = 1"
    by (simp add: run_ops_def new_correlator_def)
  show "record_ids (run_ops []) = {}"
    by (simp add: run_ops_def new_correlator_def record_ids_def)
next
  assume len: "length ops < 2 ^ 64 - 2"
  note ok = run_ops_ok [OF len]
  from ok show "\<forall>k \<in> record_ids (run_ops ops). 1 \<le> k \<and> k < next_subscriber_id (run_ops ops)"
    by (auto simp: ids_ok_def intro: word_one_le)
  from len ok have "unat (next_subscriber_id (run_ops ops)) < 2 ^ 64 - 1" by simp
  then have nw: "next_subscriber_id (run_ops ops) + 1 \<noteq> 0" by (rule counter_room)
  have fresh: "next_subscriber_id (run_ops ops) \<notin> record_ids (run_ops ops)"
    using ok by (auto simp: ids_ok_def)
  from ok have "id_step (run_ops ops) (run_ops (ops @ [op]))"
    using apply_op_step [OF _ _ nw, of op] by (simp add: run_ops_snoc)
  then show "record_ids (run_ops (ops @ [op])) = record_ids (run_ops ops) \<and>
         next_subscriber_id (run_ops (ops @ [op])) = next_subscriber_id (run_ops ops)
       \<or> record_ids (run_ops (ops @ [op])) =
           insert (next_subscriber_id (run_ops ops)) (record_ids (run_ops ops)) \<and>
         next_subscriber_id (run_ops ops) \<notin> record_ids (run_ops ops) \<and>
         next_subscriber_id (run_ops (ops @ [op])) = next_subscriber_id (run_ops ops) + 1 \<and>
         next_subscriber_id (run_ops ops) < next_subscriber_id (run_ops (ops @ [op]))"
    using fresh word_less_succ_self [OF nw] by (auto simp: id_step_def)
qed

theorem records_never_deleted_ids_increasing_witness:
  "length [GetOrCreateSubscriber (Some ''001010123456789'') None None (Some 77) None None]
     < 2 ^ 64 - 2 \<and>
   next_subscriber_id
     (run_ops [GetOrCreateSubscriber (Some ''001010123456789'') None None (Some 77) None None])
   \<le> next_subscriber_id
     (run_ops ([GetOrCreateSubscriber (Some ''001010123456789'') None None (Some 77) None None]
               @ [RemoveImsiAssociation ''001010123456789'']))"
proof -
  have len: "length [GetOrCreateSubscriber (Some ''001010123456789'') None None (Some 77) None None]
     < 2 ^ 64 - 2"
    by simp
  from records_never_deleted_ids_increasing
         [of _ "RemoveImsiAssociation ''001010123456789''"
            "[GetOrCreateSubscriber (Some ''001010123456789'') None None (Some 77) None None]"]
    len
  show ?thesis by auto
qed

section \<open>Rule engine: proofs\<close>








subsection \<open>Scanning the pending states\<close>






subsection \<open>Processing a message through all rulesets\<close>


lemma single_message_events_simps [simp]:
  "single_message_events [] m key = []"
  "single_message_events (rs # rss) m key =
     check_single_message_rules m rs key (single_message_rules rs) @
     single_message_events rss m key"
  "single_message_events (pre @ post) m key =
     single_message_events pre m key @ single_message_events post m key"
  by (simp_all add: single_message_events_def)







subsection \<open>C4: sequence rule within its window\<close>





section \<open>Write-ahead log: proofs\<close>

subsection \<open>C5: offsets of consecutive appends\<close>

text \<open>Away from a rotation and with a record that serialises, \<open>append\<close> returns the
  segment's \<open>current_offset\<close> and leaves it one higher.\<close>

lemma write_record_keeps:
  assumes "log_file seg" "idx_file seg"
  shows "\<exists>s' seg'. write_record env s seg off bytes now = (s', Inr seg') \<and>
           current_offset seg' = current_offset seg \<and> active_segments s' = active_segments s \<and>
           config s' = config s"
  using assms
  by (auto simp: write_record_def Let_def write_log_def write_idx_def flush_segment_buffers_def
        split: prod.splits sum.splits if_splits)

lemma append_assigns_current_offset:
  assumes p: "partition_for_message env s m = Inr p"
    and seg: "active_segments s p = Some seg"
    and room: "file_size seg < max_segment_size (config s)"
    and ser: "SerializeToString env \<lparr>partition = p, offset = current_offset seg, message = m\<rparr>
                = Some bytes"
    and handles: "log_file seg" "idx_file seg"
  shows "snd (append env s m now) = Inr (p, current_offset seg) \<and>
         map_option current_offset (active_segments (fst (append env s m now)) p) =
           Some (current_offset seg + 1)"
proof -
  have g: "get_or_create_segment env s p now = (s, Inr seg)"
    using seg room by (simp add: get_or_create_segment_def)
  obtain s' seg' where w:
    "write_record env (store_segment s p (seg\<lparr>current_offset := current_offset seg + 1\<rparr>))
       (seg\<lparr>current_offset := current_offset seg + 1\<rparr>) (current_offset seg) bytes now
     = (s', Inr seg')"
    "current_offset seg' = current_offset seg + 1"
    using write_record_keeps [of "seg\<lparr>current_offset := current_offset seg + 1\<rparr>" env
            "store_segment s p (seg\<lparr>current_offset := current_offset seg + 1\<rparr>)"
            "current_offset seg" bytes now] handles
    by auto
  show ?thesis
    using w(2) by (simp add: append_def p g ser Let_def w(1)) (simp add: store_segment_def)
qed

text \<open>
  Claim C5 at a segment rotation. With \<open>max_segment_size = 16\<close>, a first append of a
  12-byte record returns offset 0 and brings the segment's \<open>file_size\<close> to 16; the
  second append finds the size limit reached, rotates, and dereferences the end
  iterator of \<open>active_segments_\<close>: it returns no offset.
\<close>

theorem append_rotation_undefined:
  "snd (append example_env (new_WALLog small_config) (msg 1 12) 0) = Inr (0, 0) \<and>
   map_option file_size (active_segments after_one_append 0) = Some 16 \<and>
   max_segment_size (config after_one_append) = 16 \<and>
   snd (append example_env after_one_append (msg 2 12) 1) = Inl UndefinedBehaviour"
  by (simp add: after_one_append_def append_def partition_for_message_def new_WALLog_def
        small_config_def example_env_def msg_def get_or_create_segment_def
        open_segment_files_def write_log_def write_idx_def files_of_def Let_def
        write_record_def store_segment_def log_bytes_def idx_bytes_def BUFFER_SIZE_def
        INDEX_ENTRY_SIZE_def flush_segment_buffers_def rotate_segment_def)

subsection \<open>C6: a failed append and \<open>current_offset\<close>\<close>

text \<open>A record that does not serialise: the call throws after \<open>current_offset++\<close>,
  and the segment keeps the incremented offset.\<close>

lemma failed_append_keeps_increment:
  assumes p: "partition_for_message env s m = Inr p"
    and seg: "active_segments s p = Some seg"
    and room: "file_size seg < max_segment_size (config s)"
    and ser: "SerializeToString env \<lparr>partition = p, offset = current_offset seg, message = m\<rparr>
                = None"
  shows "snd (append env s m now) = Inl (RuntimeError ''Failed to serialize SpoolRecord'') \<and>
         map_option current_offset (active_segments (fst (append env s m now)) p) =
           Some (current_offset seg + 1)"
proof -
  have g: "get_or_create_segment env s p now = (s, Inr seg)"
    using seg room by (simp add: get_or_create_segment_def)
  show ?thesis
    by (simp add: append_def p g ser Let_def store_segment_def)
qed

text \<open>
  Claim C6 at a serialisation failure on a fresh log. The failed call, which would have
  used offset 0, throws after the increment; the segment's \<open>current_offset\<close> is 1,
  and the next successful append returns offset 1: offset 0 is never issued.
\<close>

theorem failed_append_advances_offset:
  "snd (append example_env (new_WALLog small_config) (msg 1 1001) 0) =
     Inl (RuntimeError ''Failed to serialize SpoolRecord'') \<and>
   map_option current_offset (active_segments after_failed_append 0) = Some 1 \<and>
   snd (append example_env after_failed_append (msg 2 12) 1) = Inr (0, 1)"
  by (simp add: after_failed_append_def append_def partition_for_message_def new_WALLog_def
        small_config_def example_env_def msg_def get_or_create_segment_def
        open_segment_files_def write_log_def write_idx_def files_of_def Let_def
        write_record_def store_segment_def log_bytes_def idx_bytes_def BUFFER_SIZE_def
        INDEX_ENTRY_SIZE_def flush_segment_buffers_def rotate_segment_def)

subsection \<open>C8: pruning\<close>

text \<open>
  Claim C8 on a log whose partition 0 has two closed segments and 208 bytes on disk
  against \<open>max_retention_bytes = 10\<close>: after \<open>prune_old_segments\<close> all three
  segments are still on disk.
\<close>

theorem prune_removes_nothing:
  "closed_segments over_retention 0 = [(0, 0), (0, 1)] \<and>
   int (partition_bytes over_retention 0) = 208 \<and>
   max_retention_bytes (config over_retention) = 10 \<and>
   map fst (disk (prune_old_segments over_retention)) = [(0, 0), (0, 1), (0, 2)]"
  by (simp add: closed_segments_def over_retention_def partition_bytes_def segment_bytes_def
        files_of_def log_bytes_def small_config_def prune_old_segments_def)


section \<open>The codec: what \<open>decode\<close> reads and what it fills\<close>

subsection \<open>Reads of \<open>extractS1apFromSctp\<close>\<close>

lemma rd_inside: "i < length bytes \<Longrightarrow> rd bytes i = Inr (bytes ! i)"
  by (simp add: rd_def)

text \<open>Every read of \<open>extractS1apFromSctp\<close> is behind a length check, so it returns on
  every packet.\<close>

lemma vlan_tag_returns: "\<exists>r. vlan_tag packet eth_type off = Inr r"
  by (simp add: vlan_tag_def bind_res_def rd_inside)

lemma ipv6_ext_headers_returns: "\<exists>r. ipv6_ext_headers packet left protocol off = Inr r"
proof (induction left arbitrary: protocol off)
  case 0
  show ?case by simp
next
  case (Suc left)
  show ?case
    using Suc.IH by (simp add: rd_inside Let_def)
qed

lemma ip_header_returns: "\<exists>r. ip_header packet eth_type off = Inr r"
  using ipv6_ext_headers_returns by (simp add: ip_header_def bind_res_def rd_inside Let_def)

lemma sctp_chunk_returns:
  assumes "off + 4 \<le> length packet"
  shows "\<exists>r. sctp_chunk packet off = Inr r"
  using assms by (simp add: sctp_chunk_def bind_res_def rd_inside Let_def)

lemma sctp_chunks_returns: "\<exists>r. sctp_chunks packet off = Inr r"
proof (induction packet off rule: sctp_chunks.induct)
  case (1 packet off)
  show ?case
  proof (cases "off + 4 \<le> length packet")
    case False
    then show ?thesis by (simp add: sctp_chunks.simps [of packet off])
  next
    case True
    from sctp_chunk_returns [OF True] obtain r where r: "sctp_chunk packet off = Inr r" ..
    show ?thesis
    proof (cases r)
      case (Inl found)
      with True r show ?thesis by (simp add: sctp_chunks.simps [of packet off])
    next
      case (Inr next_chunk)
      with True r "1.IH" [of r next_chunk] show ?thesis
        by (simp add: sctp_chunks.simps [of packet off])
    qed
  qed
qed

lemma extractS1apFromSctp_returns: "\<exists>r. extractS1apFromSctp packet = Inr r"
proof (cases "length packet < 14")
  case True
  then show ?thesis by (simp add: extractS1apFromSctp_def)
next
  case False
  obtain eth_type off
    where v: "vlan_tag packet (be16 (packet ! 12) (packet ! 13)) 14 = Inr (eth_type, off)"
    using vlan_tag_returns by (metis surj_pair)
  obtain h where h: "ip_header packet eth_type off = Inr h"
    using ip_header_returns by blast
  show ?thesis
    using False v h
    by (simp add: extractS1apFromSctp_def bind_res_def rd_inside sctp_chunks_returns
        split: option.splits)
qed

subsection \<open>C9: the reads of \<open>parseS1apPdu\<close>\<close>

text \<open>The empty buffer: \<open>decode\<close> sets the flag, keeps the (empty) raw bytes and returns
  false.\<close>

lemma decode_empty_buffer:
  "decode [] cm = Inr (False, cm\<lparr>decode_failed := True, cm_raw_bytes := []\<rparr>)"
  by (simp add: decode_def)

text \<open>
  A buffer of four bytes whose first byte has a choice index of 0, 1 or 2 is too short
  for an SCTP packet and is parsed as it is; \<open>parseS1apPdu\<close> reads the length byte at
  index 3, moves on and reads \<open>second_byte\<close> at index 4, past the end.
\<close>

lemma short_pdu_reads_past_buffer:
  assumes "length bytes = 4" and "drop_bit 5 (bytes ! 0) AND 3 \<le> 2"
  shows "decode bytes cm = Inl (OutOfBounds 4)"
proof -
  from assms(1) have none: "extractS1apFromSctp bytes = Inr None"
    by (simp add: extractS1apFromSctp_def)
  from assms have "parseS1apPdu bytes = Inl (OutOfBounds 4)"
    by (simp add: parseS1apPdu_def bind_res_def rd_def sequence_length_def Let_def)
  with assms(1) none show ?thesis
    by (auto simp add: decode_def bind_res_def)
qed

text \<open>
  Claim C9 (\<open>decode\<close> returns for every buffer and no byte access leaves the buffer) at
  the four bytes \<open>00 0C 40 00\<close>: \<open>decode\<close> does not return a result there, it reads the
  byte at index 4 of a buffer of length 4.
\<close>

theorem decode_reads_past_buffer:
  "length truncated_pdu = 4 \<and> decode truncated_pdu blank_message = Inl (OutOfBounds 4)"
  by (simp add: decode_def truncated_pdu_def extractS1apFromSctp_def parseS1apPdu_def
      bind_res_def rd_def sequence_length_def Let_def S1apPduType_of_def)

subsection \<open>C7: the TMSI of the canonical message\<close>

text \<open>\<open>decode\<close> takes the TMSI from \<open>extractTmsiFromS1apBytes\<close>, which returns no TMSI:
  whenever \<open>decode\<close> returns, the TMSI of the message is the one it had before.\<close>

lemma decode_keeps_tmsi:
  assumes "decode bytes cm = Inr (ok, cm')"
  shows "cm_tmsi cm' = cm_tmsi cm"
  using assms
  by (auto simp add: decode_def bind_res_def Let_def extractImsiFromS1apBytes_def
      extractTmsiFromS1apBytes_def extractImeisvFromS1apBytes_def
      split: sum.splits if_splits)

lemma s_tmsi_pdu_not_sctp: "extractS1apFromSctp s_tmsi_pdu = Inr None"
  by (simp add: extractS1apFromSctp_def s_tmsi_pdu_def bind_res_def rd_def be16_def
      vlan_tag_def ip_header_def)

lemma s_tmsi_name: "getIeNameFromId 96 = ''S-TMSI''"
  by (simp add: getIeNameFromId_def ie_names_def)

lemma initial_ue_name: "getProcedureCodeName 12 = ''initialUEMessage''"
  by (simp add: getProcedureCodeName_def procedure_code_names_def)

lemma initial_ue_msg_type:
  "map_procedure_to_msg_type 12 INITIATING_MESSAGE ''initialUEMessage'' = ''initialUEMessage''"
  by (simp add: map_procedure_to_msg_type_def msg_type_names_def)

lemma s_tmsi_pdu_parse:
  "parseS1apPdu s_tmsi_pdu =
     Inr \<lparr>decoded = True, pdu_type = INITIATING_MESSAGE, procedure_code = 12,
          procedure_name = ''initialUEMessage'',
          information_elements = [(''S-TMSI'', ''00deadbeef'')],
          raw_bytes = s_tmsi_pdu, s1ap_payload = s_tmsi_pdu\<rparr>"
  by (simp add: parseS1apPdu_def s_tmsi_pdu_def bind_res_def rd_def Let_def S1apPduType_of_def
      sequence_length_def initial_ue_name protocol_ie_def be16_def open_type_length_def
      s_tmsi_name hex_of_def hex_byte_def hex_digit_def)

text \<open>
  Claim C7 at an initialUEMessage whose S-TMSI element is \<open>00 DE AD BE EF\<close>: the parser
  finds the element, \<open>decode\<close> succeeds and names the message, and the TMSI of the
  canonical message is still empty. \<open>extractTmsiFromIEList\<close>, which \<open>decode\<close> does not
  call, takes the m-TMSI from the same element (in upper case).
\<close>

theorem decode_leaves_tmsi_unset:
  "decode s_tmsi_pdu blank_message =
     Inr (True, \<lparr>spool_partition = 0, spool_offset = 0, frame_number = 0,
                 cm_procedure_code = 12, msg_type = ''initialUEMessage'',
                 cm_imsi = [], cm_tmsi = [], cm_imei = [],
                 cm_raw_bytes = s_tmsi_pdu, decode_failed = False\<rparr>) \<and>
   map_sum id information_elements (parseS1apPdu s_tmsi_pdu) =
     Inr [(''S-TMSI'', ''00deadbeef'')] \<and>
   extractTmsiFromIEList [(''S-TMSI'', ''00deadbeef'')] = [''DEADBEEF'']"
proof (intro conjI)
  have "s_tmsi_pdu \<noteq> []"
    by (simp add: s_tmsi_pdu_def)
  then show "decode s_tmsi_pdu blank_message =
     Inr (True, \<lparr>spool_partition = 0, spool_offset = 0, frame_number = 0,
                 cm_procedure_code = 12, msg_type = ''initialUEMessage'',
                 cm_imsi = [], cm_tmsi = [], cm_imei = [],
                 cm_raw_bytes = s_tmsi_pdu, decode_failed = False\<rparr>)"
    by (simp add: decode_def s_tmsi_pdu_not_sctp s_tmsi_pdu_parse bind_res_def Let_def
        initial_ue_msg_type extractImsiFromS1apBytes_def extractTmsiFromS1apBytes_def
        extractImeisvFromS1apBytes_def blank_message_def)
  show "map_sum id information_elements (parseS1apPdu s_tmsi_pdu) =
     Inr [(''S-TMSI'', ''00deadbeef'')]"
    by (simp add: s_tmsi_pdu_parse)
  show "extractTmsiFromIEList [(''S-TMSI'', ''00deadbeef'')] = [''DEADBEEF'']"
    by (simp add: extractTmsiFromIEList_def Let_def isxdigit_def isdigit_def toupper_def
        char_of_eq_iff)
qed

end
